theory Spec2Isabelle
  imports Main "HOL-Library.Word" "HOL-Library.Signed_Division"
begin

section \<open>MATE clipboard manager: items, labels and the SQLite history\<close>

text \<open>
  The development embeds \<^verbatim>\<open>clipman-item.c\<close>, \<^verbatim>\<open>clipman-storage.c\<close> and the
  \<^verbatim>\<open>on_clipboard_empty\<close> handler of \<^verbatim>\<open>clipman-applet.c\<close>.

  A C string is modelled by the bytes before its terminator (\<^typ>\<open>string\<close>, a list of
  8-bit \<^typ>\<open>char\<close>), a nullable pointer by \<^typ>\<open>'a option\<close> with \<^term>\<open>None\<close>
  for \<^verbatim>\<open>NULL\<close>. What GLib, GdkPixbuf and SQLite do is written out from their
  documentation; SHA-1 and the PNG codec are parameters of the model.
\<close>

subsection \<open>GLib string helpers used by the label code\<close>

definition g_ascii_isspace :: "char \<Rightarrow> bool" where
  \<comment> \<open>the bytes with the \<^verbatim>\<open>G_ASCII_SPACE\<close> bit in GLib's \<^verbatim>\<open>ascii_table_data\<close>: space,
      \<^verbatim>\<open>\t\<close>, \<^verbatim>\<open>\n\<close>, \<^verbatim>\<open>\f\<close>, \<^verbatim>\<open>\r\<close>. The vertical tab \<^verbatim>\<open>0x0B\<close> has no such bit, unlike in C's
      \<^verbatim>\<open>isspace\<close>.\<close>
  "g_ascii_isspace c \<longleftrightarrow>
     c = CHR '' '' \<or> c = CHR 0x09 \<or> c = CHR 0x0A \<or> c = CHR 0x0C \<or> c = CHR 0x0D"

definition g_strchug :: "string \<Rightarrow> string" where
  "g_strchug s = dropWhile g_ascii_isspace s"

definition g_strchomp :: "string \<Rightarrow> string" where
  "g_strchomp s = rev (dropWhile g_ascii_isspace (rev s))"

definition g_strstrip :: "string \<Rightarrow> string" where
  \<comment> \<open>the macro \<^verbatim>\<open>g_strchomp (g_strchug (s))\<close>\<close>
  "g_strstrip s = g_strchomp (g_strchug s)"

definition g_utf8_skip :: "char \<Rightarrow> nat" where
  \<comment> \<open>GLib's table \<^verbatim>\<open>g_utf8_skip\<close>: the length of a UTF-8 sequence from its first byte\<close>
  "g_utf8_skip c =
     (let b = (of_char c :: nat) in
      if b < 0xC0 then 1
      else if b < 0xE0 then 2
      else if b < 0xF0 then 3
      else if b < 0xF8 then 4
      else if b < 0xFC then 5
      else if b < 0xFE then 6
      else 1)"

function g_utf8_strlen :: "string \<Rightarrow> nat" where
  \<comment> \<open>\<^verbatim>\<open>g_utf8_strlen (p, -1)\<close>: \<^verbatim>\<open>while (*p) { p = g_utf8_next_char (p); ++len; }\<close>.
      A lead byte that announces more bytes than the string has would take the C pointer
      past the terminator; the model stops at the end of the string.\<close>
  "g_utf8_strlen [] = 0"
| "g_utf8_strlen (c # cs) = Suc (g_utf8_strlen (drop (g_utf8_skip c - 1) cs))"
  by pat_completeness auto
termination
  by (relation "measure length") auto

fun utf8_advance :: "nat \<Rightarrow> string \<Rightarrow> nat" where
  \<comment> \<open>the number of bytes that \<^verbatim>\<open>while (offset--) s = g_utf8_next_char (s);\<close> moves over;
      as in \<^term>\<open>g_utf8_strlen\<close> the model stops at the end of the string\<close>
  "utf8_advance 0 s = 0"
| "utf8_advance (Suc n) [] = 0"
| "utf8_advance (Suc n) (c # cs) =
     min (g_utf8_skip c) (Suc (length cs)) + utf8_advance n (drop (g_utf8_skip c - 1) cs)"

definition g_utf8_offset_to_pointer :: "string \<Rightarrow> int \<Rightarrow> nat" where
  \<comment> \<open>The result is the distance of the returned pointer from \<^verbatim>\<open>str\<close>. A negative offset
      makes GLib walk backwards from \<^verbatim>\<open>str\<close>, out of the buffer; that branch is not
      reached from \<^verbatim>\<open>create_label (text, 50)\<close> and is fixed to 0 here.\<close>
  "g_utf8_offset_to_pointer str offset = (if offset > 0 then utf8_advance (nat offset) str else 0)"

subsection \<open>Label derivation (\<^verbatim>\<open>create_label\<close>)\<close>

definition replace_newlines_tabs :: "string \<Rightarrow> string" where
  \<comment> \<open>the first loop: \<^verbatim>\<open>\n\<close>, \<^verbatim>\<open>\r\<close>, \<^verbatim>\<open>\t\<close> become a space\<close>
  "replace_newlines_tabs s =
     map (\<lambda>c. if c = CHR 0x0A \<or> c = CHR 0x0D \<or> c = CHR 0x09 then CHR '' '' else c) s"

fun collapse_spaces :: "bool \<Rightarrow> string \<Rightarrow> string" where
  \<comment> \<open>the second loop; the flag is \<^verbatim>\<open>prev_space\<close>\<close>
  "collapse_spaces prev_space [] = []"
| "collapse_spaces prev_space (c # src) =
     (if c = CHR '' ''
      then (if \<not> prev_space then c # collapse_spaces True src else collapse_spaces True src)
      else c # collapse_spaces False src)"

definition normalized :: "string \<Rightarrow> string" where
  \<comment> \<open>the buffer \<^verbatim>\<open>normalized\<close> after \<^verbatim>\<open>g_strstrip\<close>\<close>
  "normalized text = g_strstrip (collapse_spaces False (replace_newlines_tabs text))"

definition create_label :: "string option \<Rightarrow> 64 word \<Rightarrow> string" where
  \<comment> \<open>\<^verbatim>\<open>max_len\<close> is a \<^verbatim>\<open>gsize\<close>; \<^verbatim>\<open>max_len - 3\<close> is passed as a \<^verbatim>\<open>glong\<close>\<close>
  "create_label text max_len =
     (case text of
        None \<Rightarrow> ''''
      | Some t \<Rightarrow>
          let n = normalized t; len = g_utf8_strlen n in
          if len > unat max_len
          then take (g_utf8_offset_to_pointer n (sint (max_len - 3))) n @ ''...''
          else n)"

subsection \<open>Formatting helpers (\<^verbatim>\<open>printf\<close>, \<^verbatim>\<open>g_path_get_basename\<close>, \<^verbatim>\<open>g_strsplit\<close>)\<close>

fun decimal :: "nat \<Rightarrow> string" where
  "decimal n = (if n < 10 then [''0123456789'' ! n]
                else decimal (n div 10) @ [''0123456789'' ! (n mod 10)])"

declare decimal.simps [simp del]

definition printf_u :: "nat \<Rightarrow> string" where
  \<comment> \<open>\<^verbatim>\<open>%u\<close>\<close>
  "printf_u n = decimal n"

definition printf_d :: "int \<Rightarrow> string" where
  \<comment> \<open>\<^verbatim>\<open>%d\<close>\<close>
  "printf_d i = (if i < 0 then CHR ''-'' # decimal (nat (- i)) else decimal (nat i))"

definition g_path_get_basename :: "string \<Rightarrow> string" where
  \<comment> \<open>GLib on Unix: \<^verbatim>\<open>"."\<close> for the empty name, \<^verbatim>\<open>"/"\<close> for a name of slashes only,
      otherwise the last component with trailing slashes removed\<close>
  "g_path_get_basename file_name =
     (if file_name = [] then ''.''
      else let t = rev (dropWhile (\<lambda>c. c = CHR ''/'') (rev file_name)) in
           if t = [] then ''/''
           else rev (takeWhile (\<lambda>c. c \<noteq> CHR ''/'') (rev t)))"

fun split_at_newlines :: "string \<Rightarrow> string list" where
  "split_at_newlines [] = [[]]"
| "split_at_newlines (c # cs) =
     (if c = CHR 0x0A then [] # split_at_newlines cs
      else (case split_at_newlines cs of
              [] \<Rightarrow> [[c]]
            | p # ps \<Rightarrow> (c # p) # ps))"

definition g_strsplit_newline :: "string \<Rightarrow> string list" where
  \<comment> \<open>\<^verbatim>\<open>g_strsplit (text, "\n", -1)\<close>; splitting the empty string gives the empty vector\<close>
  "g_strsplit_newline text = (if text = [] then [] else split_at_newlines text)"

subsection \<open>Items (\<^verbatim>\<open>clipman-item.c\<close>)\<close>

datatype ClipmanItemType =
  CLIPMAN_ITEM_TYPE_TEXT | CLIPMAN_ITEM_TYPE_IMAGE | CLIPMAN_ITEM_TYPE_FILES

datatype ClipmanSource = CLIPMAN_SOURCE_CLIPBOARD | CLIPMAN_SOURCE_PRIMARY

record GdkPixbuf =
  pixbuf_width :: int
  pixbuf_height :: int
  pixbuf_pixels :: string

text \<open>
  The library functions whose results the code only passes on:
  \<^verbatim>\<open>g_compute_checksum_for_data (G_CHECKSUM_SHA1, ...)\<close>,
  \<^verbatim>\<open>gdk_pixbuf_save_to_buffer (..., "png", ...)\<close> (\<^term>\<open>None\<close> when it returns
  \<^verbatim>\<open>FALSE\<close>) and \<^verbatim>\<open>gdk_pixbuf_new_from_stream\<close> (\<^term>\<open>None\<close> for \<^verbatim>\<open>NULL\<close>).
\<close>

record externals =
  sha1 :: "string \<Rightarrow> string"
  png_save :: "GdkPixbuf \<Rightarrow> string option"
  png_load :: "string \<Rightarrow> GdkPixbuf option"

record ClipmanItem =
  item_id :: int
  item_type :: ClipmanItemType
  item_source :: ClipmanSource
  item_text :: "string option"
  item_pixbuf :: "GdkPixbuf option"
  item_uris :: "string list option"
  item_checksum :: string
  item_label :: string

text \<open>
  The \<^verbatim>\<open>timestamp\<close> field (\<^verbatim>\<open>g_date_time_new_now_local ()\<close> at construction) is read by
  none of the functions below and is left out. The format strings go through
  \<^verbatim>\<open>gettext\<close>; the model uses the untranslated message ids.
\<close>

definition compute_checksum :: "externals \<Rightarrow> string \<Rightarrow> string" where
  "compute_checksum ext data = sha1 ext data"

definition clipman_item_new_text :: "externals \<Rightarrow> string option \<Rightarrow> ClipmanSource \<Rightarrow> ClipmanItem option" where
  "clipman_item_new_text ext text source =
     (case text of
        None \<Rightarrow> None
      | Some t \<Rightarrow>
          Some \<lparr> item_id = 0, item_type = CLIPMAN_ITEM_TYPE_TEXT, item_source = source,
                 item_text = Some t, item_pixbuf = None, item_uris = None,
                 item_checksum = compute_checksum ext t,
                 item_label = create_label (Some t) 50 \<rparr>)"

definition clipman_item_new_image :: "externals \<Rightarrow> GdkPixbuf option \<Rightarrow> ClipmanSource \<Rightarrow> ClipmanItem option" where
  "clipman_item_new_image ext pixbuf source =
     (case pixbuf of
        None \<Rightarrow> None
      | Some pb \<Rightarrow>
          Some \<lparr> item_id = 0, item_type = CLIPMAN_ITEM_TYPE_IMAGE, item_source = source,
                 item_text = None, item_pixbuf = Some pb, item_uris = None,
                 item_checksum =
                   (case png_save ext pb of
                      Some buffer \<Rightarrow> compute_checksum ext buffer
                    | None \<Rightarrow> compute_checksum ext
                               (printf_d (pixbuf_width pb) @ ''x'' @ printf_d (pixbuf_height pb))),
                 item_label = ''[Image '' @ printf_d (pixbuf_width pb) @ ''x''
                                @ printf_d (pixbuf_height pb) @ '']'' \<rparr>)"

fun join_uris :: "string \<Rightarrow> string list \<Rightarrow> string" where
  \<comment> \<open>the loop over \<^verbatim>\<open>uris\<close>; the first argument is \<^verbatim>\<open>joined\<close> so far\<close>
  "join_uris joined [] = joined"
| "join_uris joined (p # ps) =
     join_uris ((if length joined > 0 then joined @ [CHR 0x0A] else joined) @ p) ps"

definition clipman_item_new_files :: "externals \<Rightarrow> string list option \<Rightarrow> ClipmanSource \<Rightarrow> ClipmanItem option" where
  \<comment> \<open>\<^verbatim>\<open>count\<close> is a \<^verbatim>\<open>guint\<close>\<close>
  "clipman_item_new_files ext uris source =
     (case uris of
        None \<Rightarrow> None
      | Some us \<Rightarrow>
          let joined = join_uris [] us; count = length us mod 2 ^ 32 in
          Some \<lparr> item_id = 0, item_type = CLIPMAN_ITEM_TYPE_FILES, item_source = source,
                 item_text = Some joined, item_pixbuf = None, item_uris = Some us,
                 item_checksum = compute_checksum ext joined,
                 item_label =
                   (if count = 1
                    then ''[File: '' @ g_path_get_basename (us ! 0) @ '']''
                    else ''['' @ printf_u count @ '' files]'') \<rparr>)"

definition clipman_item_set_id :: "ClipmanItem \<Rightarrow> int \<Rightarrow> ClipmanItem" where
  "clipman_item_set_id self i = self\<lparr>item_id := i\<rparr>"

definition clipman_item_equals :: "ClipmanItem \<Rightarrow> ClipmanItem \<Rightarrow> bool" where
  \<comment> \<open>\<^verbatim>\<open>g_strcmp0 (self->checksum, other->checksum) == 0\<close>\<close>
  "clipman_item_equals self other \<longleftrightarrow> item_checksum self = item_checksum other"

subsection \<open>The \<^verbatim>\<open>items\<close> table\<close>

text \<open>
  One row of \<^verbatim>\<open>items\<close>. The \<^verbatim>\<open>type\<close> and \<^verbatim>\<open>source\<close> columns hold the enum
  ordinals, kept here as the enum values; a nullable column is an \<^typ>\<open>'a option\<close>.
\<close>

record Row =
  row_id :: int
  row_type :: ClipmanItemType
  row_source :: ClipmanSource
  row_checksum :: string
  row_label :: string
  row_text_content :: "string option"
  row_image_data :: "string option"
  row_timestamp :: int

text \<open>
  The database: the rows in insertion order and the \<^verbatim>\<open>sqlite_sequence\<close> entry of the
  table, the largest row id that \<^verbatim>\<open>AUTOINCREMENT\<close> has handed out.
\<close>

record sqlite3 =
  db_rows :: "Row list"
  db_sequence :: int

datatype sql_statement =
  SELECT_ID_BY_CHECKSUM | UPDATE_TIMESTAMP | INSERT_ITEM | DELETE_ITEM
  | SELECT_ITEMS | SELECT_BY_CHECKSUM

text \<open>
  Whether \<^verbatim>\<open>sqlite3_prepare_v2\<close> returns \<^verbatim>\<open>SQLITE_OK\<close> and whether
  \<^verbatim>\<open>sqlite3_step\<close> runs the statement (no I/O error, lock, full disk or exhausted
  row ids) is given from outside, per statement. A violated \<^verbatim>\<open>UNIQUE\<close> constraint is
  decided by the table itself.
\<close>

record sqlite_outcome =
  prepare_ok :: "sql_statement \<Rightarrow> bool"
  step_ok :: "sql_statement \<Rightarrow> bool"

definition sqlite_healthy :: sqlite_outcome where
  "sqlite_healthy = \<lparr> prepare_ok = (\<lambda>_. True), step_ok = (\<lambda>_. True) \<rparr>"

definition empty_db :: sqlite3 where
  "empty_db = \<lparr> db_rows = [], db_sequence = 0 \<rparr>"

definition select_id_by_checksum :: "sqlite3 \<Rightarrow> string \<Rightarrow> int option" where
  \<comment> \<open>\<^verbatim>\<open>SELECT id FROM items WHERE checksum = ?\<close>, first result row\<close>
  "select_id_by_checksum db c =
     (case filter (\<lambda>r. row_checksum r = c) (db_rows db) of
        [] \<Rightarrow> None
      | r # _ \<Rightarrow> Some (row_id r))"

definition update_timestamp :: "sqlite3 \<Rightarrow> int \<Rightarrow> int \<Rightarrow> sqlite3" where
  \<comment> \<open>\<^verbatim>\<open>UPDATE items SET timestamp = ? WHERE id = ?\<close>\<close>
  "update_timestamp db ts i =
     db\<lparr>db_rows := map (\<lambda>r. if row_id r = i then r\<lparr>row_timestamp := ts\<rparr> else r) (db_rows db)\<rparr>"

definition next_rowid :: "sqlite3 \<Rightarrow> int" where
  \<comment> \<open>\<^verbatim>\<open>AUTOINCREMENT\<close>: one more than the largest row id the table has ever held\<close>
  "next_rowid db = foldr max (map row_id (db_rows db)) (db_sequence db) + 1"

definition insert_row :: "sqlite3 \<Rightarrow> Row \<Rightarrow> (sqlite3 \<times> int) option" where
  \<comment> \<open>\<^verbatim>\<open>INSERT INTO items (...)\<close>; \<^term>\<open>None\<close> is \<^verbatim>\<open>SQLITE_CONSTRAINT\<close> on the
      \<^verbatim>\<open>UNIQUE\<close> checksum. The second component is \<^verbatim>\<open>sqlite3_last_insert_rowid\<close>.\<close>
  "insert_row db r =
     (if row_checksum r \<in> row_checksum ` set (db_rows db) then None
      else let i = next_rowid db in
           Some (db\<lparr>db_rows := db_rows db @ [r\<lparr>row_id := i\<rparr>], db_sequence := i\<rparr>, i))"

definition delete_by_id :: "sqlite3 \<Rightarrow> int \<Rightarrow> sqlite3" where
  \<comment> \<open>\<^verbatim>\<open>DELETE FROM items WHERE id = ?\<close>\<close>
  "delete_by_id db i = db\<lparr>db_rows := filter (\<lambda>r. row_id r \<noteq> i) (db_rows db)\<rparr>"

definition order_by_timestamp_desc :: "Row list \<Rightarrow> Row list" where
  \<comment> \<open>\<^verbatim>\<open>ORDER BY timestamp DESC\<close>. SQL leaves the order of rows with equal timestamps
      open; the model keeps them in table order, the order in which SQLite scans the rows.\<close>
  "order_by_timestamp_desc rs = sort_key (\<lambda>r. - row_timestamp r) rs"

subsection \<open>Storage (\<^verbatim>\<open>clipman-storage.c\<close>)\<close>

datatype storage_signal =
  SIGNAL_ITEM_ADDED ClipmanItem | SIGNAL_ITEM_REMOVED int | SIGNAL_CLEARED

definition row_of_item :: "externals \<Rightarrow> ClipmanItem \<Rightarrow> int \<Rightarrow> Row" where
  \<comment> \<open>the seven values bound to the \<^verbatim>\<open>INSERT\<close>; the id is assigned by the insert\<close>
  "row_of_item ext item ts =
     \<lparr> row_id = 0, row_type = item_type item, row_source = item_source item,
       row_checksum = item_checksum item, row_label = item_label item,
       row_text_content =
         (if item_type item = CLIPMAN_ITEM_TYPE_TEXT \<or> item_type item = CLIPMAN_ITEM_TYPE_FILES
          then item_text item else None),
       row_image_data =
         (if item_type item = CLIPMAN_ITEM_TYPE_TEXT \<or> item_type item = CLIPMAN_ITEM_TYPE_FILES
          then None
          else (case item_pixbuf item of None \<Rightarrow> None | Some pb \<Rightarrow> png_save ext pb)),
       row_timestamp = ts \<rparr>"

definition clipman_storage_add_item ::
  "externals \<Rightarrow> sqlite_outcome \<Rightarrow> int \<Rightarrow> sqlite3 \<Rightarrow> ClipmanItem
     \<Rightarrow> bool \<times> ClipmanItem \<times> sqlite3 \<times> storage_signal list" where
  \<comment> \<open>\<^verbatim>\<open>real_time\<close> is what \<^verbatim>\<open>g_get_real_time ()\<close> returns, in microseconds. The result is
      the return value, the item (its id is set through the pointer), the database and the
      signals emitted.\<close>
  "clipman_storage_add_item ext io real_time db item =
     (case (if prepare_ok io SELECT_ID_BY_CHECKSUM \<and> step_ok io SELECT_ID_BY_CHECKSUM
            then select_id_by_checksum db (item_checksum item) else None) of
        Some i \<Rightarrow>
          (True, clipman_item_set_id item i,
           (if prepare_ok io UPDATE_TIMESTAMP \<and> step_ok io UPDATE_TIMESTAMP
            then update_timestamp db (real_time sdiv 1000000) i else db),
           [])
      | None \<Rightarrow>
          if \<not> prepare_ok io INSERT_ITEM then (False, item, db, [])
          else (case (if step_ok io INSERT_ITEM
                      then insert_row db (row_of_item ext item (real_time sdiv 1000000))
                      else None) of
                  None \<Rightarrow> (False, item, db, [])
                | Some (db', i) \<Rightarrow>
                    (True, clipman_item_set_id item i, db',
                     [SIGNAL_ITEM_ADDED (clipman_item_set_id item i)])))"

definition clipman_storage_remove_item ::
  "sqlite_outcome \<Rightarrow> sqlite3 \<Rightarrow> int \<Rightarrow> bool \<times> sqlite3 \<times> storage_signal list" where
  "clipman_storage_remove_item io db i =
     (if \<not> prepare_ok io DELETE_ITEM then (False, db, [])
      else if step_ok io DELETE_ITEM
      then (True, delete_by_id db i, [SIGNAL_ITEM_REMOVED i])
      else (False, db, []))"

definition item_from_row :: "externals \<Rightarrow> Row \<Rightarrow> ClipmanItem option" where
  "item_from_row ext row =
     (let item =
        (case row_type row of
           CLIPMAN_ITEM_TYPE_TEXT \<Rightarrow>
             (case row_text_content row of
                None \<Rightarrow> None
              | Some text \<Rightarrow> clipman_item_new_text ext (Some text) (row_source row))
         | CLIPMAN_ITEM_TYPE_FILES \<Rightarrow>
             (case row_text_content row of
                None \<Rightarrow> None
              | Some text \<Rightarrow>
                  clipman_item_new_files ext (Some (g_strsplit_newline text)) (row_source row))
         | CLIPMAN_ITEM_TYPE_IMAGE \<Rightarrow>
             (case row_image_data row of
                None \<Rightarrow> None
              | Some blob \<Rightarrow>
                  if length blob > 0
                  then (case png_load ext blob of
                          None \<Rightarrow> None
                        | Some pixbuf \<Rightarrow> clipman_item_new_image ext (Some pixbuf) (row_source row))
                  else None))
      in case item of
           None \<Rightarrow> None
         | Some it \<Rightarrow> Some (clipman_item_set_id it (row_id row)))"

fun items_from_rows :: "externals \<Rightarrow> Row list \<Rightarrow> ClipmanItem list" where
  \<comment> \<open>the \<^verbatim>\<open>while (sqlite3_step (stmt) == SQLITE_ROW)\<close> loop: a row that gives no item is skipped\<close>
  "items_from_rows ext [] = []"
| "items_from_rows ext (r # rs) =
     (case item_from_row ext r of
        Some item \<Rightarrow> item # items_from_rows ext rs
      | None \<Rightarrow> items_from_rows ext rs)"

definition select_items :: "sqlite_outcome \<Rightarrow> sqlite3 \<Rightarrow> int \<Rightarrow> Row list" where
  \<comment> \<open>the rows that \<^verbatim>\<open>SELECT ... FROM items ORDER BY timestamp DESC LIMIT ?\<close> steps
      through, with \<^verbatim>\<open>limit > 0 ? limit : 100\<close> bound to the parameter\<close>
  "select_items io db limit =
     (if step_ok io SELECT_ITEMS
      then take (nat (if limit > 0 then limit else 100)) (order_by_timestamp_desc (db_rows db))
      else [])"

definition clipman_storage_get_items ::
  "externals \<Rightarrow> sqlite_outcome \<Rightarrow> sqlite3 \<Rightarrow> int \<Rightarrow> ClipmanItem list" where
  "clipman_storage_get_items ext io db limit =
     (if \<not> prepare_ok io SELECT_ITEMS then []
      else items_from_rows ext (select_items io db limit))"

definition clipman_storage_get_by_checksum ::
  "externals \<Rightarrow> sqlite_outcome \<Rightarrow> sqlite3 \<Rightarrow> string option \<Rightarrow> ClipmanItem option" where
  "clipman_storage_get_by_checksum ext io db checksum =
     (case checksum of
        None \<Rightarrow> None
      | Some c \<Rightarrow>
          if \<not> prepare_ok io SELECT_BY_CHECKSUM then None
          else if step_ok io SELECT_BY_CHECKSUM
          then (case filter (\<lambda>r. row_checksum r = c) (db_rows db) of
                  [] \<Rightarrow> None
                | r # _ \<Rightarrow> item_from_row ext r)
          else None)"

subsection \<open>Restoring an emptied buffer (\<^verbatim>\<open>on_clipboard_empty\<close>)\<close>

datatype GdkAtom = GDK_SELECTION_PRIMARY | GDK_SELECTION_CLIPBOARD

datatype clipboard_write = Set_Text string | Set_Image GdkPixbuf

definition clipman_item_to_clipboard :: "ClipmanItem \<Rightarrow> GdkAtom \<Rightarrow> (GdkAtom \<times> clipboard_write) list" where
  \<comment> \<open>The result lists the writes made. \<^verbatim>\<open>gtk_clipboard_set_text\<close> and
      \<^verbatim>\<open>gtk_clipboard_set_image\<close> return without writing when handed \<^verbatim>\<open>NULL\<close>.\<close>
  "clipman_item_to_clipboard self clipboard =
     (case item_type self of
        CLIPMAN_ITEM_TYPE_TEXT \<Rightarrow>
          (case item_text self of None \<Rightarrow> [] | Some t \<Rightarrow> [(clipboard, Set_Text t)])
      | CLIPMAN_ITEM_TYPE_IMAGE \<Rightarrow>
          (case item_pixbuf self of None \<Rightarrow> [] | Some pb \<Rightarrow> [(clipboard, Set_Image pb)])
      | CLIPMAN_ITEM_TYPE_FILES \<Rightarrow>
          (case item_text self of None \<Rightarrow> [] | Some t \<Rightarrow> [(clipboard, Set_Text t)]))"

definition on_clipboard_empty ::
  "externals \<Rightarrow> sqlite_outcome \<Rightarrow> bool \<Rightarrow> sqlite3 \<Rightarrow> ClipmanSource \<Rightarrow> (GdkAtom \<times> clipboard_write) list" where
  \<comment> \<open>the Boolean is the \<^verbatim>\<open>keep-content\<close> setting\<close>
  "on_clipboard_empty ext io keep_content db source =
     (if \<not> keep_content then []
      else (case clipman_storage_get_items ext io db 1 of
              [] \<Rightarrow> []
            | item # _ \<Rightarrow>
                clipman_item_to_clipboard item
                  (if source = CLIPMAN_SOURCE_PRIMARY then GDK_SELECTION_PRIMARY
                   else GDK_SELECTION_CLIPBOARD)))"

subsection \<open>Schema constraints and example data\<close>

definition table_ok :: "sqlite3 \<Rightarrow> bool" where
  \<comment> \<open>\<^verbatim>\<open>id INTEGER PRIMARY KEY\<close> and \<^verbatim>\<open>checksum TEXT UNIQUE\<close>\<close>
  "table_ok db \<longleftrightarrow>
     distinct (map row_id (db_rows db)) \<and> distinct (map row_checksum (db_rows db))"

definition example_externals :: externals where
  \<comment> \<open>used to run the model on concrete data: the checksum of a byte string is the string
      itself and the PNG encoder always fails\<close>
  "example_externals = \<lparr> sha1 = (\<lambda>data. data), png_save = (\<lambda>_. None), png_load = (\<lambda>_. None) \<rparr>"

definition example_text_item :: "string \<Rightarrow> int \<Rightarrow> ClipmanItem" where
  \<comment> \<open>what \<^term>\<open>clipman_item_new_text example_externals\<close> builds for a short word without
      blanks, with the given id\<close>
  "example_text_item t i =
     \<lparr> item_id = i, item_type = CLIPMAN_ITEM_TYPE_TEXT, item_source = CLIPMAN_SOURCE_CLIPBOARD,
       item_text = Some t, item_pixbuf = None, item_uris = None,
       item_checksum = t, item_label = t \<rparr>"

definition example_text_row :: "string \<Rightarrow> int \<Rightarrow> int \<Rightarrow> Row" where
  "example_text_row t i ts =
     \<lparr> row_id = i, row_type = CLIPMAN_ITEM_TYPE_TEXT, row_source = CLIPMAN_SOURCE_CLIPBOARD,
       row_checksum = t, row_label = t, row_text_content = Some t, row_image_data = None,
       row_timestamp = ts \<rparr>"

definition example_png_externals :: externals where
  \<comment> \<open>as \<^term>\<open>example_externals\<close>, with a lossless codec for images of one row and one byte
      per pixel: the encoding is the pixel bytes\<close>
  "example_png_externals =
     \<lparr> sha1 = (\<lambda>data. data),
       png_save = (\<lambda>pb. Some (pixbuf_pixels pb)),
       png_load = (\<lambda>blob. Some \<lparr> pixbuf_width = int (length blob), pixbuf_height = 1,
                                   pixbuf_pixels = blob \<rparr>) \<rparr>"

definition example_image :: GdkPixbuf where
  "example_image = \<lparr> pixbuf_width = 3, pixbuf_height = 1, pixbuf_pixels = ''rgb'' \<rparr>"

definition example_image_item :: "int \<Rightarrow> ClipmanItem" where
  \<comment> \<open>what \<^term>\<open>clipman_item_new_image example_png_externals\<close> builds for
      \<^term>\<open>example_image\<close>, with the given id\<close>
  "example_image_item i =
     \<lparr> item_id = i, item_type = CLIPMAN_ITEM_TYPE_IMAGE, item_source = CLIPMAN_SOURCE_CLIPBOARD,
       item_text = None, item_pixbuf = Some example_image, item_uris = None,
       item_checksum = ''rgb'', item_label = ''[Image 3x1]'' \<rparr>"

definition example_files_item :: "int \<Rightarrow> ClipmanItem" where
  \<comment> \<open>what \<^term>\<open>clipman_item_new_files example_externals\<close> builds for the two URIs, with
      the given id\<close>
  "example_files_item i =
     \<lparr> item_id = i, item_type = CLIPMAN_ITEM_TYPE_FILES, item_source = CLIPMAN_SOURCE_CLIPBOARD,
       item_text = Some ''file:///a\<newline>file:///b'', item_pixbuf = None,
       item_uris = Some [''file:///a'', ''file:///b''],
       item_checksum = ''file:///a\<newline>file:///b'', item_label = ''[2 files]'' \<rparr>"

section \<open>Properties\<close>

subsection \<open>Facts about the table\<close>

lemma filter_unique_key:
  "distinct (map f xs) \<Longrightarrow> r \<in> set xs \<Longrightarrow> filter (\<lambda>x. f x = f r) xs = [r]"
proof (induction xs)
  case Nil
  then show ?case by simp
next
  case (Cons a xs)
  show ?case
  proof (cases "a = r")
    case True
    with Cons.prems have "f r \<notin> f ` set xs" by simp
    then have "\<forall>x\<in>set xs. f x \<noteq> f r" by (metis imageI)
    then have "filter (\<lambda>x. f x = f r) xs = []" by (simp add: filter_empty_conv)
    with True show ?thesis by simp
  next
    case False
    with Cons.prems have "r \<in> set xs" "f a \<noteq> f r" by auto
    with Cons show ?thesis by simp
  qed
qed

lemma map_unique_key:
  "distinct (map f xs) \<Longrightarrow> r \<in> set xs \<Longrightarrow>
   map (\<lambda>x. if f x = f r then g x else x) xs = map (\<lambda>x. if x = r then g x else x) xs"
  by (rule map_cong) (auto simp: distinct_map dest: inj_onD)

lemma filter_absent_key:
  "k \<notin> f ` set xs \<Longrightarrow> filter (\<lambda>x. f x = k) xs = []"
proof -
  assume "k \<notin> f ` set xs"
  then have "\<forall>x\<in>set xs. f x \<noteq> k" by (metis imageI)
  then show ?thesis by (simp add: filter_empty_conv)
qed

lemma foldr_max_ge: "x \<in> set xs \<Longrightarrow> x \<le> foldr max xs (a::int)"
  by (induction xs) auto

lemma foldr_max_ge_init: "(a::int) \<le> foldr max xs a"
  by (induction xs) auto

lemma next_rowid_fresh: "next_rowid db \<notin> row_id ` set (db_rows db)"
proof
  assume "next_rowid db \<in> row_id ` set (db_rows db)"
  then have "next_rowid db \<in> set (map row_id (db_rows db))" by simp
  then have "next_rowid db \<le> foldr max (map row_id (db_rows db)) (db_sequence db)"
    by (rule foldr_max_ge)
  then show False by (simp add: next_rowid_def)
qed

lemma next_rowid_above: "db_sequence db < next_rowid db"
  using foldr_max_ge_init [of "db_sequence db" "map row_id (db_rows db)"]
  by (simp add: next_rowid_def)

lemma add_item_touch:
  assumes "table_ok db" and "r \<in> set (db_rows db)" and "row_checksum r = item_checksum item"
  shows "clipman_storage_add_item ext sqlite_healthy rt db item =
           (True, item\<lparr>item_id := row_id r\<rparr>,
            db\<lparr>db_rows := map (\<lambda>x. if x = r then x\<lparr>row_timestamp := rt sdiv 1000000\<rparr> else x)
                             (db_rows db)\<rparr>,
            [])"
proof -
  from assms(1) have d1: "distinct (map row_checksum (db_rows db))"
    and d2: "distinct (map row_id (db_rows db))"
    by (simp_all add: table_ok_def)
  have "filter (\<lambda>x. row_checksum x = row_checksum r) (db_rows db) = [r]"
    by (rule filter_unique_key [OF d1 assms(2)])
  then have sel: "select_id_by_checksum db (item_checksum item) = Some (row_id r)"
    unfolding select_id_by_checksum_def assms(3) [symmetric] by simp
  have m: "map (\<lambda>x. if row_id x = row_id r then x\<lparr>row_timestamp := rt sdiv 1000000\<rparr> else x) (db_rows db)
         = map (\<lambda>x. if x = r then x\<lparr>row_timestamp := rt sdiv 1000000\<rparr> else x) (db_rows db)"
    by (rule map_unique_key [OF d2 assms(2)])
  have upd: "update_timestamp db (rt sdiv 1000000) (row_id r) =
      db\<lparr>db_rows := map (\<lambda>x. if x = r then x\<lparr>row_timestamp := rt sdiv 1000000\<rparr> else x)
                       (db_rows db)\<rparr>"
    by (simp only: update_timestamp_def m)
  show ?thesis
    by (simp add: clipman_storage_add_item_def sqlite_healthy_def clipman_item_set_id_def sel upd)
qed

lemma add_item_insert:
  assumes "item_checksum item \<notin> row_checksum ` set (db_rows db)"
  shows "clipman_storage_add_item ext sqlite_healthy rt db item =
           (True, item\<lparr>item_id := next_rowid db\<rparr>,
            db\<lparr>db_rows := db_rows db
                   @ [(row_of_item ext item (rt sdiv 1000000))\<lparr>row_id := next_rowid db\<rparr>],
               db_sequence := next_rowid db\<rparr>,
            [SIGNAL_ITEM_ADDED (item\<lparr>item_id := next_rowid db\<rparr>)])"
proof -
  from assms have "filter (\<lambda>x. row_checksum x = item_checksum item) (db_rows db) = []"
    by (rule filter_absent_key)
  then have sel: "select_id_by_checksum db (item_checksum item) = None"
    by (simp add: select_id_by_checksum_def)
  have "row_checksum (row_of_item ext item (rt sdiv 1000000)) = item_checksum item"
    by (simp add: row_of_item_def)
  with assms have "insert_row db (row_of_item ext item (rt sdiv 1000000)) =
     Some (db\<lparr>db_rows := db_rows db
                 @ [(row_of_item ext item (rt sdiv 1000000))\<lparr>row_id := next_rowid db\<rparr>],
               db_sequence := next_rowid db\<rparr>, next_rowid db)"
    by (simp add: insert_row_def Let_def)
  with sel show ?thesis
    by (simp add: clipman_storage_add_item_def sqlite_healthy_def clipman_item_set_id_def)
qed

text \<open>The constraints hold in the empty table and every storage operation keeps them.\<close>

lemma table_ok_empty: "table_ok empty_db"
  by (simp add: table_ok_def empty_db_def)

lemma table_ok_add_item:
  assumes "table_ok db" and "clipman_storage_add_item ext io rt db item = (ok, item', db', sigs)"
  shows "table_ok db'"
proof -
  have upd: "table_ok (update_timestamp db ts i)" for ts i
  proof -
    have "map row_id (map (\<lambda>r. if row_id r = i then r\<lparr>row_timestamp := ts\<rparr> else r) (db_rows db))
            = map row_id (db_rows db)"
      by (induction "db_rows db") auto
    moreover
    have "map row_checksum (map (\<lambda>r. if row_id r = i then r\<lparr>row_timestamp := ts\<rparr> else r) (db_rows db))
            = map row_checksum (db_rows db)"
      by (induction "db_rows db") auto
    ultimately show ?thesis
      using assms(1) by (simp add: table_ok_def update_timestamp_def del: map_map)
  qed
  have ins: "table_ok d" if "insert_row db r = Some (d, i)" for r d i
    using that assms(1) next_rowid_fresh [of db]
    by (auto simp: insert_row_def Let_def table_ok_def split: if_splits)
  from assms(2) show ?thesis
    using upd ins assms(1)
    by (auto simp: clipman_storage_add_item_def split: option.splits if_splits)
qed

lemma table_ok_remove_item:
  assumes "table_ok db" and "clipman_storage_remove_item io db i = (ok, db', sigs)"
  shows "table_ok db'"
  using assms
  by (auto simp: clipman_storage_remove_item_def delete_by_id_def table_ok_def
        distinct_map_filter split: if_splits)

subsection \<open>Insert or touch\<close>

text \<open>
  Claim C1. In a table that satisfies the schema constraints, with the database executing
  its statements: when a stored row has the checksum of the item, \<^verbatim>\<open>add_item\<close> adds no
  row, sets that row's timestamp to the current time in seconds and changes nothing else
  (so the row keeps its id), sets the item's id to the row's id and returns \<^verbatim>\<open>TRUE\<close>; when
  no stored row has the checksum, it appends exactly one row, whose id is larger than the
  sequence value and differs from every id in the table, gives the item that id and returns
  \<^verbatim>\<open>TRUE\<close>.
\<close>

theorem add_item_touch_or_insert:
  assumes "table_ok db"
  shows "(\<forall>r\<in>set (db_rows db). row_checksum r = item_checksum item \<longrightarrow>
            clipman_storage_add_item ext sqlite_healthy rt db item =
              (True, item\<lparr>item_id := row_id r\<rparr>,
               db\<lparr>db_rows := map (\<lambda>x. if x = r then x\<lparr>row_timestamp := rt sdiv 1000000\<rparr> else x)
                                (db_rows db)\<rparr>,
               []))
       \<and> (item_checksum item \<notin> row_checksum ` set (db_rows db) \<longrightarrow>
            next_rowid db \<notin> row_id ` set (db_rows db) \<and> db_sequence db < next_rowid db \<and>
            clipman_storage_add_item ext sqlite_healthy rt db item =
              (True, item\<lparr>item_id := next_rowid db\<rparr>,
               db\<lparr>db_rows := db_rows db
                      @ [(row_of_item ext item (rt sdiv 1000000))\<lparr>row_id := next_rowid db\<rparr>],
                  db_sequence := next_rowid db\<rparr>,
               [SIGNAL_ITEM_ADDED (item\<lparr>item_id := next_rowid db\<rparr>)]))"
  using assms add_item_touch [of db _ item ext rt] add_item_insert [of item db ext rt]
    next_rowid_fresh [of db] next_rowid_above [of db]
  by blast

theorem add_item_touch_or_insert_witness:
  "table_ok \<lparr> db_rows = [example_text_row ''A'' 1 1], db_sequence = 1 \<rparr>
   \<and> clipman_storage_add_item example_externals sqlite_healthy 5000000
       \<lparr> db_rows = [example_text_row ''A'' 1 1], db_sequence = 1 \<rparr> (example_text_item ''A'' 0)
     = (True, example_text_item ''A'' 1,
        \<lparr> db_rows = [example_text_row ''A'' 1 5], db_sequence = 1 \<rparr>, [])
   \<and> clipman_storage_add_item example_externals sqlite_healthy 5000000
       \<lparr> db_rows = [example_text_row ''A'' 1 1], db_sequence = 1 \<rparr> (example_text_item ''B'' 0)
     = (True, example_text_item ''B'' 2,
        \<lparr> db_rows = [example_text_row ''A'' 1 1, example_text_row ''B'' 2 5], db_sequence = 2 \<rparr>,
        [SIGNAL_ITEM_ADDED (example_text_item ''B'' 2)])"
proof -
  let ?db = "\<lparr> db_rows = [example_text_row ''A'' 1 1], db_sequence = 1 \<rparr>"
  have ok: "table_ok ?db"
    by (simp add: table_ok_def)
  have touch: "clipman_storage_add_item example_externals sqlite_healthy 5000000 ?db
                 (example_text_item ''A'' 0)
               = (True, example_text_item ''A'' 1,
                  \<lparr> db_rows = [example_text_row ''A'' 1 5], db_sequence = 1 \<rparr>, [])"
    using add_item_touch_or_insert [OF ok, of "example_text_item ''A'' 0" example_externals 5000000]
    by (simp add: example_text_row_def example_text_item_def)
  have ins: "clipman_storage_add_item example_externals sqlite_healthy 5000000 ?db
               (example_text_item ''B'' 0)
             = (True, example_text_item ''B'' 2,
                \<lparr> db_rows = [example_text_row ''A'' 1 1, example_text_row ''B'' 2 5],
                  db_sequence = 2 \<rparr>,
                [SIGNAL_ITEM_ADDED (example_text_item ''B'' 2)])"
    using add_item_touch_or_insert [OF ok, of "example_text_item ''B'' 0" example_externals 5000000]
    by (simp add: example_text_row_def example_text_item_def next_rowid_def row_of_item_def)
  from ok touch ins show ?thesis by simp
qed

subsection \<open>The \<^verbatim>\<open>item-added\<close> signal\<close>

text \<open>
  Claim C2. Whatever the database does, a call of \<^verbatim>\<open>add_item\<close> whose checksum is already
  stored emits no signal; and every call either emits exactly \<^verbatim>\<open>item-added\<close> (with the
  item carrying its new id), returns \<^verbatim>\<open>TRUE\<close> and has appended one row with the item's
  checksum, or emits nothing and leaves the number of rows as it was.
\<close>

theorem item_added_only_on_insert:
  assumes "clipman_storage_add_item ext io rt db item = (ok, item', db', sigs)"
  shows "(item_checksum item \<in> row_checksum ` set (db_rows db) \<longrightarrow> sigs = [])
       \<and> ((sigs = [SIGNAL_ITEM_ADDED item'] \<and> ok
            \<and> (\<exists>r. db_rows db' = db_rows db @ [r] \<and> row_checksum r = item_checksum item))
          \<or> (sigs = [] \<and> length (db_rows db') = length (db_rows db)))"
  using assms
  by (auto simp add: clipman_storage_add_item_def insert_row_def update_timestamp_def Let_def
        row_of_item_def split: option.splits if_splits)

theorem item_added_only_on_insert_witness:
  "clipman_storage_add_item example_externals sqlite_healthy 5000000
       \<lparr> db_rows = [example_text_row ''A'' 1 1], db_sequence = 1 \<rparr> (example_text_item ''A'' 0)
     = (True, example_text_item ''A'' 1,
        \<lparr> db_rows = [example_text_row ''A'' 1 5], db_sequence = 1 \<rparr>, [])
   \<and> item_checksum (example_text_item ''A'' 0)
       \<in> row_checksum ` set (db_rows \<lparr> db_rows = [example_text_row ''A'' 1 1], db_sequence = 1 \<rparr>)
   \<and> length (db_rows \<lparr> db_rows = [example_text_row ''A'' 1 5], db_sequence = 1 \<rparr>)
       = length (db_rows \<lparr> db_rows = [example_text_row ''A'' 1 1], db_sequence = 1 \<rparr>)"
proof -
  have run: "clipman_storage_add_item example_externals sqlite_healthy 5000000
       \<lparr> db_rows = [example_text_row ''A'' 1 1], db_sequence = 1 \<rparr> (example_text_item ''A'' 0)
     = (True, example_text_item ''A'' 1,
        \<lparr> db_rows = [example_text_row ''A'' 1 5], db_sequence = 1 \<rparr>, [])"
    by (simp add: clipman_storage_add_item_def sqlite_healthy_def select_id_by_checksum_def
          update_timestamp_def example_text_row_def example_text_item_def clipman_item_set_id_def)
  from item_added_only_on_insert [OF run] run show ?thesis
    by (simp add: example_text_row_def example_text_item_def)
qed

subsection \<open>Removing a row\<close>

text \<open>
  Claim C3, as the code has it. \<^verbatim>\<open>remove_item (id)\<close> returns \<^verbatim>\<open>TRUE\<close> and emits
  \<^verbatim>\<open>item-removed\<close> whenever the \<^verbatim>\<open>DELETE\<close> statement is prepared and executed, for every
  id; the table afterwards holds the rows whose id differs from the given one, so it is
  unchanged when no row has the id and has lost the row otherwise. It returns \<^verbatim>\<open>FALSE\<close>,
  with the table unchanged and no signal, exactly when the statement cannot be prepared or
  executed.
\<close>

theorem remove_item_reports_success:
  "clipman_storage_remove_item io db i =
     (if prepare_ok io DELETE_ITEM \<and> step_ok io DELETE_ITEM
      then (True, db\<lparr>db_rows := filter (\<lambda>r. row_id r \<noteq> i) (db_rows db)\<rparr>,
            [SIGNAL_ITEM_REMOVED i])
      else (False, db, []))
   \<and> (i \<notin> row_id ` set (db_rows db) \<longrightarrow>
        clipman_storage_remove_item sqlite_healthy db i = (True, db, [SIGNAL_ITEM_REMOVED i]))
   \<and> (\<forall>r\<in>set (db_rows db). row_id r = i \<longrightarrow>
        r \<notin> set (db_rows (fst (snd (clipman_storage_remove_item sqlite_healthy db i)))))"
proof -
  have run: "clipman_storage_remove_item io db i =
     (if prepare_ok io DELETE_ITEM \<and> step_ok io DELETE_ITEM
      then (True, db\<lparr>db_rows := filter (\<lambda>r. row_id r \<noteq> i) (db_rows db)\<rparr>,
            [SIGNAL_ITEM_REMOVED i])
      else (False, db, []))"
    by (simp add: clipman_storage_remove_item_def delete_by_id_def)
  have healthy: "clipman_storage_remove_item sqlite_healthy db i =
     (True, db\<lparr>db_rows := filter (\<lambda>r. row_id r \<noteq> i) (db_rows db)\<rparr>, [SIGNAL_ITEM_REMOVED i])"
    by (simp add: clipman_storage_remove_item_def sqlite_healthy_def delete_by_id_def)
  have same: "filter (\<lambda>r. row_id r \<noteq> i) (db_rows db) = db_rows db"
    if "i \<notin> row_id ` set (db_rows db)"
  proof -
    from that have "\<forall>r\<in>set (db_rows db). row_id r \<noteq> i" by (metis imageI)
    then show ?thesis by (simp add: filter_id_conv)
  qed
  have gone: "\<forall>r\<in>set (db_rows db). row_id r = i \<longrightarrow>
        r \<notin> set (db_rows (fst (snd (clipman_storage_remove_item sqlite_healthy db i))))"
    by (simp add: healthy)
  from same have "i \<notin> row_id ` set (db_rows db) \<longrightarrow>
        clipman_storage_remove_item sqlite_healthy db i = (True, db, [SIGNAL_ITEM_REMOVED i])"
    by (simp add: healthy)
  with run gone show ?thesis by (intro conjI)
qed

theorem remove_item_reports_success_witness:
  "(1::int) \<notin> row_id ` set (db_rows empty_db)
   \<and> clipman_storage_remove_item sqlite_healthy empty_db 1
       = (True, empty_db, [SIGNAL_ITEM_REMOVED 1])
   \<and> example_text_row ''A'' 1 1
       \<in> set (db_rows \<lparr> db_rows = [example_text_row ''A'' 1 1], db_sequence = 1 \<rparr>)
   \<and> clipman_storage_remove_item sqlite_healthy
        \<lparr> db_rows = [example_text_row ''A'' 1 1], db_sequence = 1 \<rparr> 1
       = (True, \<lparr> db_rows = [], db_sequence = 1 \<rparr>, [SIGNAL_ITEM_REMOVED 1])"
proof -
  have absent: "(1::int) \<notin> row_id ` set (db_rows empty_db)"
    by (simp add: empty_db_def)
  from remove_item_reports_success [of sqlite_healthy empty_db 1] absent
  have 1: "clipman_storage_remove_item sqlite_healthy empty_db 1
             = (True, empty_db, [SIGNAL_ITEM_REMOVED 1])"
    by blast
  from remove_item_reports_success
         [of sqlite_healthy "\<lparr> db_rows = [example_text_row ''A'' 1 1], db_sequence = 1 \<rparr>" 1]
  have 2: "clipman_storage_remove_item sqlite_healthy
        \<lparr> db_rows = [example_text_row ''A'' 1 1], db_sequence = 1 \<rparr> 1
       = (True, \<lparr> db_rows = [], db_sequence = 1 \<rparr>, [SIGNAL_ITEM_REMOVED 1])"
    by (simp add: sqlite_healthy_def example_text_row_def)
  from absent 1 2 show ?thesis by simp
qed

text \<open>
  Claim C3 as stated fails: removing id 1 from the empty table, where no row has that id,
  leaves the table as it was and returns \<^verbatim>\<open>TRUE\<close>, with an \<^verbatim>\<open>item-removed\<close> signal.
\<close>

theorem remove_missing_id_counterexample:
  "(1::int) \<notin> row_id ` set (db_rows empty_db)
   \<and> clipman_storage_remove_item sqlite_healthy empty_db 1
       = (True, empty_db, [SIGNAL_ITEM_REMOVED 1])"
  by (simp add: clipman_storage_remove_item_def sqlite_healthy_def empty_db_def delete_by_id_def)

subsection \<open>Text items from empty text\<close>

text \<open>
  Claim C4, as the code has it. \<^verbatim>\<open>clipman_item_new_text\<close> produces no item exactly when the
  text pointer is \<^verbatim>\<open>NULL\<close>; for every string, the empty one included, it builds an item.
\<close>

theorem new_text_fails_only_on_null:
  "(clipman_item_new_text ext text source = None) = (text = None)"
  by (simp add: clipman_item_new_text_def split: option.splits)

text \<open>Claim C4 as stated fails: the empty string yields an item.\<close>

theorem new_text_empty_counterexample:
  "clipman_item_new_text example_externals (Some '''') CLIPMAN_SOURCE_CLIPBOARD
     = Some \<lparr> item_id = 0, item_type = CLIPMAN_ITEM_TYPE_TEXT,
              item_source = CLIPMAN_SOURCE_CLIPBOARD, item_text = Some '''',
              item_pixbuf = None, item_uris = None, item_checksum = '''', item_label = '''' \<rparr>"
  by (simp add: clipman_item_new_text_def create_label_def normalized_def g_strstrip_def
        g_strchomp_def g_strchug_def replace_newlines_tabs_def compute_checksum_def
        example_externals_def)

subsection \<open>Facts about labels\<close>

lemma g_utf8_skip_pos: "0 < g_utf8_skip c"
  by (simp add: g_utf8_skip_def Let_def)

text \<open>
  Cutting a string after \<open>n\<close> of its characters and appending a tail gives \<open>n\<close> characters
  more than the tail has, provided the string has more than \<open>n\<close> characters.
\<close>

lemma utf8_strlen_advance:
  "n < g_utf8_strlen s \<Longrightarrow> g_utf8_strlen (take (utf8_advance n s) s @ t) = n + g_utf8_strlen t"
proof (induction n arbitrary: s)
  case 0
  then show ?case by simp
next
  case (Suc n)
  then obtain c cs where s: "s = c # cs" by (cases s) auto
  define k where "k = g_utf8_skip c - 1"
  have skip: "g_utf8_skip c = Suc k" using g_utf8_skip_pos [of c] by (simp add: k_def)
  from Suc.prems have more: "n < g_utf8_strlen (drop k cs)" by (simp add: s k_def)
  then have "drop k cs \<noteq> []" by auto
  then have klen: "k < length cs" by simp
  define m where "m = utf8_advance n (drop k cs)"
  have adv: "utf8_advance (Suc n) s = Suc k + m"
    using klen by (simp add: s skip m_def)
  have "take (Suc k + m) s = c # take k cs @ take m (drop k cs)"
    by (simp add: s take_add)
  then have "g_utf8_strlen (take (utf8_advance (Suc n) s) s @ t)
               = Suc (g_utf8_strlen (drop k (take k cs @ take m (drop k cs) @ t)))"
    by (simp add: adv skip)
  also have "drop k (take k cs @ take m (drop k cs) @ t) = take m (drop k cs) @ t"
    using klen by simp
  also have "g_utf8_strlen (take m (drop k cs) @ t) = n + g_utf8_strlen t"
    unfolding m_def by (rule Suc.IH [OF more])
  finally show ?case by simp
qed

lemma utf8_strlen_dots: "g_utf8_strlen ''...'' = 3"
  by (simp add: g_utf8_skip_def)

lemma create_label_long:
  assumes "50 < g_utf8_strlen (normalized t)"
  shows "create_label (Some t) 50 = take (utf8_advance 47 (normalized t)) (normalized t) @ ''...''"
    and "g_utf8_strlen (create_label (Some t) 50) = 50"
proof -
  have off: "sint (50 - 3 :: 64 word) = 47" by simp
  show lab: "create_label (Some t) 50
               = take (utf8_advance 47 (normalized t)) (normalized t) @ ''...''"
    using assms by (simp add: create_label_def Let_def g_utf8_offset_to_pointer_def off)
  from assms have "47 < g_utf8_strlen (normalized t)" by simp
  from utf8_strlen_advance [OF this, of "''...''"]
  show "g_utf8_strlen (create_label (Some t) 50) = 50"
    unfolding lab utf8_strlen_dots by simp
qed

lemma create_label_short:
  assumes "g_utf8_strlen (normalized t) \<le> 50"
  shows "create_label (Some t) 50 = normalized t"
  using assms by (simp add: create_label_def Let_def)

text \<open>Text without white space is its own normal form.\<close>

lemma replace_newlines_tabs_id:
  "\<forall>c\<in>set s. \<not> g_ascii_isspace c \<Longrightarrow> replace_newlines_tabs s = s"
  by (induction s) (auto simp: replace_newlines_tabs_def g_ascii_isspace_def)

lemma collapse_spaces_id: "\<forall>c\<in>set s. \<not> g_ascii_isspace c \<Longrightarrow> collapse_spaces b s = s"
  by (induction s arbitrary: b) (auto simp: g_ascii_isspace_def)

lemma g_strstrip_id: "\<forall>c\<in>set s. \<not> g_ascii_isspace c \<Longrightarrow> g_strstrip s = s"
proof -
  assume a: "\<forall>c\<in>set s. \<not> g_ascii_isspace c"
  then have 1: "dropWhile g_ascii_isspace s = s" by (cases s) auto
  from a have "\<forall>c\<in>set (rev s). \<not> g_ascii_isspace c" by simp
  then have 2: "dropWhile g_ascii_isspace (rev s) = rev s" by (cases "rev s") auto
  show ?thesis by (simp add: g_strstrip_def g_strchug_def g_strchomp_def 1 2)
qed

lemma normalized_id: "\<forall>c\<in>set s. \<not> g_ascii_isspace c \<Longrightarrow> normalized s = s"
  by (simp add: normalized_def replace_newlines_tabs_id collapse_spaces_id g_strstrip_id)

text \<open>
  A character is a byte sequence \<open>ch\<close> whose first byte announces its length. Repeating it
  \<open>n\<close> times gives \<open>n\<close> characters.
\<close>

lemma utf8_strlen_char:
  assumes "ch \<noteq> []" "g_utf8_skip (hd ch) = length ch"
  shows "g_utf8_strlen (ch @ s) = Suc (g_utf8_strlen s)"
proof -
  from assms obtain c cs where ch: "ch = c # cs" by (cases ch) auto
  with assms have "g_utf8_skip c - 1 = length cs" by simp
  then show ?thesis by (simp add: ch)
qed

lemma utf8_strlen_repeat:
  assumes "ch \<noteq> []" "g_utf8_skip (hd ch) = length ch"
  shows "g_utf8_strlen (concat (replicate n ch) @ s) = n + g_utf8_strlen s"
  by (induction n) (simp_all add: utf8_strlen_char [OF assms])

lemma utf8_advance_char:
  assumes "ch \<noteq> []" "g_utf8_skip (hd ch) = length ch"
  shows "utf8_advance (Suc n) (ch @ s) = length ch + utf8_advance n s"
proof -
  from assms obtain c cs where ch: "ch = c # cs" by (cases ch) auto
  with assms have "g_utf8_skip c = Suc (length cs)" by simp
  then show ?thesis by (simp add: ch)
qed

lemma utf8_advance_repeat:
  assumes "ch \<noteq> []" "g_utf8_skip (hd ch) = length ch"
  shows "utf8_advance n (concat (replicate (n + m) ch)) = n * length ch"
  by (induction n) (simp_all add: utf8_advance_char [OF assms])

lemma take_repeat:
  "take (n * length ch) (concat (replicate (n + m) ch)) = concat (replicate n ch)"
  by (induction n) simp_all

lemma create_label_repeat:
  assumes "ch \<noteq> []" "g_utf8_skip (hd ch) = length ch" "\<forall>c\<in>set ch. \<not> g_ascii_isspace c"
  shows "create_label (Some (concat (replicate 60 ch))) 50 = concat (replicate 47 ch) @ ''...''"
proof -
  have n: "normalized (concat (replicate 60 ch)) = concat (replicate 60 ch)"
    using assms(3) by (intro normalized_id) auto
  have "g_utf8_strlen (concat (replicate 60 ch) @ []) = 60 + g_utf8_strlen []"
    by (rule utf8_strlen_repeat [OF assms(1,2)])
  then have len: "g_utf8_strlen (concat (replicate 60 ch)) = 60" by simp
  have a: "utf8_advance 47 (concat (replicate (47 + 13) ch)) = 47 * length ch"
    by (rule utf8_advance_repeat [OF assms(1,2)])
  have t: "take (47 * length ch) (concat (replicate (47 + 13) ch)) = concat (replicate 47 ch)"
    by (rule take_repeat)
  have "create_label (Some (concat (replicate 60 ch))) 50 =
          take (utf8_advance 47 (concat (replicate 60 ch))) (concat (replicate 60 ch)) @ ''...''"
    using create_label_long(1) [of "concat (replicate 60 ch)"] by (simp add: n len)
  with a t show ?thesis by simp
qed

text \<open>The normal form is empty exactly for text that is white space throughout.\<close>

lemma g_strstrip_empty_iff: "g_strstrip s = [] \<longleftrightarrow> (\<forall>c\<in>set s. g_ascii_isspace c)"
proof
  assume "g_strstrip s = []"
  then have "\<forall>c\<in>set (dropWhile g_ascii_isspace s). g_ascii_isspace c"
    by (simp add: g_strstrip_def g_strchomp_def g_strchug_def dropWhile_eq_Nil_conv)
  then have "dropWhile g_ascii_isspace s = []"
    using hd_dropWhile [of g_ascii_isspace s] hd_in_set [of "dropWhile g_ascii_isspace s"]
    by blast
  then show "\<forall>c\<in>set s. g_ascii_isspace c" by (simp add: dropWhile_eq_Nil_conv)
next
  assume "\<forall>c\<in>set s. g_ascii_isspace c"
  then have d: "dropWhile g_ascii_isspace s = []" by (simp add: dropWhile_eq_Nil_conv)
  show "g_strstrip s = []" unfolding g_strstrip_def g_strchomp_def g_strchug_def d by simp
qed

lemma collapse_spaces_all_space:
  "(\<forall>c\<in>set (collapse_spaces b s). g_ascii_isspace c) \<longleftrightarrow> (\<forall>c\<in>set s. g_ascii_isspace c)"
  by (induction s arbitrary: b) (auto simp: g_ascii_isspace_def)

lemma replace_newlines_tabs_all_space:
  "(\<forall>c\<in>set (replace_newlines_tabs s). g_ascii_isspace c) \<longleftrightarrow> (\<forall>c\<in>set s. g_ascii_isspace c)"
  by (induction s) (auto simp: replace_newlines_tabs_def g_ascii_isspace_def)

lemma normalized_empty_iff: "normalized t = [] \<longleftrightarrow> (\<forall>c\<in>set t. g_ascii_isspace c)"
  by (simp add: normalized_def g_strstrip_empty_iff collapse_spaces_all_space
        replace_newlines_tabs_all_space)

lemma create_label_empty_iff:
  "create_label (Some t) 50 = [] \<longleftrightarrow> (\<forall>c\<in>set t. g_ascii_isspace c)"
proof (cases "normalized t = []")
  case True
  then show ?thesis using normalized_empty_iff [of t] by (simp add: create_label_def)
next
  case False
  then show ?thesis using normalized_empty_iff [of t] by (simp add: create_label_def Let_def)
qed

lemma example_text_item_built:
  "clipman_item_new_text example_externals (Some ''A'') CLIPMAN_SOURCE_CLIPBOARD
     = Some (example_text_item ''A'' 0)"
  "clipman_item_new_text example_externals (Some ''B'') CLIPMAN_SOURCE_CLIPBOARD
     = Some (example_text_item ''B'' 0)"
  "clipman_item_new_text example_externals (Some ''C'') CLIPMAN_SOURCE_CLIPBOARD
     = Some (example_text_item ''C'' 0)"
  "clipman_item_new_text example_externals (Some ''file:///a'') CLIPMAN_SOURCE_CLIPBOARD
     = Some (example_text_item ''file:///a'' 0)"
  by (simp_all add: clipman_item_new_text_def create_label_def normalized_def g_strstrip_def
        g_strchomp_def g_strchug_def replace_newlines_tabs_def compute_checksum_def
        example_externals_def g_ascii_isspace_def g_utf8_skip_def example_text_item_def)

text \<open>
  The vertical tab is no white space for \<^verbatim>\<open>g_strstrip\<close> and is not replaced by the first
  loop: it stays in a label, also at its ends.
\<close>

lemma vertical_tab_label_example:
  "create_label (Some [CHR 0x0B]) 50 = [CHR 0x0B]"
proof -
  have n: "normalized [CHR 0x0B] = [CHR 0x0B]"
    by (rule normalized_id) (simp add: g_ascii_isspace_def)
  have "g_utf8_strlen (normalized [CHR 0x0B]) \<le> 50"
    unfolding n by (simp add: g_utf8_skip_def)
  from create_label_short [OF this] show ?thesis by (simp only: n)
qed

lemma vertical_tab_long_label_example:
  "normalized (CHR 0x0B # replicate 50 CHR ''x'') = CHR 0x0B # replicate 50 CHR ''x''"
  "g_utf8_strlen (CHR 0x0B # replicate 50 CHR ''x'') = 51"
  "take (utf8_advance 47 (CHR 0x0B # replicate 50 CHR ''x'')) (CHR 0x0B # replicate 50 CHR ''x'')
     = CHR 0x0B # replicate 46 CHR ''x''"
proof -
  have c: "concat (replicate n ''x'') = replicate n CHR ''x''" for n
    by (induction n) simp_all
  have x: "''x'' \<noteq> []" "g_utf8_skip (hd ''x'') = length ''x''"
    by (simp_all add: g_utf8_skip_def)
  show "normalized (CHR 0x0B # replicate 50 CHR ''x'') = CHR 0x0B # replicate 50 CHR ''x''"
    by (rule normalized_id) (simp add: g_ascii_isspace_def)
  have "g_utf8_strlen (concat (replicate 50 ''x'') @ []) = 50 + g_utf8_strlen []"
    by (rule utf8_strlen_repeat [OF x])
  then have l: "g_utf8_strlen (replicate 50 CHR ''x'') = 50"
    by (simp add: c)
  show "g_utf8_strlen (CHR 0x0B # replicate 50 CHR ''x'') = 51"
    by (simp add: g_utf8_skip_def l)
  have "utf8_advance 46 (concat (replicate (46 + 4) ''x'')) = 46 * length ''x''"
    by (rule utf8_advance_repeat [OF x])
  then have a: "utf8_advance 46 (replicate 50 CHR ''x'') = 46"
    by (simp add: c)
  have k: "g_utf8_skip (CHR 0x0B) = 1"
    by (simp add: g_utf8_skip_def)
  have e: "(47 :: nat) = Suc 46" by simp
  have "utf8_advance 47 (CHR 0x0B # replicate 50 CHR ''x'') = Suc 46"
    unfolding e utf8_advance.simps(3) k by (simp add: a)
  then show "take (utf8_advance 47 (CHR 0x0B # replicate 50 CHR ''x''))
               (CHR 0x0B # replicate 50 CHR ''x'')
     = CHR 0x0B # replicate 46 CHR ''x''"
    by (simp only: take_Suc_Cons) simp
qed

subsection \<open>Labels are not always non-empty\<close>

text \<open>
  Claim C5, as the code has it. The label of every image item and of every file-list item
  is non-empty. The label of a text item is empty exactly when every byte of the text is
  white space for GLib (space, tab, newline, form feed, carriage return), which
  includes the empty text; for every other text it is non-empty.
\<close>

theorem label_empty_only_for_blank_text:
  "(\<forall>it. clipman_item_new_image ext pixbuf source = Some it \<longrightarrow> item_label it \<noteq> [])
 \<and> (\<forall>it. clipman_item_new_files ext uris source = Some it \<longrightarrow> item_label it \<noteq> [])
 \<and> (\<forall>it t. clipman_item_new_text ext (Some t) source = Some it \<longrightarrow>
        (item_label it = [] \<longleftrightarrow> (\<forall>c\<in>set t. g_ascii_isspace c)))"
proof -
  have 1: "\<forall>it. clipman_item_new_image ext pixbuf source = Some it \<longrightarrow> item_label it \<noteq> []"
    by (auto simp: clipman_item_new_image_def split: option.splits)
  have 2: "\<forall>it. clipman_item_new_files ext uris source = Some it \<longrightarrow> item_label it \<noteq> []"
    by (auto simp: clipman_item_new_files_def Let_def split: option.splits)
  have 3: "\<forall>it t. clipman_item_new_text ext (Some t) source = Some it \<longrightarrow>
        (item_label it = [] \<longleftrightarrow> (\<forall>c\<in>set t. g_ascii_isspace c))"
    using create_label_empty_iff by (auto simp: clipman_item_new_text_def)
  from 1 2 3 show ?thesis by blast
qed

theorem label_empty_only_for_blank_text_witness:
  "clipman_item_new_text example_externals (Some ''A'') CLIPMAN_SOURCE_CLIPBOARD
     = Some (example_text_item ''A'' 0)
   \<and> \<not> (\<forall>c\<in>set ''A''. g_ascii_isspace c)
   \<and> item_label (example_text_item ''A'' 0) \<noteq> []
   \<and> \<not> g_ascii_isspace (CHR 0x0B)
   \<and> (\<exists>it. clipman_item_new_text example_externals (Some [CHR 0x0B]) CLIPMAN_SOURCE_CLIPBOARD
              = Some it
          \<and> item_label it \<noteq> [])
   \<and> g_ascii_isspace (CHR 0x09) \<and> g_ascii_isspace (CHR 0x0C) \<and> g_ascii_isspace (CHR 0x0D)
   \<and> (\<exists>it. clipman_item_new_text example_externals (Some [CHR 0x09, CHR 0x0C, CHR 0x0D])
                CLIPMAN_SOURCE_PRIMARY
              = Some it
          \<and> item_label it = [])"
proof -
  have ns: "\<not> (\<forall>c\<in>set ''A''. g_ascii_isspace c)"
    by (simp add: g_ascii_isspace_def)
  from label_empty_only_for_blank_text
         [of example_externals None CLIPMAN_SOURCE_CLIPBOARD None]
       example_text_item_built(1) ns
  have a: "item_label (example_text_item ''A'' 0) \<noteq> []" by blast
  \<comment> \<open>a vertical tab\<close>
  have vt: "\<not> g_ascii_isspace (CHR 0x0B)"
    by (simp add: g_ascii_isspace_def)
  then have nv: "\<not> (\<forall>c\<in>set [CHR 0x0B]. g_ascii_isspace c)"
    by simp
  obtain v where v: "clipman_item_new_text example_externals (Some [CHR 0x0B])
                       CLIPMAN_SOURCE_CLIPBOARD = Some v"
    by (simp add: clipman_item_new_text_def)
  from label_empty_only_for_blank_text
         [of example_externals None CLIPMAN_SOURCE_CLIPBOARD None] v nv
  have "item_label v \<noteq> []" by blast
  with v have b: "\<exists>it. clipman_item_new_text example_externals (Some [CHR 0x0B])
                         CLIPMAN_SOURCE_CLIPBOARD = Some it \<and> item_label it \<noteq> []"
    by (intro exI conjI)
  \<comment> \<open>white space only\<close>
  have sp: "g_ascii_isspace (CHR 0x09)" "g_ascii_isspace (CHR 0x0C)" "g_ascii_isspace (CHR 0x0D)"
    by (simp_all add: g_ascii_isspace_def)
  then have blank: "\<forall>c\<in>set [CHR 0x09, CHR 0x0C, CHR 0x0D]. g_ascii_isspace c"
    by simp
  obtain w where w: "clipman_item_new_text example_externals (Some [CHR 0x09, CHR 0x0C, CHR 0x0D])
                       CLIPMAN_SOURCE_PRIMARY = Some w"
    by (simp add: clipman_item_new_text_def)
  from label_empty_only_for_blank_text
         [of example_externals None CLIPMAN_SOURCE_PRIMARY None] w blank
  have "item_label w = []" by blast
  with w have c: "\<exists>it. clipman_item_new_text example_externals (Some [CHR 0x09, CHR 0x0C, CHR 0x0D])
                         CLIPMAN_SOURCE_PRIMARY = Some it \<and> item_label it = []"
    by (intro exI conjI)
  from example_text_item_built(1) ns a vt b sp c show ?thesis by (intro conjI)
qed

text \<open>
  Claim C5 as stated fails: a text of one space is accepted by the monitor (its length is
  not zero) and by \<^verbatim>\<open>clipman_item_new_text\<close>, and its label is empty.
\<close>

theorem blank_text_label_counterexample:
  "clipman_item_new_text example_externals (Some '' '') CLIPMAN_SOURCE_CLIPBOARD
     = Some \<lparr> item_id = 0, item_type = CLIPMAN_ITEM_TYPE_TEXT,
              item_source = CLIPMAN_SOURCE_CLIPBOARD, item_text = Some '' '',
              item_pixbuf = None, item_uris = None, item_checksum = '' '', item_label = '''' \<rparr>"
  by (simp add: clipman_item_new_text_def create_label_def normalized_def g_strstrip_def
        g_strchomp_def g_strchug_def replace_newlines_tabs_def compute_checksum_def
        example_externals_def g_ascii_isspace_def)

subsection \<open>Truncation of text labels\<close>

text \<open>
  Claim C6. Characters are counted as \<^verbatim>\<open>g_utf8_strlen\<close> counts them. When the
  white-space-normalized text has more than 50 characters, the label is its first 47
  characters followed by \<^verbatim>\<open>...\<close> and has exactly 50 characters. In particular the text
  made of 60 copies of one character that contains no white space has the label made of 47
  copies of it followed by \<^verbatim>\<open>...\<close>, 50 characters. When the normalized text has at most 50
  characters the label is the normalized text itself. The label of a text item is this
  label.
\<close>

theorem text_label_truncation:
  "(50 < g_utf8_strlen (normalized t) \<longrightarrow>
      create_label (Some t) 50 = take (utf8_advance 47 (normalized t)) (normalized t) @ ''...''
    \<and> g_utf8_strlen (take (utf8_advance 47 (normalized t)) (normalized t)) = 47
    \<and> g_utf8_strlen (create_label (Some t) 50) = 50)
 \<and> (\<forall>ch. ch \<noteq> [] \<and> g_utf8_skip (hd ch) = length ch \<and> (\<forall>c\<in>set ch. \<not> g_ascii_isspace c) \<longrightarrow>
        create_label (Some (concat (replicate 60 ch))) 50 = concat (replicate 47 ch) @ ''...''
      \<and> g_utf8_strlen (create_label (Some (concat (replicate 60 ch))) 50) = 50)
 \<and> (g_utf8_strlen (normalized t) \<le> 50 \<longrightarrow> create_label (Some t) 50 = normalized t)
 \<and> (\<forall>it. clipman_item_new_text ext (Some t) source = Some it \<longrightarrow>
        item_label it = create_label (Some t) 50)"
proof -
  have long: "create_label (Some t) 50 = take (utf8_advance 47 (normalized t)) (normalized t) @ ''...''
    \<and> g_utf8_strlen (take (utf8_advance 47 (normalized t)) (normalized t)) = 47
    \<and> g_utf8_strlen (create_label (Some t) 50) = 50"
    if h: "50 < g_utf8_strlen (normalized t)"
  proof -
    from h have "47 < g_utf8_strlen (normalized t)" by simp
    from utf8_strlen_advance [OF this, of "[]"]
    have "g_utf8_strlen (take (utf8_advance 47 (normalized t)) (normalized t)) = 47" by simp
    with create_label_long [OF h] show ?thesis by simp
  qed
  have rep: "create_label (Some (concat (replicate 60 ch))) 50 = concat (replicate 47 ch) @ ''...''
      \<and> g_utf8_strlen (create_label (Some (concat (replicate 60 ch))) 50) = 50"
    if h: "ch \<noteq> [] \<and> g_utf8_skip (hd ch) = length ch \<and> (\<forall>c\<in>set ch. \<not> g_ascii_isspace c)" for ch
  proof -
    from h have 1: "ch \<noteq> []" and 2: "g_utf8_skip (hd ch) = length ch"
      and 3: "\<forall>c\<in>set ch. \<not> g_ascii_isspace c" by simp_all
    have "g_utf8_strlen (concat (replicate 47 ch) @ ''...'') = 47 + g_utf8_strlen ''...''"
      by (rule utf8_strlen_repeat [OF 1 2])
    then show ?thesis
      unfolding create_label_repeat [OF 1 2 3] utf8_strlen_dots by simp
  qed
  have item: "\<forall>it. clipman_item_new_text ext (Some t) source = Some it \<longrightarrow>
        item_label it = create_label (Some t) 50"
    by (auto simp: clipman_item_new_text_def)
  from long rep create_label_short [of t] item show ?thesis by blast
qed

theorem text_label_truncation_witness:
  "''x'' \<noteq> [] \<and> g_utf8_skip (hd ''x'') = length ''x'' \<and> \<not> g_ascii_isspace CHR ''x''
   \<and> create_label (Some (concat (replicate 60 ''x''))) 50 = concat (replicate 47 ''x'') @ ''...''
   \<and> g_utf8_strlen (create_label (Some (concat (replicate 60 ''x''))) 50) = 50
   \<and> g_utf8_strlen (normalized ''a  b'') \<le> 50
   \<and> create_label (Some ''a  b'') 50 = ''a b''
   \<and> 50 < g_utf8_strlen (normalized (CHR 0x0B # replicate 50 CHR ''x''))
   \<and> create_label (Some (CHR 0x0B # replicate 50 CHR ''x'')) 50
       = CHR 0x0B # replicate 46 CHR ''x'' @ ''...''
   \<and> g_utf8_strlen (create_label (Some (CHR 0x0B # replicate 50 CHR ''x'')) 50) = 50"
proof -
  have h: "''x'' \<noteq> [] \<and> g_utf8_skip (hd ''x'') = length ''x''
             \<and> (\<forall>c\<in>set ''x''. \<not> g_ascii_isspace c)"
    by (simp add: g_utf8_skip_def g_ascii_isspace_def)
  have n: "normalized ''a  b'' = ''a b''"
    by (simp add: normalized_def g_strstrip_def g_strchomp_def g_strchug_def
          replace_newlines_tabs_def g_ascii_isspace_def)
  have s: "g_utf8_strlen (normalized ''a  b'') \<le> 50"
    by (simp add: n g_utf8_skip_def)
  from text_label_truncation [of "''a  b''" example_externals CLIPMAN_SOURCE_CLIPBOARD] h s
  have r: "create_label (Some (concat (replicate 60 ''x''))) 50 = concat (replicate 47 ''x'') @ ''...''
      \<and> g_utf8_strlen (create_label (Some (concat (replicate 60 ''x''))) 50) = 50
      \<and> create_label (Some ''a  b'') 50 = normalized ''a  b''"
    by blast
  then have "create_label (Some ''a  b'') 50 = normalized ''a  b''" by blast
  then have c: "create_label (Some ''a  b'') 50 = ''a b''" by (simp only: n)
  from h have h': "''x'' \<noteq> [] \<and> g_utf8_skip (hd ''x'') = length ''x''
                     \<and> \<not> g_ascii_isspace CHR ''x''"
    by simp
  \<comment> \<open>a vertical tab in front of 50 characters\<close>
  let ?v = "CHR 0x0B # replicate 50 CHR ''x''"
  have long: "50 < g_utf8_strlen (normalized ?v)"
    unfolding vertical_tab_long_label_example(1) vertical_tab_long_label_example(2) by simp
  from text_label_truncation [of ?v example_externals CLIPMAN_SOURCE_CLIPBOARD]
  have "50 < g_utf8_strlen (normalized ?v) \<longrightarrow>
      create_label (Some ?v) 50 = take (utf8_advance 47 (normalized ?v)) (normalized ?v) @ ''...''
    \<and> g_utf8_strlen (take (utf8_advance 47 (normalized ?v)) (normalized ?v)) = 47
    \<and> g_utf8_strlen (create_label (Some ?v) 50) = 50"
    by (rule conjunct1)
  from this long
  have three: "create_label (Some ?v) 50
                 = take (utf8_advance 47 (normalized ?v)) (normalized ?v) @ ''...''
    \<and> g_utf8_strlen (take (utf8_advance 47 (normalized ?v)) (normalized ?v)) = 47
    \<and> g_utf8_strlen (create_label (Some ?v) 50) = 50"
    by (rule mp)
  then have v: "create_label (Some ?v) 50
                  = take (utf8_advance 47 (normalized ?v)) (normalized ?v) @ ''...''"
    by (rule conjunct1)
  from three have vl: "g_utf8_strlen (create_label (Some ?v) 50) = 50"
    by (elim conjE)
  from v have v': "create_label (Some ?v) 50 = CHR 0x0B # replicate 46 CHR ''x'' @ ''...''"
    unfolding vertical_tab_long_label_example(1) vertical_tab_long_label_example(3) by simp
  from h' s r c long v' vl show ?thesis by blast
qed

subsection \<open>Facts about stored rows and their items\<close>

lemma join_uris_acc:
  "acc \<noteq> [] \<Longrightarrow> join_uris acc us = acc @ concat (map (\<lambda>u. CHR 0x0A # u) us)"
  by (induction us arbitrary: acc) auto

lemma join_uris_nonempty_head:
  "u \<noteq> [] \<Longrightarrow> join_uris [] (u # us) = u @ concat (map (\<lambda>u. CHR 0x0A # u) us)"
  by (simp add: join_uris_acc)

lemma split_line:
  "CHR 0x0A \<notin> set u \<Longrightarrow> split_at_newlines (u @ CHR 0x0A # rest) = u # split_at_newlines rest"
  by (induction u) auto

lemma split_single: "CHR 0x0A \<notin> set u \<Longrightarrow> split_at_newlines u = [u]"
  by (induction u) auto

lemma split_joined:
  "CHR 0x0A \<notin> set u \<Longrightarrow> \<forall>v\<in>set us. CHR 0x0A \<notin> set v \<Longrightarrow>
   split_at_newlines (u @ concat (map (\<lambda>u. CHR 0x0A # u) us)) = u # us"
  by (induction us arbitrary: u) (simp_all add: split_single split_line)

lemma g_strsplit_join_uris:
  assumes "\<forall>u\<in>set us. u \<noteq> [] \<and> CHR 0x0A \<notin> set u"
  shows "g_strsplit_newline (join_uris [] us) = us"
proof (cases us)
  case Nil
  then show ?thesis by (simp add: g_strsplit_newline_def)
next
  case (Cons u vs)
  with assms have "u \<noteq> []" "CHR 0x0A \<notin> set u" "\<forall>v\<in>set vs. CHR 0x0A \<notin> set v" by auto
  then show ?thesis
    by (simp add: Cons g_strsplit_newline_def join_uris_nonempty_head split_joined
          del: join_uris.simps)
qed

text \<open>The row written for an item gives the item back, with the row's id.\<close>

lemma item_from_row_text:
  assumes "clipman_item_new_text ext (Some t) s = Some a"
  shows "item_from_row ext ((row_of_item ext a ts)\<lparr>row_id := i\<rparr>) = Some (a\<lparr>item_id := i\<rparr>)"
proof -
  from assms have a: "a = \<lparr> item_id = 0, item_type = CLIPMAN_ITEM_TYPE_TEXT, item_source = s,
                 item_text = Some t, item_pixbuf = None, item_uris = None,
                 item_checksum = compute_checksum ext t,
                 item_label = create_label (Some t) 50 \<rparr>"
    by (simp add: clipman_item_new_text_def)
  show ?thesis
    by (simp add: a item_from_row_def row_of_item_def clipman_item_new_text_def
          clipman_item_set_id_def)
qed

lemma item_from_row_files:
  assumes "clipman_item_new_files ext (Some us) s = Some a"
    and "\<forall>u\<in>set us. u \<noteq> [] \<and> CHR 0x0A \<notin> set u"
  shows "item_from_row ext ((row_of_item ext a ts)\<lparr>row_id := i\<rparr>) = Some (a\<lparr>item_id := i\<rparr>)"
proof -
  from assms(1) have a: "a = \<lparr> item_id = 0, item_type = CLIPMAN_ITEM_TYPE_FILES, item_source = s,
                 item_text = Some (join_uris [] us), item_pixbuf = None, item_uris = Some us,
                 item_checksum = compute_checksum ext (join_uris [] us),
                 item_label =
                   (if length us mod 2 ^ 32 = 1
                    then ''[File: '' @ g_path_get_basename (us ! 0) @ '']''
                    else ''['' @ printf_u (length us mod 2 ^ 32) @ '' files]'') \<rparr>"
    by (auto simp add: clipman_item_new_files_def Let_def)
  show ?thesis
    by (simp add: a item_from_row_def row_of_item_def clipman_item_new_files_def
          clipman_item_set_id_def g_strsplit_join_uris [OF assms(2)] Let_def)
qed

lemma item_from_row_image:
  assumes "clipman_item_new_image ext (Some pb) s = Some a"
    and "png_save ext pb = Some blob" and "blob \<noteq> []" and "png_load ext blob = Some pb"
  shows "item_from_row ext ((row_of_item ext a ts)\<lparr>row_id := i\<rparr>) = Some (a\<lparr>item_id := i\<rparr>)"
proof -
  from assms(1,2) have a: "a = \<lparr> item_id = 0, item_type = CLIPMAN_ITEM_TYPE_IMAGE, item_source = s,
                 item_text = None, item_pixbuf = Some pb, item_uris = None,
                 item_checksum = compute_checksum ext blob,
                 item_label = ''[Image '' @ printf_d (pixbuf_width pb) @ ''x''
                                @ printf_d (pixbuf_height pb) @ '']'' \<rparr>"
    by (simp add: clipman_item_new_image_def)
  show ?thesis
    using assms(2,3,4)
    by (simp add: a item_from_row_def row_of_item_def clipman_item_new_image_def
          clipman_item_set_id_def)
qed

lemma item_from_row_payload:
  assumes "item_from_row ext r = Some item"
  shows "(item_type item \<noteq> CLIPMAN_ITEM_TYPE_IMAGE \<longrightarrow> (\<exists>t. item_text item = Some t))
       \<and> (item_type item = CLIPMAN_ITEM_TYPE_IMAGE \<longrightarrow> (\<exists>pb. item_pixbuf item = Some pb))"
  using assms
  by (auto simp: item_from_row_def clipman_item_new_text_def clipman_item_new_files_def
        clipman_item_new_image_def clipman_item_set_id_def Let_def
        split: ClipmanItemType.splits option.splits if_splits)

lemma get_by_checksum_appended:
  assumes "row_checksum r \<notin> row_checksum ` set rs"
  shows "clipman_storage_get_by_checksum ext sqlite_healthy
           (db\<lparr>db_rows := rs @ [r], db_sequence := q\<rparr>) (Some (row_checksum r))
         = item_from_row ext r"
  using filter_absent_key [OF assms]
  by (simp add: clipman_storage_get_by_checksum_def sqlite_healthy_def)

text \<open>After \<^verbatim>\<open>add_item\<close> the item's checksum selects the id the item was given.\<close>

lemma add_item_then_select:
  assumes "clipman_storage_add_item ext sqlite_healthy rt db item = (ok, item', db', sigs)"
  shows "ok \<and> select_id_by_checksum db' (item_checksum item) = Some (item_id item')"
proof (cases "select_id_by_checksum db (item_checksum item)")
  case None
  then have "filter (\<lambda>r. row_checksum r = item_checksum item) (db_rows db) = []"
    by (simp add: select_id_by_checksum_def split: list.splits)
  then have absent: "item_checksum item \<notin> row_checksum ` set (db_rows db)"
    by (auto simp: filter_empty_conv)
  from add_item_insert [OF absent, of ext rt] assms
  have "ok" "item' = item\<lparr>item_id := next_rowid db\<rparr>"
    "db' = db\<lparr>db_rows := db_rows db
                  @ [(row_of_item ext item (rt sdiv 1000000))\<lparr>row_id := next_rowid db\<rparr>],
               db_sequence := next_rowid db\<rparr>"
    by simp_all
  then show ?thesis
    using filter_absent_key [OF absent]
    by (simp add: select_id_by_checksum_def row_of_item_def)
next
  case (Some i)
  then obtain r rs
    where f: "filter (\<lambda>r. row_checksum r = item_checksum item) (db_rows db) = r # rs"
      and i: "i = row_id r"
    by (auto simp: select_id_by_checksum_def split: list.splits)
  let ?g = "\<lambda>r. if row_id r = i then r\<lparr>row_timestamp := rt sdiv 1000000\<rparr> else r"
  from Some assms have res: "ok" "item' = item\<lparr>item_id := i\<rparr>"
    "db' = update_timestamp db (rt sdiv 1000000) i"
    by (simp_all add: clipman_storage_add_item_def sqlite_healthy_def clipman_item_set_id_def)
  have comp: "(\<lambda>r. row_checksum r = item_checksum item) \<circ> ?g
                = (\<lambda>r. row_checksum r = item_checksum item)"
    by (auto simp: fun_eq_iff)
  have "filter (\<lambda>r. row_checksum r = item_checksum item) (map ?g (db_rows db)) = map ?g (r # rs)"
    unfolding filter_map comp f ..
  then show ?thesis
    using res i by (simp add: select_id_by_checksum_def update_timestamp_def)
qed

lemma add_item_same_checksum_touches:
  assumes "select_id_by_checksum db (item_checksum item) = Some i"
  shows "clipman_storage_add_item ext sqlite_healthy rt db item
           = (True, item\<lparr>item_id := i\<rparr>, update_timestamp db (rt sdiv 1000000) i, [])
        \<and> length (db_rows (update_timestamp db (rt sdiv 1000000) i)) = length (db_rows db)"
  using assms
  by (simp add: clipman_storage_add_item_def sqlite_healthy_def clipman_item_set_id_def
        update_timestamp_def)

subsection \<open>Facts about the recency order\<close>

lemma order_sorted:
  "sorted_wrt (\<lambda>a b. row_timestamp b \<le> row_timestamp a) (order_by_timestamp_desc rs)"
proof -
  have "sorted (map (\<lambda>r. - row_timestamp r) (sort_key (\<lambda>r. - row_timestamp r) rs))"
    by (rule sorted_sort_key)
  then show ?thesis by (simp add: order_by_timestamp_desc_def sorted_map)
qed

lemma order_set: "set (order_by_timestamp_desc rs) = set rs"
  by (simp add: order_by_timestamp_desc_def)

lemma select_items_sorted:
  "sorted_wrt (\<lambda>a b. row_timestamp b \<le> row_timestamp a) (select_items io db limit)"
  by (simp add: select_items_def order_sorted sorted_wrt_take)

lemma select_items_subset: "set (select_items io db limit) \<subseteq> set (db_rows db)"
  using set_take_subset [of _ "order_by_timestamp_desc (db_rows db)"]
  by (auto simp: select_items_def order_set)

lemma select_items_newest:
  assumes "r \<in> set (select_items sqlite_healthy db limit)"
    and "r' \<in> set (db_rows db)" and "r' \<notin> set (select_items sqlite_healthy db limit)"
  shows "row_timestamp r' \<le> row_timestamp r"
proof -
  define n where "n = nat (if limit > 0 then limit else 100)"
  define xs where "xs = order_by_timestamp_desc (db_rows db)"
  have sel: "select_items sqlite_healthy db limit = take n xs"
    by (simp add: select_items_def sqlite_healthy_def n_def xs_def)
  have "sorted_wrt (\<lambda>a b. row_timestamp b \<le> row_timestamp a) (take n xs @ drop n xs)"
    by (simp add: xs_def order_sorted)
  then have *: "\<forall>a\<in>set (take n xs). \<forall>b\<in>set (drop n xs). row_timestamp b \<le> row_timestamp a"
    unfolding sorted_wrt_append by blast
  from assms(2) have "r' \<in> set (take n xs @ drop n xs)" by (simp add: xs_def order_set)
  with assms(3) have "r' \<in> set (drop n xs)" unfolding sel set_append by blast
  with * assms(1) show ?thesis unfolding sel by blast
qed

lemma item_from_row_id: "item_from_row ext r = Some item \<Longrightarrow> item_id item = row_id r"
  by (auto simp: item_from_row_def clipman_item_set_id_def Let_def split: option.splits)

lemma items_from_rows_ids:
  "map item_id (items_from_rows ext rs)
     = map row_id (filter (\<lambda>r. item_from_row ext r \<noteq> None) rs)"
  by (induction rs) (auto simp: item_from_row_id split: option.splits)

lemma length_items_from_rows: "length (items_from_rows ext rs) \<le> length rs"
  by (induction rs) (auto split: option.splits)

lemma length_get_items:
  "length (clipman_storage_get_items ext io db limit) \<le> nat (if limit > 0 then limit else 100)"
proof -
  have "length (items_from_rows ext (select_items io db limit))
          \<le> length (select_items io db limit)"
    by (rule length_items_from_rows)
  also have "\<dots> \<le> nat (if limit > 0 then limit else 100)"
    by (simp add: select_items_def)
  finally show ?thesis by (auto simp: clipman_storage_get_items_def split: if_splits)
qed

lemma order_head_newest:
  assumes "order_by_timestamp_desc rs = r # rest" and "r' \<in> set rs"
  shows "row_timestamp r' \<le> row_timestamp r"
proof -
  have "sorted_wrt (\<lambda>a b. row_timestamp b \<le> row_timestamp a) (r # rest)"
    using order_sorted [of rs] assms(1) by simp
  moreover have "r' \<in> set (r # rest)" using order_set [of rs] assms by simp
  ultimately show ?thesis by auto
qed

lemma next_rowid_empty: "next_rowid empty_db = 1"
  by (simp add: next_rowid_def empty_db_def)

text \<open>Three text items with different checksums, added at seconds 1, 2 and 3.\<close>

lemma three_items_history:
  assumes a: "clipman_item_new_text ext (Some ta) sa = Some a"
      and b: "clipman_item_new_text ext (Some tb) sb = Some b"
      and c: "clipman_item_new_text ext (Some tc) sc = Some c"
      and ab: "item_checksum a \<noteq> item_checksum b"
      and ac: "item_checksum a \<noteq> item_checksum c"
      and bc: "item_checksum b \<noteq> item_checksum c"
  shows "\<exists>db1 db2 db3 db4 s1 s2 s3 s4.
           clipman_storage_add_item ext sqlite_healthy 1000000 empty_db a
             = (True, a\<lparr>item_id := 1\<rparr>, db1, s1)
         \<and> clipman_storage_add_item ext sqlite_healthy 2000000 db1 b
             = (True, b\<lparr>item_id := 2\<rparr>, db2, s2)
         \<and> clipman_storage_add_item ext sqlite_healthy 3000000 db2 c
             = (True, c\<lparr>item_id := 3\<rparr>, db3, s3)
         \<and> clipman_storage_get_items ext sqlite_healthy db3 10
             = [c\<lparr>item_id := 3\<rparr>, b\<lparr>item_id := 2\<rparr>, a\<lparr>item_id := 1\<rparr>]
         \<and> clipman_storage_add_item ext sqlite_healthy 4000000 db3 a
             = (True, a\<lparr>item_id := 1\<rparr>, db4, s4)
         \<and> clipman_storage_get_items ext sqlite_healthy db4 10
             = [a\<lparr>item_id := 1\<rparr>, c\<lparr>item_id := 3\<rparr>, b\<lparr>item_id := 2\<rparr>]"
proof -
  define ra where "ra = (row_of_item ext a 1)\<lparr>row_id := 1\<rparr>"
  define rb where "rb = (row_of_item ext b 2)\<lparr>row_id := 2\<rparr>"
  define rc where "rc = (row_of_item ext c 3)\<lparr>row_id := 3\<rparr>"
  define ra' where "ra' = (row_of_item ext a 4)\<lparr>row_id := 1\<rparr>"
  define db1 where "db1 = \<lparr> db_rows = [ra], db_sequence = 1 \<rparr>"
  define db2 where "db2 = \<lparr> db_rows = [ra, rb], db_sequence = 2 \<rparr>"
  define db3 where "db3 = \<lparr> db_rows = [ra, rb, rc], db_sequence = 3 \<rparr>"
  define db4 where "db4 = \<lparr> db_rows = [ra', rb, rc], db_sequence = 3 \<rparr>"
  have cs: "row_checksum ra = item_checksum a" "row_checksum rb = item_checksum b"
    "row_checksum rc = item_checksum c" "row_checksum ra' = item_checksum a"
    by (simp_all add: ra_def rb_def rc_def ra'_def row_of_item_def)
  have ids: "row_id ra = 1" "row_id rb = 2" "row_id rc = 3" "row_id ra' = 1"
    by (simp_all add: ra_def rb_def rc_def ra'_def)
  have ts: "row_timestamp ra = 1" "row_timestamp rb = 2" "row_timestamp rc = 3"
    "row_timestamp ra' = 4"
    by (simp_all add: ra_def rb_def rc_def ra'_def row_of_item_def)
  have fr: "item_from_row ext ra = Some (a\<lparr>item_id := 1\<rparr>)"
    "item_from_row ext rb = Some (b\<lparr>item_id := 2\<rparr>)"
    "item_from_row ext rc = Some (c\<lparr>item_id := 3\<rparr>)"
    "item_from_row ext ra' = Some (a\<lparr>item_id := 1\<rparr>)"
    unfolding ra_def rb_def rc_def ra'_def
    by (rule item_from_row_text [OF a] item_from_row_text [OF b] item_from_row_text [OF c])+
  have 1: "clipman_storage_add_item ext sqlite_healthy 1000000 empty_db a
             = (True, a\<lparr>item_id := 1\<rparr>, db1, [SIGNAL_ITEM_ADDED (a\<lparr>item_id := 1\<rparr>)])"
    using add_item_insert [of a empty_db ext 1000000]
    by (simp add: next_rowid_empty db1_def ra_def) (simp add: empty_db_def)
  have 2: "clipman_storage_add_item ext sqlite_healthy 2000000 db1 b
             = (True, b\<lparr>item_id := 2\<rparr>, db2, [SIGNAL_ITEM_ADDED (b\<lparr>item_id := 2\<rparr>)])"
    using add_item_insert [of b db1 ext 2000000] ab
    by (simp add: db1_def db2_def rb_def next_rowid_def cs ids)
  have 3: "clipman_storage_add_item ext sqlite_healthy 3000000 db2 c
             = (True, c\<lparr>item_id := 3\<rparr>, db3, [SIGNAL_ITEM_ADDED (c\<lparr>item_id := 3\<rparr>)])"
    using add_item_insert [of c db2 ext 3000000] ac bc
    by (simp add: db2_def db3_def rc_def next_rowid_def cs ids)
  have ok3: "table_ok db3"
    using ab ac bc by (simp add: table_ok_def db3_def cs ids)
  have ne: "rb \<noteq> ra" "rc \<noteq> ra" using ids by auto
  have 4: "clipman_storage_add_item ext sqlite_healthy 4000000 db3 a
             = (True, a\<lparr>item_id := 1\<rparr>, db4, [])"
    using add_item_touch [OF ok3, of ra a ext 4000000] ne
    by (simp add: db3_def db4_def cs ids) (simp add: ra_def ra'_def row_of_item_def)
  have g3: "clipman_storage_get_items ext sqlite_healthy db3 10
              = [c\<lparr>item_id := 3\<rparr>, b\<lparr>item_id := 2\<rparr>, a\<lparr>item_id := 1\<rparr>]"
    by (simp add: clipman_storage_get_items_def select_items_def sqlite_healthy_def
          order_by_timestamp_desc_def db3_def ts fr)
  have g4: "clipman_storage_get_items ext sqlite_healthy db4 10
              = [a\<lparr>item_id := 1\<rparr>, c\<lparr>item_id := 3\<rparr>, b\<lparr>item_id := 2\<rparr>]"
    by (simp add: clipman_storage_get_items_def select_items_def sqlite_healthy_def
          order_by_timestamp_desc_def db4_def ts fr)
  from 1 2 3 4 g3 g4 show ?thesis by blast
qed

lemma length_select_items:
  "length (select_items sqlite_healthy db limit)
     = min (length (db_rows db)) (nat (if 0 < limit then limit else 100))"
  by (simp add: select_items_def sqlite_healthy_def order_by_timestamp_desc_def)

lemma distinct_ids_select_items:
  assumes "distinct (map row_id (db_rows db))"
  shows "distinct (map row_id (select_items io db limit))"
proof -
  from assms have d: "distinct (db_rows db)" and i: "inj_on row_id (set (db_rows db))"
    by (simp_all add: distinct_map)
  have "distinct (select_items io db limit)"
    using d by (simp add: select_items_def order_by_timestamp_desc_def)
  moreover have "inj_on row_id (set (select_items io db limit))"
    using i select_items_subset [of io db limit] by (rule inj_on_subset)
  ultimately show ?thesis by (simp add: distinct_map)
qed

lemma items_from_rows_all_readable:
  assumes "\<forall>r\<in>set rs. item_from_row ext r \<noteq> None"
  shows "map item_id (items_from_rows ext rs) = map row_id rs"
proof -
  from assms have "filter (\<lambda>r. item_from_row ext r \<noteq> None) rs = rs"
    by (simp add: filter_id_conv)
  then show ?thesis by (simp add: items_from_rows_ids)
qed

lemma get_items_all_readable:
  assumes "\<forall>r\<in>set (db_rows db). item_from_row ext r \<noteq> None"
  shows "map item_id (clipman_storage_get_items ext sqlite_healthy db limit)
           = map row_id (select_items sqlite_healthy db limit)"
    and "length (clipman_storage_get_items ext sqlite_healthy db limit)
           = min (length (db_rows db)) (nat (if 0 < limit then limit else 100))"
proof -
  from assms select_items_subset [of sqlite_healthy db limit]
  have "\<forall>r\<in>set (select_items sqlite_healthy db limit). item_from_row ext r \<noteq> None"
    by blast
  then have "map item_id (items_from_rows ext (select_items sqlite_healthy db limit))
               = map row_id (select_items sqlite_healthy db limit)"
    by (rule items_from_rows_all_readable)
  then show ids: "map item_id (clipman_storage_get_items ext sqlite_healthy db limit)
           = map row_id (select_items sqlite_healthy db limit)"
    by (simp add: clipman_storage_get_items_def sqlite_healthy_def)
  have "length (clipman_storage_get_items ext sqlite_healthy db limit)
          = length (map item_id (clipman_storage_get_items ext sqlite_healthy db limit))"
    by simp
  also have "\<dots> = length (select_items sqlite_healthy db limit)"
    unfolding ids by simp
  finally show "length (clipman_storage_get_items ext sqlite_healthy db limit)
           = min (length (db_rows db)) (nat (if 0 < limit then limit else 100))"
    by (simp only: length_select_items)
qed

lemma item_from_row_text_row:
  "row_type r = CLIPMAN_ITEM_TYPE_TEXT \<Longrightarrow> row_text_content r = Some t
     \<Longrightarrow> item_from_row ext r \<noteq> None"
  by (simp add: item_from_row_def clipman_item_new_text_def)

subsection \<open>Listing the history\<close>

text \<open>
  Claim C7. With the database executing its statements, \<^verbatim>\<open>get_items (limit)\<close> steps through
  as many rows as the table has, up to \<open>limit\<close> when \<open>limit > 0\<close> and up to 100 otherwise;
  these rows are rows of the table (different ones when the ids in the table differ), sorted
  by timestamp, newest first, and no row left out is newer than a row taken. The result is
  built from them in order: the ids of the items are the ids of those rows that give an
  item, so when every row gives an item the result has exactly that many items, in that
  order. For every outcome of the SQLite calls the result has at most \<open>limit\<close> (or 100)
  items. After adding three text items with different checksums at seconds 1, 2 and 3 to
  the empty table, \<^verbatim>\<open>get_items (10)\<close> returns them newest to oldest; adding the oldest again
  at second 4 moves it to the front.
\<close>

theorem get_items_newest_first:
  "clipman_storage_get_items ext sqlite_healthy db limit
     = items_from_rows ext (select_items sqlite_healthy db limit)
 \<and> map item_id (clipman_storage_get_items ext sqlite_healthy db limit)
     = map row_id (filter (\<lambda>r. item_from_row ext r \<noteq> None)
                     (select_items sqlite_healthy db limit))
 \<and> length (select_items sqlite_healthy db limit)
     = min (length (db_rows db)) (nat (if 0 < limit then limit else 100))
 \<and> (distinct (map row_id (db_rows db)) \<longrightarrow>
      distinct (map row_id (select_items sqlite_healthy db limit)))
 \<and> ((\<forall>r\<in>set (db_rows db). item_from_row ext r \<noteq> None) \<longrightarrow>
      map item_id (clipman_storage_get_items ext sqlite_healthy db limit)
        = map row_id (select_items sqlite_healthy db limit)
    \<and> length (clipman_storage_get_items ext sqlite_healthy db limit)
        = min (length (db_rows db)) (nat (if 0 < limit then limit else 100)))
 \<and> sorted_wrt (\<lambda>a b. row_timestamp b \<le> row_timestamp a) (select_items sqlite_healthy db limit)
 \<and> set (select_items sqlite_healthy db limit) \<subseteq> set (db_rows db)
 \<and> (\<forall>r\<in>set (select_items sqlite_healthy db limit).
      \<forall>r'\<in>set (db_rows db) - set (select_items sqlite_healthy db limit).
        row_timestamp r' \<le> row_timestamp r)
 \<and> (0 < limit \<longrightarrow> length (clipman_storage_get_items ext io db limit) \<le> nat limit)
 \<and> (limit \<le> 0 \<longrightarrow> length (clipman_storage_get_items ext io db limit) \<le> 100)
 \<and> (\<forall>a b c. clipman_item_new_text ext (Some ta) sa = Some a
           \<and> clipman_item_new_text ext (Some tb) sb = Some b
           \<and> clipman_item_new_text ext (Some tc) sc = Some c
           \<and> item_checksum a \<noteq> item_checksum b \<and> item_checksum a \<noteq> item_checksum c
           \<and> item_checksum b \<noteq> item_checksum c \<longrightarrow>
      (\<exists>db1 db2 db3 db4 s1 s2 s3 s4.
           clipman_storage_add_item ext sqlite_healthy 1000000 empty_db a
             = (True, a\<lparr>item_id := 1\<rparr>, db1, s1)
         \<and> clipman_storage_add_item ext sqlite_healthy 2000000 db1 b
             = (True, b\<lparr>item_id := 2\<rparr>, db2, s2)
         \<and> clipman_storage_add_item ext sqlite_healthy 3000000 db2 c
             = (True, c\<lparr>item_id := 3\<rparr>, db3, s3)
         \<and> clipman_storage_get_items ext sqlite_healthy db3 10
             = [c\<lparr>item_id := 3\<rparr>, b\<lparr>item_id := 2\<rparr>, a\<lparr>item_id := 1\<rparr>]
         \<and> clipman_storage_add_item ext sqlite_healthy 4000000 db3 a
             = (True, a\<lparr>item_id := 1\<rparr>, db4, s4)
         \<and> clipman_storage_get_items ext sqlite_healthy db4 10
             = [a\<lparr>item_id := 1\<rparr>, c\<lparr>item_id := 3\<rparr>, b\<lparr>item_id := 2\<rparr>]))"
proof -
  have 1: "clipman_storage_get_items ext sqlite_healthy db limit
             = items_from_rows ext (select_items sqlite_healthy db limit)"
    by (simp add: clipman_storage_get_items_def sqlite_healthy_def)
  have 2: "\<forall>r\<in>set (select_items sqlite_healthy db limit).
      \<forall>r'\<in>set (db_rows db) - set (select_items sqlite_healthy db limit).
        row_timestamp r' \<le> row_timestamp r"
    using select_items_newest [of _ db limit] by blast
  have 3: "0 < limit \<longrightarrow> length (clipman_storage_get_items ext io db limit) \<le> nat limit"
    using length_get_items [of ext io db limit] by (auto split: if_splits)
  have 4: "limit \<le> 0 \<longrightarrow> length (clipman_storage_get_items ext io db limit) \<le> 100"
    using length_get_items [of ext io db limit] by (auto split: if_splits)
  have 5: "map item_id (clipman_storage_get_items ext sqlite_healthy db limit)
     = map row_id (filter (\<lambda>r. item_from_row ext r \<noteq> None)
                     (select_items sqlite_healthy db limit))"
    unfolding 1 by (rule items_from_rows_ids)
  have 6: "distinct (map row_id (db_rows db)) \<longrightarrow>
      distinct (map row_id (select_items sqlite_healthy db limit))"
    using distinct_ids_select_items [of db sqlite_healthy limit] by blast
  have 7: "(\<forall>r\<in>set (db_rows db). item_from_row ext r \<noteq> None) \<longrightarrow>
      map item_id (clipman_storage_get_items ext sqlite_healthy db limit)
        = map row_id (select_items sqlite_healthy db limit)
    \<and> length (clipman_storage_get_items ext sqlite_healthy db limit)
        = min (length (db_rows db)) (nat (if 0 < limit then limit else 100))"
    using get_items_all_readable [of db ext limit] by blast
  have 8: "\<forall>a b c. clipman_item_new_text ext (Some ta) sa = Some a
           \<and> clipman_item_new_text ext (Some tb) sb = Some b
           \<and> clipman_item_new_text ext (Some tc) sc = Some c
           \<and> item_checksum a \<noteq> item_checksum b \<and> item_checksum a \<noteq> item_checksum c
           \<and> item_checksum b \<noteq> item_checksum c \<longrightarrow>
      (\<exists>db1 db2 db3 db4 s1 s2 s3 s4.
           clipman_storage_add_item ext sqlite_healthy 1000000 empty_db a
             = (True, a\<lparr>item_id := 1\<rparr>, db1, s1)
         \<and> clipman_storage_add_item ext sqlite_healthy 2000000 db1 b
             = (True, b\<lparr>item_id := 2\<rparr>, db2, s2)
         \<and> clipman_storage_add_item ext sqlite_healthy 3000000 db2 c
             = (True, c\<lparr>item_id := 3\<rparr>, db3, s3)
         \<and> clipman_storage_get_items ext sqlite_healthy db3 10
             = [c\<lparr>item_id := 3\<rparr>, b\<lparr>item_id := 2\<rparr>, a\<lparr>item_id := 1\<rparr>]
         \<and> clipman_storage_add_item ext sqlite_healthy 4000000 db3 a
             = (True, a\<lparr>item_id := 1\<rparr>, db4, s4)
         \<and> clipman_storage_get_items ext sqlite_healthy db4 10
             = [a\<lparr>item_id := 1\<rparr>, c\<lparr>item_id := 3\<rparr>, b\<lparr>item_id := 2\<rparr>])"
    using three_items_history [of ext ta sa _ tb sb _ tc sc] by blast
  from 1 5 length_select_items [of db limit] 6 7
    select_items_sorted [of sqlite_healthy db limit]
    select_items_subset [of sqlite_healthy db limit] 2 3 4 8
  show ?thesis by (intro conjI)
qed

theorem get_items_newest_first_witness:
  "clipman_item_new_text example_externals (Some ''A'') CLIPMAN_SOURCE_CLIPBOARD
     = Some (example_text_item ''A'' 0)
   \<and> clipman_item_new_text example_externals (Some ''B'') CLIPMAN_SOURCE_CLIPBOARD
     = Some (example_text_item ''B'' 0)
   \<and> clipman_item_new_text example_externals (Some ''C'') CLIPMAN_SOURCE_CLIPBOARD
     = Some (example_text_item ''C'' 0)
   \<and> item_checksum (example_text_item ''A'' 0) \<noteq> item_checksum (example_text_item ''B'' 0)
   \<and> item_checksum (example_text_item ''A'' 0) \<noteq> item_checksum (example_text_item ''C'' 0)
   \<and> item_checksum (example_text_item ''B'' 0) \<noteq> item_checksum (example_text_item ''C'' 0)
   \<and> (\<exists>db1 db2 db3 db4 s1 s2 s3 s4.
           clipman_storage_add_item example_externals sqlite_healthy 1000000 empty_db
               (example_text_item ''A'' 0)
             = (True, example_text_item ''A'' 1, db1, s1)
         \<and> clipman_storage_add_item example_externals sqlite_healthy 2000000 db1
               (example_text_item ''B'' 0)
             = (True, example_text_item ''B'' 2, db2, s2)
         \<and> clipman_storage_add_item example_externals sqlite_healthy 3000000 db2
               (example_text_item ''C'' 0)
             = (True, example_text_item ''C'' 3, db3, s3)
         \<and> clipman_storage_get_items example_externals sqlite_healthy db3 10
             = [example_text_item ''C'' 3, example_text_item ''B'' 2, example_text_item ''A'' 1]
         \<and> clipman_storage_add_item example_externals sqlite_healthy 4000000 db3
               (example_text_item ''A'' 0)
             = (True, example_text_item ''A'' 1, db4, s4)
         \<and> clipman_storage_get_items example_externals sqlite_healthy db4 10
             = [example_text_item ''A'' 1, example_text_item ''C'' 3, example_text_item ''B'' 2])
   \<and> item_from_row example_externals (example_text_row ''A'' 1 1) \<noteq> None
   \<and> item_from_row example_externals (example_text_row ''B'' 2 2) \<noteq> None
   \<and> item_from_row example_externals (example_text_row ''C'' 3 3) \<noteq> None
   \<and> distinct (map row_id (db_rows
         \<lparr> db_rows = [example_text_row ''A'' 1 1, example_text_row ''B'' 2 2,
                       example_text_row ''C'' 3 3], db_sequence = 3 \<rparr>))
   \<and> map item_id (clipman_storage_get_items example_externals sqlite_healthy
         \<lparr> db_rows = [example_text_row ''A'' 1 1, example_text_row ''B'' 2 2,
                       example_text_row ''C'' 3 3], db_sequence = 3 \<rparr> 2) = [3, 2]
   \<and> map item_id (clipman_storage_get_items example_externals sqlite_healthy
         \<lparr> db_rows = [example_text_row ''A'' 1 1, example_text_row ''B'' 2 2,
                       example_text_row ''C'' 3 3], db_sequence = 3 \<rparr> 0) = [3, 2, 1]
   \<and> length (clipman_storage_get_items example_externals sqlite_healthy
         \<lparr> db_rows = [example_text_row ''A'' 1 1, example_text_row ''B'' 2 2,
                       example_text_row ''C'' 3 3], db_sequence = 3 \<rparr> (- 1)) = 3"
proof -
  let ?db = "\<lparr> db_rows = [example_text_row ''A'' 1 1, example_text_row ''B'' 2 2,
                           example_text_row ''C'' 3 3], db_sequence = 3 \<rparr>"
  have d: "item_checksum (example_text_item ''A'' 0) \<noteq> item_checksum (example_text_item ''B'' 0)"
    "item_checksum (example_text_item ''A'' 0) \<noteq> item_checksum (example_text_item ''C'' 0)"
    "item_checksum (example_text_item ''B'' 0) \<noteq> item_checksum (example_text_item ''C'' 0)"
    by (simp_all add: example_text_item_def)
  have u: "(example_text_item ''A'' 0)\<lparr>item_id := 1\<rparr> = example_text_item ''A'' 1"
    "(example_text_item ''B'' 0)\<lparr>item_id := 2\<rparr> = example_text_item ''B'' 2"
    "(example_text_item ''C'' 0)\<lparr>item_id := 3\<rparr> = example_text_item ''C'' 3"
    by (simp_all add: example_text_item_def)
  have rd: "item_from_row example_externals (example_text_row ''A'' 1 1) \<noteq> None"
    "item_from_row example_externals (example_text_row ''B'' 2 2) \<noteq> None"
    "item_from_row example_externals (example_text_row ''C'' 3 3) \<noteq> None"
    by (rule item_from_row_text_row; simp add: example_text_row_def)+
  then have all: "\<forall>r\<in>set (db_rows ?db). item_from_row example_externals r \<noteq> None"
    by simp
  have dist: "distinct (map row_id (db_rows ?db))"
    by (simp add: example_text_row_def)
  have sel2: "map row_id (select_items sqlite_healthy ?db 2) = [3, 2]"
    by (simp add: select_items_def sqlite_healthy_def order_by_timestamp_desc_def
          example_text_row_def)
  have sel0: "map row_id (select_items sqlite_healthy ?db 0) = [3, 2, 1]"
    by (simp add: select_items_def sqlite_healthy_def order_by_timestamp_desc_def
          example_text_row_def)
  note t2 = get_items_newest_first
             [of example_externals ?db 2 sqlite_healthy
                 "''A''" CLIPMAN_SOURCE_CLIPBOARD "''B''" CLIPMAN_SOURCE_CLIPBOARD
                 "''C''" CLIPMAN_SOURCE_CLIPBOARD]
  note t0 = get_items_newest_first
             [of example_externals ?db 0 sqlite_healthy
                 "''A''" CLIPMAN_SOURCE_CLIPBOARD "''B''" CLIPMAN_SOURCE_CLIPBOARD
                 "''C''" CLIPMAN_SOURCE_CLIPBOARD]
  note tm = get_items_newest_first
             [of example_externals ?db "- 1" sqlite_healthy
                 "''A''" CLIPMAN_SOURCE_CLIPBOARD "''B''" CLIPMAN_SOURCE_CLIPBOARD
                 "''C''" CLIPMAN_SOURCE_CLIPBOARD]
  from t2 all have "map item_id (clipman_storage_get_items example_externals sqlite_healthy ?db 2)
                      = map row_id (select_items sqlite_healthy ?db 2)"
    by blast
  then have ids2: "map item_id (clipman_storage_get_items example_externals sqlite_healthy ?db 2)
                     = [3, 2]"
    by (simp only: sel2)
  from t0 all have "map item_id (clipman_storage_get_items example_externals sqlite_healthy ?db 0)
                      = map row_id (select_items sqlite_healthy ?db 0)"
    by blast
  then have ids0: "map item_id (clipman_storage_get_items example_externals sqlite_healthy ?db 0)
                     = [3, 2, 1]"
    by (simp only: sel0)
  from tm all
  have "length (clipman_storage_get_items example_externals sqlite_healthy ?db (- 1))
          = min (length (db_rows ?db)) (nat (if 0 < (- 1 :: int) then - 1 else 100))"
    by blast
  then have lenm: "length (clipman_storage_get_items example_externals sqlite_healthy ?db (- 1)) = 3"
    by simp
  from t2 example_text_item_built(1,2,3) d
  have "\<exists>db1 db2 db3 db4 s1 s2 s3 s4.
           clipman_storage_add_item example_externals sqlite_healthy 1000000 empty_db
               (example_text_item ''A'' 0)
             = (True, (example_text_item ''A'' 0)\<lparr>item_id := 1\<rparr>, db1, s1)
         \<and> clipman_storage_add_item example_externals sqlite_healthy 2000000 db1
               (example_text_item ''B'' 0)
             = (True, (example_text_item ''B'' 0)\<lparr>item_id := 2\<rparr>, db2, s2)
         \<and> clipman_storage_add_item example_externals sqlite_healthy 3000000 db2
               (example_text_item ''C'' 0)
             = (True, (example_text_item ''C'' 0)\<lparr>item_id := 3\<rparr>, db3, s3)
         \<and> clipman_storage_get_items example_externals sqlite_healthy db3 10
             = [(example_text_item ''C'' 0)\<lparr>item_id := 3\<rparr>, (example_text_item ''B'' 0)\<lparr>item_id := 2\<rparr>,
                (example_text_item ''A'' 0)\<lparr>item_id := 1\<rparr>]
         \<and> clipman_storage_add_item example_externals sqlite_healthy 4000000 db3
               (example_text_item ''A'' 0)
             = (True, (example_text_item ''A'' 0)\<lparr>item_id := 1\<rparr>, db4, s4)
         \<and> clipman_storage_get_items example_externals sqlite_healthy db4 10
             = [(example_text_item ''A'' 0)\<lparr>item_id := 1\<rparr>, (example_text_item ''C'' 0)\<lparr>item_id := 3\<rparr>,
                (example_text_item ''B'' 0)\<lparr>item_id := 2\<rparr>]"
    by blast
  then have sc: "\<exists>db1 db2 db3 db4 s1 s2 s3 s4.
           clipman_storage_add_item example_externals sqlite_healthy 1000000 empty_db
               (example_text_item ''A'' 0)
             = (True, example_text_item ''A'' 1, db1, s1)
         \<and> clipman_storage_add_item example_externals sqlite_healthy 2000000 db1
               (example_text_item ''B'' 0)
             = (True, example_text_item ''B'' 2, db2, s2)
         \<and> clipman_storage_add_item example_externals sqlite_healthy 3000000 db2
               (example_text_item ''C'' 0)
             = (True, example_text_item ''C'' 3, db3, s3)
         \<and> clipman_storage_get_items example_externals sqlite_healthy db3 10
             = [example_text_item ''C'' 3, example_text_item ''B'' 2, example_text_item ''A'' 1]
         \<and> clipman_storage_add_item example_externals sqlite_healthy 4000000 db3
               (example_text_item ''A'' 0)
             = (True, example_text_item ''A'' 1, db4, s4)
         \<and> clipman_storage_get_items example_externals sqlite_healthy db4 10
             = [example_text_item ''A'' 1, example_text_item ''C'' 3, example_text_item ''B'' 2]"
    unfolding u .
  from example_text_item_built(1,2,3) d sc rd dist ids2 ids0 lenm show ?thesis
    by (intro conjI)
qed

subsection \<open>Reading an item back by its checksum\<close>

text \<open>
  \<^verbatim>\<open>item_from_row\<close> reads the id, kind, source, text and image columns only. A row that has
  the kind of an item and holds the item's text, or the PNG encoding of its image, gives
  the item back, with the id and the source of the row.
\<close>

lemma item_from_row_same_payload:
  assumes "(\<exists>t. clipman_item_new_text ext (Some t) source = Some item)
       \<or> (\<exists>us. clipman_item_new_files ext (Some us) source = Some item
                \<and> (\<forall>u\<in>set us. u \<noteq> [] \<and> CHR 0x0A \<notin> set u))
       \<or> (\<exists>pb blob. clipman_item_new_image ext (Some pb) source = Some item
                \<and> png_save ext pb = Some blob \<and> blob \<noteq> [] \<and> png_load ext blob = Some pb)"
    and "row_type r = item_type item"
    and "item_type item \<noteq> CLIPMAN_ITEM_TYPE_IMAGE \<longrightarrow> row_text_content r = item_text item"
    and "item_type item = CLIPMAN_ITEM_TYPE_IMAGE \<longrightarrow>
           (\<exists>pb. item_pixbuf item = Some pb \<and> row_image_data r = png_save ext pb)"
  shows "item_from_row ext r = Some (item\<lparr>item_id := row_id r, item_source := row_source r\<rparr>)"
  using assms(1)
proof (elim disjE exE conjE)
  fix t
  assume "clipman_item_new_text ext (Some t) source = Some item"
  then have a: "item = \<lparr> item_id = 0, item_type = CLIPMAN_ITEM_TYPE_TEXT, item_source = source,
                 item_text = Some t, item_pixbuf = None, item_uris = None,
                 item_checksum = compute_checksum ext t,
                 item_label = create_label (Some t) 50 \<rparr>"
    by (simp add: clipman_item_new_text_def)
  from assms(2,3) have "row_type r = CLIPMAN_ITEM_TYPE_TEXT" "row_text_content r = Some t"
    by (simp_all add: a)
  then show ?thesis
    by (simp add: a item_from_row_def clipman_item_new_text_def clipman_item_set_id_def)
next
  fix us
  assume "clipman_item_new_files ext (Some us) source = Some item"
    and us: "\<forall>u\<in>set us. u \<noteq> [] \<and> CHR 0x0A \<notin> set u"
  then have a: "item = \<lparr> item_id = 0, item_type = CLIPMAN_ITEM_TYPE_FILES, item_source = source,
                 item_text = Some (join_uris [] us), item_pixbuf = None, item_uris = Some us,
                 item_checksum = compute_checksum ext (join_uris [] us),
                 item_label =
                   (if length us mod 2 ^ 32 = 1
                    then ''[File: '' @ g_path_get_basename (us ! 0) @ '']''
                    else ''['' @ printf_u (length us mod 2 ^ 32) @ '' files]'') \<rparr>"
    by (auto simp add: clipman_item_new_files_def Let_def)
  from assms(2,3) have "row_type r = CLIPMAN_ITEM_TYPE_FILES"
    "row_text_content r = Some (join_uris [] us)"
    by (simp_all add: a)
  then show ?thesis
    by (simp add: a item_from_row_def clipman_item_new_files_def clipman_item_set_id_def
          g_strsplit_join_uris [OF us] Let_def)
next
  fix pb blob
  assume "clipman_item_new_image ext (Some pb) source = Some item"
    and png: "png_save ext pb = Some blob" "blob \<noteq> []" "png_load ext blob = Some pb"
  then have a: "item = \<lparr> item_id = 0, item_type = CLIPMAN_ITEM_TYPE_IMAGE, item_source = source,
                 item_text = None, item_pixbuf = Some pb, item_uris = None,
                 item_checksum = compute_checksum ext blob,
                 item_label = ''[Image '' @ printf_d (pixbuf_width pb) @ ''x''
                                @ printf_d (pixbuf_height pb) @ '']'' \<rparr>"
    by (simp add: clipman_item_new_image_def)
  from assms(2,4) png(1) have "row_type r = CLIPMAN_ITEM_TYPE_IMAGE" "row_image_data r = Some blob"
    by (simp_all add: a)
  then show ?thesis
    using png
    by (simp add: a item_from_row_def clipman_item_new_image_def clipman_item_set_id_def)
qed

lemma item_from_row_timestamp:
  "item_from_row ext (r\<lparr>row_timestamp := ts\<rparr>) = item_from_row ext r"
proof -
  have sel: "row_id (r\<lparr>row_timestamp := ts\<rparr>) = row_id r"
    "row_type (r\<lparr>row_timestamp := ts\<rparr>) = row_type r"
    "row_source (r\<lparr>row_timestamp := ts\<rparr>) = row_source r"
    "row_text_content (r\<lparr>row_timestamp := ts\<rparr>) = row_text_content r"
    "row_image_data (r\<lparr>row_timestamp := ts\<rparr>) = row_image_data r"
    by simp_all
  show ?thesis
    unfolding item_from_row_def sel ..
qed

text \<open>After a touch, the checksum selects the touched row.\<close>

lemma get_by_checksum_touched:
  assumes "filter (\<lambda>r. row_checksum r = c) (db_rows db) = r0 # rs"
  shows "clipman_storage_get_by_checksum ext sqlite_healthy
           (update_timestamp db ts (row_id r0)) (Some c)
         = item_from_row ext r0"
proof -
  let ?g = "\<lambda>r. if row_id r = row_id r0 then r\<lparr>row_timestamp := ts\<rparr> else r"
  have comp: "(\<lambda>r. row_checksum r = c) \<circ> ?g = (\<lambda>r. row_checksum r = c)"
    by (auto simp: fun_eq_iff)
  have "filter (\<lambda>r. row_checksum r = c) (map ?g (db_rows db)) = map ?g (r0 # rs)"
    unfolding filter_map comp assms ..
  then have "filter (\<lambda>r. row_checksum r = c) (db_rows (update_timestamp db ts (row_id r0)))
               = r0\<lparr>row_timestamp := ts\<rparr> # map ?g rs"
    by (simp add: update_timestamp_def)
  then show ?thesis
    by (simp add: clipman_storage_get_by_checksum_def sqlite_healthy_def item_from_row_timestamp)
qed

text \<open>
  Claim C8, as the code has it. Let the item be built by one of the three constructors:
  from any text; from a URI list whose URIs are non-empty and contain no newline; or from
  an image that the PNG encoder turns into a non-empty buffer which decodes to the same
  image. Let every stored row with the item's checksum have the item's kind and hold its
  payload (the item's text for a text or a file list, the PNG encoding of its image for an
  image); this covers the table that has no such row, and the re-adding of a stored item.
  If the database executes its statements, \<^verbatim>\<open>add_item\<close> accepts the item, and
  \<^verbatim>\<open>get_by_checksum\<close> with the item's checksum then returns an item with the id that
  \<^verbatim>\<open>add_item\<close> gave and with the kind, text, URI list, image, label and checksum of the item
  added. The item returned differs from the one \<^verbatim>\<open>add_item\<close> left in the source field at
  most (it has the source of the stored row), and not at all when the checksum was not
  stored before.
\<close>

theorem stored_item_round_trip:
  assumes "(\<exists>t. clipman_item_new_text ext (Some t) source = Some item)
       \<or> (\<exists>us. clipman_item_new_files ext (Some us) source = Some item
                \<and> (\<forall>u\<in>set us. u \<noteq> [] \<and> CHR 0x0A \<notin> set u))
       \<or> (\<exists>pb blob. clipman_item_new_image ext (Some pb) source = Some item
                \<and> png_save ext pb = Some blob \<and> blob \<noteq> [] \<and> png_load ext blob = Some pb)"
    and "\<forall>r\<in>set (db_rows db). row_checksum r = item_checksum item \<longrightarrow>
           row_type r = item_type item
         \<and> (item_type item \<noteq> CLIPMAN_ITEM_TYPE_IMAGE \<longrightarrow> row_text_content r = item_text item)
         \<and> (item_type item = CLIPMAN_ITEM_TYPE_IMAGE \<longrightarrow>
              (\<exists>pb. item_pixbuf item = Some pb \<and> row_image_data r = png_save ext pb))"
  shows "\<exists>item' db' sigs got.
           clipman_storage_add_item ext sqlite_healthy rt db item = (True, item', db', sigs)
         \<and> clipman_storage_get_by_checksum ext sqlite_healthy db' (Some (item_checksum item))
             = Some got
         \<and> got = item'\<lparr>item_source := item_source got\<rparr>
         \<and> (item_checksum item \<notin> row_checksum ` set (db_rows db) \<longrightarrow> got = item')
         \<and> item_id got = item_id item'
         \<and> item_type got = item_type item \<and> item_text got = item_text item
         \<and> item_uris got = item_uris item \<and> item_pixbuf got = item_pixbuf item
         \<and> item_label got = item_label item \<and> item_checksum got = item_checksum item"
proof (cases "filter (\<lambda>r. row_checksum r = item_checksum item) (db_rows db)")
  case Nil
  then have absent: "item_checksum item \<notin> row_checksum ` set (db_rows db)"
    by (auto simp: filter_empty_conv)
  define r where "r = (row_of_item ext item (rt sdiv 1000000))\<lparr>row_id := next_rowid db\<rparr>"
  have cs: "row_checksum r = item_checksum item"
    by (simp add: r_def row_of_item_def)
  from assms(1)
  have rebuilt: "item_from_row ext r = Some (item\<lparr>item_id := next_rowid db\<rparr>)"
    unfolding r_def
  proof (elim disjE exE conjE)
    fix t
    assume "clipman_item_new_text ext (Some t) source = Some item"
    then show "item_from_row ext ((row_of_item ext item (rt sdiv 1000000))\<lparr>row_id := next_rowid db\<rparr>)
                 = Some (item\<lparr>item_id := next_rowid db\<rparr>)"
      by (rule item_from_row_text)
  next
    fix us
    assume "clipman_item_new_files ext (Some us) source = Some item"
      and "\<forall>u\<in>set us. u \<noteq> [] \<and> CHR 0x0A \<notin> set u"
    then show "item_from_row ext ((row_of_item ext item (rt sdiv 1000000))\<lparr>row_id := next_rowid db\<rparr>)
                 = Some (item\<lparr>item_id := next_rowid db\<rparr>)"
      by (rule item_from_row_files)
  next
    fix pb blob
    assume "clipman_item_new_image ext (Some pb) source = Some item"
      and "png_save ext pb = Some blob" and "blob \<noteq> []" and "png_load ext blob = Some pb"
    then show "item_from_row ext ((row_of_item ext item (rt sdiv 1000000))\<lparr>row_id := next_rowid db\<rparr>)
                 = Some (item\<lparr>item_id := next_rowid db\<rparr>)"
      by (rule item_from_row_image)
  qed
  have add: "clipman_storage_add_item ext sqlite_healthy rt db item =
           (True, item\<lparr>item_id := next_rowid db\<rparr>,
            db\<lparr>db_rows := db_rows db @ [r], db_sequence := next_rowid db\<rparr>,
            [SIGNAL_ITEM_ADDED (item\<lparr>item_id := next_rowid db\<rparr>)])"
    unfolding r_def by (rule add_item_insert [OF absent])
  have "row_checksum r \<notin> row_checksum ` set (db_rows db)"
    unfolding cs by (rule absent)
  from get_by_checksum_appended [OF this, where ext = ext and db = db and q = "next_rowid db"]
  have get: "clipman_storage_get_by_checksum ext sqlite_healthy
           (db\<lparr>db_rows := db_rows db @ [r], db_sequence := next_rowid db\<rparr>)
           (Some (item_checksum item)) = Some (item\<lparr>item_id := next_rowid db\<rparr>)"
    by (simp only: cs rebuilt)
  show ?thesis
  proof (intro exI conjI)
    show "clipman_storage_add_item ext sqlite_healthy rt db item =
           (True, item\<lparr>item_id := next_rowid db\<rparr>,
            db\<lparr>db_rows := db_rows db @ [r], db_sequence := next_rowid db\<rparr>,
            [SIGNAL_ITEM_ADDED (item\<lparr>item_id := next_rowid db\<rparr>)])"
      by (rule add)
    show "clipman_storage_get_by_checksum ext sqlite_healthy
           (db\<lparr>db_rows := db_rows db @ [r], db_sequence := next_rowid db\<rparr>)
           (Some (item_checksum item)) = Some (item\<lparr>item_id := next_rowid db\<rparr>)"
      by (rule get)
  qed simp_all
next
  case (Cons r0 rs)
  then have "r0 \<in> set (filter (\<lambda>r. row_checksum r = item_checksum item) (db_rows db))"
    by simp
  then have mem: "r0 \<in> set (db_rows db)" and cs: "row_checksum r0 = item_checksum item"
    by simp_all
  from mem cs have stored: "item_checksum item \<in> row_checksum ` set (db_rows db)"
    by (metis imageI)
  from assms(2) mem cs
  have same: "row_type r0 = item_type item"
    "item_type item \<noteq> CLIPMAN_ITEM_TYPE_IMAGE \<longrightarrow> row_text_content r0 = item_text item"
    "item_type item = CLIPMAN_ITEM_TYPE_IMAGE \<longrightarrow>
       (\<exists>pb. item_pixbuf item = Some pb \<and> row_image_data r0 = png_save ext pb)"
    by blast+
  have rebuilt: "item_from_row ext r0
                   = Some (item\<lparr>item_id := row_id r0, item_source := row_source r0\<rparr>)"
    by (rule item_from_row_same_payload [OF assms(1) same])
  have sel: "select_id_by_checksum db (item_checksum item) = Some (row_id r0)"
    by (simp add: select_id_by_checksum_def Cons)
  from add_item_same_checksum_touches [OF sel, of ext rt]
  have add: "clipman_storage_add_item ext sqlite_healthy rt db item
           = (True, item\<lparr>item_id := row_id r0\<rparr>,
              update_timestamp db (rt sdiv 1000000) (row_id r0), [])"
    by (rule conjunct1)
  have get: "clipman_storage_get_by_checksum ext sqlite_healthy
           (update_timestamp db (rt sdiv 1000000) (row_id r0)) (Some (item_checksum item))
         = Some (item\<lparr>item_id := row_id r0, item_source := row_source r0\<rparr>)"
    unfolding get_by_checksum_touched [OF Cons] by (rule rebuilt)
  show ?thesis
  proof (intro exI conjI)
    show "clipman_storage_add_item ext sqlite_healthy rt db item
           = (True, item\<lparr>item_id := row_id r0\<rparr>,
              update_timestamp db (rt sdiv 1000000) (row_id r0), [])"
      by (rule add)
    show "clipman_storage_get_by_checksum ext sqlite_healthy
           (update_timestamp db (rt sdiv 1000000) (row_id r0)) (Some (item_checksum item))
         = Some (item\<lparr>item_id := row_id r0, item_source := row_source r0\<rparr>)"
      by (rule get)
    show "item_checksum item \<notin> row_checksum ` set (db_rows db) \<longrightarrow>
            item\<lparr>item_id := row_id r0, item_source := row_source r0\<rparr> = item\<lparr>item_id := row_id r0\<rparr>"
      using stored by simp
  qed simp_all
qed

lemma example_files_item_built:
  "clipman_item_new_files example_externals (Some [''file:///a'', ''file:///b''])
       CLIPMAN_SOURCE_CLIPBOARD
     = Some (example_files_item 0)"
proof -
  have d2: "decimal (Suc (Suc 0)) = ''2''" by (simp add: decimal.simps)
  show ?thesis
    by (simp add: clipman_item_new_files_def compute_checksum_def example_externals_def
          example_files_item_def Let_def printf_u_def d2)
qed

lemma example_image_item_built:
  "clipman_item_new_image example_png_externals (Some example_image) CLIPMAN_SOURCE_CLIPBOARD
     = Some (example_image_item 0)"
  "png_save example_png_externals example_image = Some ''rgb''"
  "png_load example_png_externals ''rgb'' = Some example_image"
proof -
  have d: "decimal (Suc 0) = ''1''" "decimal 3 = ''3''" by (simp_all add: decimal.simps)
  show "clipman_item_new_image example_png_externals (Some example_image)
          CLIPMAN_SOURCE_CLIPBOARD = Some (example_image_item 0)"
    by (simp add: clipman_item_new_image_def compute_checksum_def example_png_externals_def
          example_image_def example_image_item_def printf_d_def d)
  show "png_save example_png_externals example_image = Some ''rgb''"
    by (simp add: example_png_externals_def example_image_def)
  show "png_load example_png_externals ''rgb'' = Some example_image"
    by (simp add: example_png_externals_def example_image_def)
qed

lemma example_primary_text_item_built:
  "clipman_item_new_text example_externals (Some ''A'') CLIPMAN_SOURCE_PRIMARY
     = Some ((example_text_item ''A'' 0)\<lparr>item_source := CLIPMAN_SOURCE_PRIMARY\<rparr>)"
  using example_text_item_built(1)
  by (simp add: clipman_item_new_text_def example_text_item_def)

theorem stored_item_round_trip_witness:
  "db_rows empty_db = []
   \<and> clipman_item_new_text example_externals (Some ''A'') CLIPMAN_SOURCE_CLIPBOARD
       = Some (example_text_item ''A'' 0)
   \<and> (\<exists>item' db' sigs got.
         clipman_storage_add_item example_externals sqlite_healthy 1000000 empty_db
             (example_text_item ''A'' 0) = (True, item', db', sigs)
       \<and> clipman_storage_get_by_checksum example_externals sqlite_healthy db'
             (Some (item_checksum (example_text_item ''A'' 0))) = Some got
       \<and> got = item'
       \<and> item_type got = CLIPMAN_ITEM_TYPE_TEXT \<and> item_text got = Some ''A''
       \<and> item_label got = ''A'')
   \<and> clipman_item_new_files example_externals (Some [''file:///a'', ''file:///b''])
         CLIPMAN_SOURCE_CLIPBOARD
       = Some (example_files_item 0)
   \<and> ''file:///a'' \<noteq> [] \<and> CHR 0x0A \<notin> set ''file:///a''
   \<and> ''file:///b'' \<noteq> [] \<and> CHR 0x0A \<notin> set ''file:///b''
   \<and> (\<exists>item' db' sigs got.
         clipman_storage_add_item example_externals sqlite_healthy 1000000 empty_db
             (example_files_item 0) = (True, item', db', sigs)
       \<and> clipman_storage_get_by_checksum example_externals sqlite_healthy db'
             (Some (item_checksum (example_files_item 0))) = Some got
       \<and> got = item'
       \<and> item_type got = CLIPMAN_ITEM_TYPE_FILES
       \<and> item_uris got = Some [''file:///a'', ''file:///b'']
       \<and> item_label got = ''[2 files]'')
   \<and> clipman_item_new_image example_png_externals (Some example_image) CLIPMAN_SOURCE_CLIPBOARD
       = Some (example_image_item 0)
   \<and> png_save example_png_externals example_image = Some ''rgb'' \<and> ''rgb'' \<noteq> []
   \<and> png_load example_png_externals ''rgb'' = Some example_image
   \<and> (\<exists>item' db' sigs got.
         clipman_storage_add_item example_png_externals sqlite_healthy 1000000 empty_db
             (example_image_item 0) = (True, item', db', sigs)
       \<and> clipman_storage_get_by_checksum example_png_externals sqlite_healthy db'
             (Some (item_checksum (example_image_item 0))) = Some got
       \<and> got = item'
       \<and> item_type got = CLIPMAN_ITEM_TYPE_IMAGE
       \<and> item_pixbuf got = Some example_image
       \<and> item_label got = ''[Image 3x1]'')
   \<and> clipman_item_new_text example_externals (Some ''A'') CLIPMAN_SOURCE_PRIMARY
       = Some ((example_text_item ''A'' 0)\<lparr>item_source := CLIPMAN_SOURCE_PRIMARY\<rparr>)
   \<and> row_checksum (example_text_row ''A'' 1 1)
       = item_checksum ((example_text_item ''A'' 0)\<lparr>item_source := CLIPMAN_SOURCE_PRIMARY\<rparr>)
   \<and> row_type (example_text_row ''A'' 1 1)
       = item_type ((example_text_item ''A'' 0)\<lparr>item_source := CLIPMAN_SOURCE_PRIMARY\<rparr>)
   \<and> row_text_content (example_text_row ''A'' 1 1)
       = item_text ((example_text_item ''A'' 0)\<lparr>item_source := CLIPMAN_SOURCE_PRIMARY\<rparr>)
   \<and> (\<exists>item' db' sigs got.
         clipman_storage_add_item example_externals sqlite_healthy 4000000
             \<lparr> db_rows = [example_text_row ''A'' 1 1], db_sequence = 1 \<rparr>
             ((example_text_item ''A'' 0)\<lparr>item_source := CLIPMAN_SOURCE_PRIMARY\<rparr>)
           = (True, item', db', sigs)
       \<and> clipman_storage_get_by_checksum example_externals sqlite_healthy db' (Some ''A'')
           = Some got
       \<and> got = item'\<lparr>item_source := item_source got\<rparr>
       \<and> item_id got = item_id item'
       \<and> item_type got = CLIPMAN_ITEM_TYPE_TEXT \<and> item_text got = Some ''A''
       \<and> item_label got = ''A'' \<and> item_checksum got = ''A'')"
proof -
  have none: "db_rows empty_db = []"
    by (simp add: empty_db_def)
  have fresh: "item_checksum item \<notin> row_checksum ` set (db_rows empty_db)" for item
    by (simp add: none)
  have same: "\<forall>r\<in>set (db_rows empty_db). row_checksum r = item_checksum item \<longrightarrow>
           row_type r = item_type item
         \<and> (item_type item \<noteq> CLIPMAN_ITEM_TYPE_IMAGE \<longrightarrow> row_text_content r = item_text item)
         \<and> (item_type item = CLIPMAN_ITEM_TYPE_IMAGE \<longrightarrow>
              (\<exists>pb. item_pixbuf item = Some pb \<and> row_image_data r = png_save ext pb))"
    for item ext
    by (simp add: none)
  \<comment> \<open>a text item\<close>
  have built_t: "(\<exists>t. clipman_item_new_text example_externals (Some t) CLIPMAN_SOURCE_CLIPBOARD
                     = Some (example_text_item ''A'' 0))
       \<or> (\<exists>us. clipman_item_new_files example_externals (Some us) CLIPMAN_SOURCE_CLIPBOARD
                   = Some (example_text_item ''A'' 0)
                \<and> (\<forall>u\<in>set us. u \<noteq> [] \<and> CHR 0x0A \<notin> set u))
       \<or> (\<exists>pb blob. clipman_item_new_image example_externals (Some pb) CLIPMAN_SOURCE_CLIPBOARD
                   = Some (example_text_item ''A'' 0)
                \<and> png_save example_externals pb = Some blob \<and> blob \<noteq> []
                \<and> png_load example_externals blob = Some pb)"
    by (rule disjI1, rule exI, rule example_text_item_built(1))
  have ft: "item_type (example_text_item ''A'' 0) = CLIPMAN_ITEM_TYPE_TEXT"
    "item_text (example_text_item ''A'' 0) = Some ''A''"
    "item_label (example_text_item ''A'' 0) = ''A''"
    by (simp_all add: example_text_item_def)
  from stored_item_round_trip [OF built_t same, of 1000000]
    fresh [of "example_text_item ''A'' 0"]
  have case_text: "\<exists>item' db' sigs got.
         clipman_storage_add_item example_externals sqlite_healthy 1000000 empty_db
             (example_text_item ''A'' 0) = (True, item', db', sigs)
       \<and> clipman_storage_get_by_checksum example_externals sqlite_healthy db'
             (Some (item_checksum (example_text_item ''A'' 0))) = Some got
       \<and> got = item'
       \<and> item_type got = CLIPMAN_ITEM_TYPE_TEXT \<and> item_text got = Some ''A''
       \<and> item_label got = ''A''"
    unfolding ft by blast
  \<comment> \<open>a file list\<close>
  have uris: "''file:///a'' \<noteq> []" "CHR 0x0A \<notin> set ''file:///a''"
    "''file:///b'' \<noteq> []" "CHR 0x0A \<notin> set ''file:///b''"
    by simp_all
  then have all: "\<forall>u\<in>set [''file:///a'', ''file:///b'']. u \<noteq> [] \<and> CHR 0x0A \<notin> set u"
    by simp
  have built_f: "(\<exists>t. clipman_item_new_text example_externals (Some t) CLIPMAN_SOURCE_CLIPBOARD
                     = Some (example_files_item 0))
       \<or> (\<exists>us. clipman_item_new_files example_externals (Some us) CLIPMAN_SOURCE_CLIPBOARD
                   = Some (example_files_item 0)
                \<and> (\<forall>u\<in>set us. u \<noteq> [] \<and> CHR 0x0A \<notin> set u))
       \<or> (\<exists>pb blob. clipman_item_new_image example_externals (Some pb) CLIPMAN_SOURCE_CLIPBOARD
                   = Some (example_files_item 0)
                \<and> png_save example_externals pb = Some blob \<and> blob \<noteq> []
                \<and> png_load example_externals blob = Some pb)"
    by (rule disjI2, rule disjI1, rule exI, rule conjI, rule example_files_item_built, rule all)
  have ff: "item_type (example_files_item 0) = CLIPMAN_ITEM_TYPE_FILES"
    "item_uris (example_files_item 0) = Some [''file:///a'', ''file:///b'']"
    "item_label (example_files_item 0) = ''[2 files]''"
    by (simp_all add: example_files_item_def)
  from stored_item_round_trip [OF built_f same, of 1000000]
    fresh [of "example_files_item 0"]
  have case_files: "\<exists>item' db' sigs got.
         clipman_storage_add_item example_externals sqlite_healthy 1000000 empty_db
             (example_files_item 0) = (True, item', db', sigs)
       \<and> clipman_storage_get_by_checksum example_externals sqlite_healthy db'
             (Some (item_checksum (example_files_item 0))) = Some got
       \<and> got = item'
       \<and> item_type got = CLIPMAN_ITEM_TYPE_FILES
       \<and> item_uris got = Some [''file:///a'', ''file:///b'']
       \<and> item_label got = ''[2 files]''"
    unfolding ff by blast
  \<comment> \<open>an image\<close>
  have ne: "''rgb'' \<noteq> []" by simp
  have built_i: "(\<exists>t. clipman_item_new_text example_png_externals (Some t) CLIPMAN_SOURCE_CLIPBOARD
                     = Some (example_image_item 0))
       \<or> (\<exists>us. clipman_item_new_files example_png_externals (Some us) CLIPMAN_SOURCE_CLIPBOARD
                   = Some (example_image_item 0)
                \<and> (\<forall>u\<in>set us. u \<noteq> [] \<and> CHR 0x0A \<notin> set u))
       \<or> (\<exists>pb blob. clipman_item_new_image example_png_externals (Some pb)
                     CLIPMAN_SOURCE_CLIPBOARD
                   = Some (example_image_item 0)
                \<and> png_save example_png_externals pb = Some blob \<and> blob \<noteq> []
                \<and> png_load example_png_externals blob = Some pb)"
    by (rule disjI2, rule disjI2, rule exI, rule exI, intro conjI,
        rule example_image_item_built(1), rule example_image_item_built(2), rule ne,
        rule example_image_item_built(3))
  have fi: "item_type (example_image_item 0) = CLIPMAN_ITEM_TYPE_IMAGE"
    "item_pixbuf (example_image_item 0) = Some example_image"
    "item_label (example_image_item 0) = ''[Image 3x1]''"
    by (simp_all add: example_image_item_def)
  from stored_item_round_trip [OF built_i same, of 1000000]
    fresh [of "example_image_item 0"]
  have case_image: "\<exists>item' db' sigs got.
         clipman_storage_add_item example_png_externals sqlite_healthy 1000000 empty_db
             (example_image_item 0) = (True, item', db', sigs)
       \<and> clipman_storage_get_by_checksum example_png_externals sqlite_healthy db'
             (Some (item_checksum (example_image_item 0))) = Some got
       \<and> got = item'
       \<and> item_type got = CLIPMAN_ITEM_TYPE_IMAGE
       \<and> item_pixbuf got = Some example_image
       \<and> item_label got = ''[Image 3x1]''"
    unfolding fi by blast
  \<comment> \<open>a stored text, copied again from the other buffer\<close>
  let ?p = "(example_text_item ''A'' 0)\<lparr>item_source := CLIPMAN_SOURCE_PRIMARY\<rparr>"
  let ?db = "\<lparr> db_rows = [example_text_row ''A'' 1 1], db_sequence = 1 \<rparr>"
  have built_p: "(\<exists>t. clipman_item_new_text example_externals (Some t) CLIPMAN_SOURCE_PRIMARY
                     = Some ?p)
       \<or> (\<exists>us. clipman_item_new_files example_externals (Some us) CLIPMAN_SOURCE_PRIMARY
                   = Some ?p
                \<and> (\<forall>u\<in>set us. u \<noteq> [] \<and> CHR 0x0A \<notin> set u))
       \<or> (\<exists>pb blob. clipman_item_new_image example_externals (Some pb) CLIPMAN_SOURCE_PRIMARY
                   = Some ?p
                \<and> png_save example_externals pb = Some blob \<and> blob \<noteq> []
                \<and> png_load example_externals blob = Some pb)"
    by (rule disjI1, rule exI, rule example_primary_text_item_built)
  have rowp: "row_checksum (example_text_row ''A'' 1 1) = item_checksum ?p"
    "row_type (example_text_row ''A'' 1 1) = item_type ?p"
    "row_text_content (example_text_row ''A'' 1 1) = item_text ?p"
    by (simp_all add: example_text_row_def example_text_item_def)
  have fp: "item_type ?p = CLIPMAN_ITEM_TYPE_TEXT" "item_text ?p = Some ''A''"
    "item_label ?p = ''A''" "item_checksum ?p = ''A''"
    by (simp_all add: example_text_item_def)
  have same_p: "\<forall>r\<in>set (db_rows ?db). row_checksum r = item_checksum ?p \<longrightarrow>
           row_type r = item_type ?p
         \<and> (item_type ?p \<noteq> CLIPMAN_ITEM_TYPE_IMAGE \<longrightarrow> row_text_content r = item_text ?p)
         \<and> (item_type ?p = CLIPMAN_ITEM_TYPE_IMAGE \<longrightarrow>
              (\<exists>pb. item_pixbuf ?p = Some pb \<and> row_image_data r = png_save example_externals pb))"
    using rowp(2,3) by (simp add: fp(1))
  from stored_item_round_trip [OF built_p same_p, of 4000000]
  have case_touch: "\<exists>item' db' sigs got.
         clipman_storage_add_item example_externals sqlite_healthy 4000000 ?db ?p
           = (True, item', db', sigs)
       \<and> clipman_storage_get_by_checksum example_externals sqlite_healthy db' (Some ''A'')
           = Some got
       \<and> got = item'\<lparr>item_source := item_source got\<rparr>
       \<and> item_id got = item_id item'
       \<and> item_type got = CLIPMAN_ITEM_TYPE_TEXT \<and> item_text got = Some ''A''
       \<and> item_label got = ''A'' \<and> item_checksum got = ''A''"
    unfolding fp by (elim exE conjE) (intro exI conjI)
  from none example_text_item_built(1) case_text
    example_files_item_built uris case_files
    example_image_item_built ne case_image
    example_primary_text_item_built rowp case_touch
  show ?thesis by (intro conjI)
qed

text \<open>
  In the last case the item read back has the source of the stored row, not the source of
  the item that was added again.
\<close>

lemma round_trip_source_example:
  "clipman_storage_add_item example_externals sqlite_healthy 4000000
       \<lparr> db_rows = [example_text_row ''A'' 1 1], db_sequence = 1 \<rparr>
       ((example_text_item ''A'' 0)\<lparr>item_source := CLIPMAN_SOURCE_PRIMARY\<rparr>)
     = (True, (example_text_item ''A'' 1)\<lparr>item_source := CLIPMAN_SOURCE_PRIMARY\<rparr>,
        \<lparr> db_rows = [example_text_row ''A'' 1 4], db_sequence = 1 \<rparr>, [])
   \<and> clipman_storage_get_by_checksum example_externals sqlite_healthy
         \<lparr> db_rows = [example_text_row ''A'' 1 4], db_sequence = 1 \<rparr> (Some ''A'')
     = Some (example_text_item ''A'' 1)"
proof -
  have add: "clipman_storage_add_item example_externals sqlite_healthy 4000000
       \<lparr> db_rows = [example_text_row ''A'' 1 1], db_sequence = 1 \<rparr>
       ((example_text_item ''A'' 0)\<lparr>item_source := CLIPMAN_SOURCE_PRIMARY\<rparr>)
     = (True, (example_text_item ''A'' 1)\<lparr>item_source := CLIPMAN_SOURCE_PRIMARY\<rparr>,
        \<lparr> db_rows = [example_text_row ''A'' 1 4], db_sequence = 1 \<rparr>, [])"
    by (simp add: clipman_storage_add_item_def sqlite_healthy_def select_id_by_checksum_def
          update_timestamp_def clipman_item_set_id_def example_text_row_def
          example_text_item_def)
  have row: "item_from_row example_externals (example_text_row ''A'' 1 4)
               = Some (example_text_item ''A'' 1)"
    using example_text_item_built(1)
    by (simp add: item_from_row_def example_text_row_def clipman_item_set_id_def
          example_text_item_def)
  have get: "clipman_storage_get_by_checksum example_externals sqlite_healthy
         \<lparr> db_rows = [example_text_row ''A'' 1 4], db_sequence = 1 \<rparr> (Some ''A'')
     = Some (example_text_item ''A'' 1)"
    using row
    by (simp add: clipman_storage_get_by_checksum_def sqlite_healthy_def)
       (simp add: example_text_row_def)
  from add get show ?thesis by (intro conjI)
qed

text \<open>
  Claim C8 as stated fails: the text \<^verbatim>\<open>file:///a\<close> is stored first, then the file list with
  the single URI \<^verbatim>\<open>file:///a\<close> is added. The two have the same checksum, so \<^verbatim>\<open>add_item\<close>
  accepts the file list by touching the text row, and \<^verbatim>\<open>get_by_checksum\<close> returns the text
  item: another kind and another label than the file list has.
\<close>

theorem round_trip_kind_counterexample:
  "clipman_item_new_files example_externals (Some [''file:///a'']) CLIPMAN_SOURCE_CLIPBOARD
     = Some \<lparr> item_id = 0, item_type = CLIPMAN_ITEM_TYPE_FILES,
              item_source = CLIPMAN_SOURCE_CLIPBOARD, item_text = Some ''file:///a'',
              item_pixbuf = None, item_uris = Some [''file:///a''],
              item_checksum = ''file:///a'', item_label = ''[File: a]'' \<rparr>
   \<and> clipman_item_new_text example_externals (Some ''file:///a'') CLIPMAN_SOURCE_CLIPBOARD
     = Some (example_text_item ''file:///a'' 0)
   \<and> clipman_storage_add_item example_externals sqlite_healthy 1000000 empty_db
         (example_text_item ''file:///a'' 0)
     = (True, example_text_item ''file:///a'' 1,
        \<lparr> db_rows = [example_text_row ''file:///a'' 1 1], db_sequence = 1 \<rparr>,
        [SIGNAL_ITEM_ADDED (example_text_item ''file:///a'' 1)])
   \<and> clipman_storage_add_item example_externals sqlite_healthy 2000000
         \<lparr> db_rows = [example_text_row ''file:///a'' 1 1], db_sequence = 1 \<rparr>
         \<lparr> item_id = 0, item_type = CLIPMAN_ITEM_TYPE_FILES,
           item_source = CLIPMAN_SOURCE_CLIPBOARD, item_text = Some ''file:///a'',
           item_pixbuf = None, item_uris = Some [''file:///a''],
           item_checksum = ''file:///a'', item_label = ''[File: a]'' \<rparr>
     = (True,
        \<lparr> item_id = 1, item_type = CLIPMAN_ITEM_TYPE_FILES,
          item_source = CLIPMAN_SOURCE_CLIPBOARD, item_text = Some ''file:///a'',
          item_pixbuf = None, item_uris = Some [''file:///a''],
          item_checksum = ''file:///a'', item_label = ''[File: a]'' \<rparr>,
        \<lparr> db_rows = [example_text_row ''file:///a'' 1 2], db_sequence = 1 \<rparr>, [])
   \<and> clipman_storage_get_by_checksum example_externals sqlite_healthy
         \<lparr> db_rows = [example_text_row ''file:///a'' 1 2], db_sequence = 1 \<rparr>
         (Some ''file:///a'')
     = Some (example_text_item ''file:///a'' 1)
   \<and> item_type (example_text_item ''file:///a'' 1) \<noteq> CLIPMAN_ITEM_TYPE_FILES
   \<and> item_label (example_text_item ''file:///a'' 1) \<noteq> ''[File: a]''"
proof -
  have files: "clipman_item_new_files example_externals (Some [''file:///a''])
                 CLIPMAN_SOURCE_CLIPBOARD
     = Some \<lparr> item_id = 0, item_type = CLIPMAN_ITEM_TYPE_FILES,
              item_source = CLIPMAN_SOURCE_CLIPBOARD, item_text = Some ''file:///a'',
              item_pixbuf = None, item_uris = Some [''file:///a''],
              item_checksum = ''file:///a'', item_label = ''[File: a]'' \<rparr>"
    by (simp add: clipman_item_new_files_def compute_checksum_def example_externals_def
          g_path_get_basename_def Let_def)
  have add1: "clipman_storage_add_item example_externals sqlite_healthy 1000000 empty_db
         (example_text_item ''file:///a'' 0)
     = (True, example_text_item ''file:///a'' 1,
        \<lparr> db_rows = [example_text_row ''file:///a'' 1 1], db_sequence = 1 \<rparr>,
        [SIGNAL_ITEM_ADDED (example_text_item ''file:///a'' 1)])"
    by (simp add: clipman_storage_add_item_def sqlite_healthy_def select_id_by_checksum_def
          insert_row_def next_rowid_def row_of_item_def clipman_item_set_id_def empty_db_def
          example_text_item_def example_text_row_def)
  have add2: "clipman_storage_add_item example_externals sqlite_healthy 2000000
         \<lparr> db_rows = [example_text_row ''file:///a'' 1 1], db_sequence = 1 \<rparr>
         \<lparr> item_id = 0, item_type = CLIPMAN_ITEM_TYPE_FILES,
           item_source = CLIPMAN_SOURCE_CLIPBOARD, item_text = Some ''file:///a'',
           item_pixbuf = None, item_uris = Some [''file:///a''],
           item_checksum = ''file:///a'', item_label = ''[File: a]'' \<rparr>
     = (True,
        \<lparr> item_id = 1, item_type = CLIPMAN_ITEM_TYPE_FILES,
          item_source = CLIPMAN_SOURCE_CLIPBOARD, item_text = Some ''file:///a'',
          item_pixbuf = None, item_uris = Some [''file:///a''],
          item_checksum = ''file:///a'', item_label = ''[File: a]'' \<rparr>,
        \<lparr> db_rows = [example_text_row ''file:///a'' 1 2], db_sequence = 1 \<rparr>, [])"
    by (simp add: clipman_storage_add_item_def sqlite_healthy_def select_id_by_checksum_def
          update_timestamp_def clipman_item_set_id_def example_text_row_def)
  have row: "item_from_row example_externals (example_text_row ''file:///a'' 1 2)
               = Some (example_text_item ''file:///a'' 1)"
    using example_text_item_built(4)
    by (simp add: item_from_row_def example_text_row_def clipman_item_set_id_def
          example_text_item_def)
  have get: "clipman_storage_get_by_checksum example_externals sqlite_healthy
         \<lparr> db_rows = [example_text_row ''file:///a'' 1 2], db_sequence = 1 \<rparr>
         (Some ''file:///a'')
     = Some (example_text_item ''file:///a'' 1)"
    using row
    by (simp add: clipman_storage_get_by_checksum_def sqlite_healthy_def)
       (simp add: example_text_row_def)
  have diff: "item_type (example_text_item ''file:///a'' 1) \<noteq> CLIPMAN_ITEM_TYPE_FILES"
    "item_label (example_text_item ''file:///a'' 1) \<noteq> ''[File: a]''"
    by (simp_all add: example_text_item_def)
  from files example_text_item_built(4) add1 add2 get diff show ?thesis by blast
qed

text \<open>
  The conditions on the payload are needed as well. A URI that contains a newline is split
  when the row is read: the item comes back with two URIs and the label of a list of two
  files.
\<close>

lemma round_trip_newline_uri_example:
  "clipman_item_new_files example_externals (Some [''a\<newline>b'']) CLIPMAN_SOURCE_CLIPBOARD
     = Some \<lparr> item_id = 0, item_type = CLIPMAN_ITEM_TYPE_FILES,
              item_source = CLIPMAN_SOURCE_CLIPBOARD, item_text = Some ''a\<newline>b'',
              item_pixbuf = None, item_uris = Some [''a\<newline>b''],
              item_checksum = ''a\<newline>b'', item_label = ''[File: a\<newline>b]'' \<rparr>
   \<and> clipman_storage_add_item example_externals sqlite_healthy 1000000 empty_db
        \<lparr> item_id = 0, item_type = CLIPMAN_ITEM_TYPE_FILES,
          item_source = CLIPMAN_SOURCE_CLIPBOARD, item_text = Some ''a\<newline>b'',
          item_pixbuf = None, item_uris = Some [''a\<newline>b''],
          item_checksum = ''a\<newline>b'', item_label = ''[File: a\<newline>b]'' \<rparr>
     = (True,
        \<lparr> item_id = 1, item_type = CLIPMAN_ITEM_TYPE_FILES,
          item_source = CLIPMAN_SOURCE_CLIPBOARD, item_text = Some ''a\<newline>b'',
          item_pixbuf = None, item_uris = Some [''a\<newline>b''],
          item_checksum = ''a\<newline>b'', item_label = ''[File: a\<newline>b]'' \<rparr>,
        \<lparr> db_rows = [\<lparr> row_id = 1, row_type = CLIPMAN_ITEM_TYPE_FILES,
                        row_source = CLIPMAN_SOURCE_CLIPBOARD, row_checksum = ''a\<newline>b'',
                        row_label = ''[File: a\<newline>b]'', row_text_content = Some ''a\<newline>b'',
                        row_image_data = None, row_timestamp = 1 \<rparr>],
          db_sequence = 1 \<rparr>,
        [SIGNAL_ITEM_ADDED
           \<lparr> item_id = 1, item_type = CLIPMAN_ITEM_TYPE_FILES,
             item_source = CLIPMAN_SOURCE_CLIPBOARD, item_text = Some ''a\<newline>b'',
             item_pixbuf = None, item_uris = Some [''a\<newline>b''],
             item_checksum = ''a\<newline>b'', item_label = ''[File: a\<newline>b]'' \<rparr>])
   \<and> clipman_storage_get_by_checksum example_externals sqlite_healthy
        \<lparr> db_rows = [\<lparr> row_id = 1, row_type = CLIPMAN_ITEM_TYPE_FILES,
                        row_source = CLIPMAN_SOURCE_CLIPBOARD, row_checksum = ''a\<newline>b'',
                        row_label = ''[File: a\<newline>b]'', row_text_content = Some ''a\<newline>b'',
                        row_image_data = None, row_timestamp = 1 \<rparr>],
          db_sequence = 1 \<rparr>
        (Some ''a\<newline>b'')
     = Some \<lparr> item_id = 1, item_type = CLIPMAN_ITEM_TYPE_FILES,
              item_source = CLIPMAN_SOURCE_CLIPBOARD, item_text = Some ''a\<newline>b'',
              item_pixbuf = None, item_uris = Some [''a'', ''b''],
              item_checksum = ''a\<newline>b'', item_label = ''[2 files]'' \<rparr>"
proof -
  have d2: "decimal (Suc (Suc 0)) = ''2''" by (simp add: decimal.simps)
  have 1: "clipman_item_new_files example_externals (Some [''a\<newline>b'']) CLIPMAN_SOURCE_CLIPBOARD
     = Some \<lparr> item_id = 0, item_type = CLIPMAN_ITEM_TYPE_FILES,
              item_source = CLIPMAN_SOURCE_CLIPBOARD, item_text = Some ''a\<newline>b'',
              item_pixbuf = None, item_uris = Some [''a\<newline>b''],
              item_checksum = ''a\<newline>b'', item_label = ''[File: a\<newline>b]'' \<rparr>"
    by (simp add: clipman_item_new_files_def compute_checksum_def example_externals_def
          g_path_get_basename_def Let_def)
  have 2: "clipman_storage_add_item example_externals sqlite_healthy 1000000 empty_db
        \<lparr> item_id = 0, item_type = CLIPMAN_ITEM_TYPE_FILES,
          item_source = CLIPMAN_SOURCE_CLIPBOARD, item_text = Some ''a\<newline>b'',
          item_pixbuf = None, item_uris = Some [''a\<newline>b''],
          item_checksum = ''a\<newline>b'', item_label = ''[File: a\<newline>b]'' \<rparr>
     = (True,
        \<lparr> item_id = 1, item_type = CLIPMAN_ITEM_TYPE_FILES,
          item_source = CLIPMAN_SOURCE_CLIPBOARD, item_text = Some ''a\<newline>b'',
          item_pixbuf = None, item_uris = Some [''a\<newline>b''],
          item_checksum = ''a\<newline>b'', item_label = ''[File: a\<newline>b]'' \<rparr>,
        \<lparr> db_rows = [\<lparr> row_id = 1, row_type = CLIPMAN_ITEM_TYPE_FILES,
                        row_source = CLIPMAN_SOURCE_CLIPBOARD, row_checksum = ''a\<newline>b'',
                        row_label = ''[File: a\<newline>b]'', row_text_content = Some ''a\<newline>b'',
                        row_image_data = None, row_timestamp = 1 \<rparr>],
          db_sequence = 1 \<rparr>,
        [SIGNAL_ITEM_ADDED
           \<lparr> item_id = 1, item_type = CLIPMAN_ITEM_TYPE_FILES,
             item_source = CLIPMAN_SOURCE_CLIPBOARD, item_text = Some ''a\<newline>b'',
             item_pixbuf = None, item_uris = Some [''a\<newline>b''],
             item_checksum = ''a\<newline>b'', item_label = ''[File: a\<newline>b]'' \<rparr>])"
    by (simp add: clipman_storage_add_item_def sqlite_healthy_def select_id_by_checksum_def
          insert_row_def next_rowid_def row_of_item_def clipman_item_set_id_def empty_db_def)
  have 3: "clipman_storage_get_by_checksum example_externals sqlite_healthy
        \<lparr> db_rows = [\<lparr> row_id = 1, row_type = CLIPMAN_ITEM_TYPE_FILES,
                        row_source = CLIPMAN_SOURCE_CLIPBOARD, row_checksum = ''a\<newline>b'',
                        row_label = ''[File: a\<newline>b]'', row_text_content = Some ''a\<newline>b'',
                        row_image_data = None, row_timestamp = 1 \<rparr>],
          db_sequence = 1 \<rparr>
        (Some ''a\<newline>b'')
     = Some \<lparr> item_id = 1, item_type = CLIPMAN_ITEM_TYPE_FILES,
              item_source = CLIPMAN_SOURCE_CLIPBOARD, item_text = Some ''a\<newline>b'',
              item_pixbuf = None, item_uris = Some [''a'', ''b''],
              item_checksum = ''a\<newline>b'', item_label = ''[2 files]'' \<rparr>"
    by (simp add: clipman_storage_get_by_checksum_def sqlite_healthy_def item_from_row_def
          g_strsplit_newline_def clipman_item_new_files_def compute_checksum_def
          example_externals_def clipman_item_set_id_def Let_def printf_u_def d2)
  from 1 2 3 show ?thesis by (intro conjI)
qed

text \<open>
  An image whose PNG encoding failed is stored with a \<^verbatim>\<open>NULL\<close> blob; reading it back by its
  checksum gives no item.
\<close>

lemma round_trip_unencodable_image_example:
  "clipman_storage_get_by_checksum example_externals sqlite_healthy
        \<lparr> db_rows = [\<lparr> row_id = 1, row_type = CLIPMAN_ITEM_TYPE_IMAGE,
                        row_source = CLIPMAN_SOURCE_CLIPBOARD, row_checksum = ''1x1'',
                        row_label = ''[Image 1x1]'', row_text_content = None,
                        row_image_data = None, row_timestamp = 1 \<rparr>],
          db_sequence = 1 \<rparr>
        (Some ''1x1'')
     = None"
  by (simp add: clipman_storage_get_by_checksum_def sqlite_healthy_def item_from_row_def)

subsection \<open>Restoring an emptied buffer\<close>

lemma clipman_item_to_clipboard_payload:
  "clipman_item_to_clipboard item sel =
     (if item_type item = CLIPMAN_ITEM_TYPE_IMAGE
      then (case item_pixbuf item of None \<Rightarrow> [] | Some pb \<Rightarrow> [(sel, Set_Image pb)])
      else (case item_text item of None \<Rightarrow> [] | Some t \<Rightarrow> [(sel, Set_Text t)]))"
  by (simp add: clipman_item_to_clipboard_def split: ClipmanItemType.splits)

lemma on_clipboard_empty_head:
  assumes "order_by_timestamp_desc (db_rows db) = r # rest" and "item_from_row ext r = Some item"
  shows "on_clipboard_empty ext sqlite_healthy True db source =
           clipman_item_to_clipboard item
             (if source = CLIPMAN_SOURCE_PRIMARY then GDK_SELECTION_PRIMARY
              else GDK_SELECTION_CLIPBOARD)"
  using assms
  by (simp add: on_clipboard_empty_def clipman_storage_get_items_def select_items_def
        sqlite_healthy_def)

lemma on_clipboard_empty_head_unreadable:
  assumes "order_by_timestamp_desc (db_rows db) = r # rest" and "item_from_row ext r = None"
  shows "on_clipboard_empty ext sqlite_healthy True db source = []"
  using assms
  by (simp add: on_clipboard_empty_def clipman_storage_get_items_def select_items_def
        sqlite_healthy_def)

text \<open>
  Which row the recency order lists first: the rows before it in the table are strictly
  older, the rows after it are not newer.
\<close>

lemma sort_key_head:
  "sort_key f xs = r # rest \<Longrightarrow>
     \<exists>pre post. xs = pre @ r # post \<and> (\<forall>x\<in>set pre. f r < f x) \<and> (\<forall>x\<in>set post. f r \<le> f x)"
  for f :: "'a \<Rightarrow> int"
proof (induction xs arbitrary: r rest)
  case Nil
  then show ?case by simp
next
  case (Cons x xs)
  show ?case
  proof (cases "sort_key f xs")
    case Nil
    have "length (sort_key f xs) = length xs" by simp
    with Nil have e: "xs = []" by simp
    with Cons.prems have "r = x" by simp
    with e have "x # xs = [] @ r # []" by simp
    then show ?thesis by (metis empty_iff empty_set)
  next
    case sorted: (Cons y ys)
    from Cons.IH [OF sorted] obtain pre post
      where xs: "xs = pre @ y # post"
        and pre: "\<forall>z\<in>set pre. f y < f z" and post: "\<forall>z\<in>set post. f y \<le> f z"
      by blast
    show ?thesis
    proof (cases "f x \<le> f y")
      case True
      with Cons.prems sorted have r: "r = x" by simp
      from xs pre post True have "\<forall>z\<in>set xs. f r \<le> f z"
        unfolding r by fastforce
      moreover have "x # xs = [] @ r # xs" by (simp add: r)
      ultimately show ?thesis by (metis empty_iff empty_set)
    next
      case False
      with Cons.prems sorted have r: "r = y" by simp
      from False pre have "\<forall>z\<in>set (x # pre). f r < f z"
        unfolding r by simp
      moreover have "x # xs = (x # pre) @ r # post" by (simp add: r xs)
      moreover from post have "\<forall>z\<in>set post. f r \<le> f z" unfolding r .
      ultimately show ?thesis by blast
    qed
  qed
qed

lemma insort_key_least:
  "\<forall>y\<in>set ys. f r \<le> f y \<Longrightarrow> insort_key f r ys = r # ys"
  by (cases ys) simp_all

lemma sort_key_head_of:
  "(\<forall>x\<in>set pre. f r < f x) \<Longrightarrow> (\<forall>x\<in>set post. f r \<le> f x) \<Longrightarrow>
     \<exists>rest. sort_key f (pre @ r # post) = r # rest"
  for f :: "'a \<Rightarrow> int"
proof (induction pre)
  case Nil
  then have "insort_key f r (sort_key f post) = r # sort_key f post"
    by (intro insort_key_least) simp
  then show ?case by simp
next
  case (Cons p pre)
  then obtain rest where "sort_key f (pre @ r # post) = r # rest" by auto
  moreover from Cons.prems have "\<not> f p \<le> f r" by simp
  ultimately show ?case by simp
qed

lemma order_head_position:
  assumes "order_by_timestamp_desc rs = r # rest"
  shows "\<exists>pre post. rs = pre @ r # post
           \<and> (\<forall>x\<in>set pre. row_timestamp x < row_timestamp r)
           \<and> (\<forall>x\<in>set post. row_timestamp x \<le> row_timestamp r)"
  using sort_key_head [of "\<lambda>r. - row_timestamp r" rs r rest] assms
  by (simp add: order_by_timestamp_desc_def)

lemma order_head_of_position:
  assumes "rs = pre @ r # post"
    and "\<forall>x\<in>set pre. row_timestamp x < row_timestamp r"
    and "\<forall>x\<in>set post. row_timestamp x \<le> row_timestamp r"
  shows "\<exists>rest. order_by_timestamp_desc rs = r # rest"
  using sort_key_head_of [of pre "\<lambda>r. - row_timestamp r" r post] assms
  by (simp add: order_by_timestamp_desc_def)

lemma order_nonempty: "rs \<noteq> [] \<Longrightarrow> \<exists>r rest. order_by_timestamp_desc rs = r # rest"
proof -
  assume "rs \<noteq> []"
  moreover have "length (order_by_timestamp_desc rs) = length rs"
    by (simp add: order_by_timestamp_desc_def)
  ultimately have "order_by_timestamp_desc rs \<noteq> []" by auto
  then show ?thesis by (cases "order_by_timestamp_desc rs") simp_all
qed

text \<open>
  Claim C9, as the code has it. Let \<^verbatim>\<open>keep-content\<close> be enabled and the database execute
  its statements. A table that is not empty has a row that the recency query lists first:
  a row with the largest timestamp (in whole seconds) and, among the rows with that
  timestamp, the one that comes first in the table, which is the one inserted first. If
  that row can be rebuilt into an item, the handler makes exactly one write, to the primary
  selection when the source is \<^verbatim>\<open>CLIPMAN_SOURCE_PRIMARY\<close> and to the clipboard otherwise:
  the item's text for a text or file-list item, its image for an image item. If that row
  cannot be rebuilt, or the table is empty, the handler writes nothing. With
  \<^verbatim>\<open>keep-content\<close> disabled the handler writes nothing, whatever the database does.
\<close>

theorem restore_newest_on_empty:
  "(\<forall>r rest item.
      order_by_timestamp_desc (db_rows db) = r # rest \<and> item_from_row ext r = Some item \<longrightarrow>
        (\<forall>r'\<in>set (db_rows db). row_timestamp r' \<le> row_timestamp r)
      \<and> (\<exists>pre post. db_rows db = pre @ r # post
            \<and> (\<forall>x\<in>set pre. row_timestamp x < row_timestamp r)
            \<and> (\<forall>x\<in>set post. row_timestamp x \<le> row_timestamp r))
      \<and> (\<forall>t. item_type item \<noteq> CLIPMAN_ITEM_TYPE_IMAGE \<and> item_text item = Some t \<longrightarrow>
             on_clipboard_empty ext sqlite_healthy True db source =
               [(if source = CLIPMAN_SOURCE_PRIMARY then GDK_SELECTION_PRIMARY
                 else GDK_SELECTION_CLIPBOARD, Set_Text t)])
      \<and> (\<forall>pb. item_type item = CLIPMAN_ITEM_TYPE_IMAGE \<and> item_pixbuf item = Some pb \<longrightarrow>
             on_clipboard_empty ext sqlite_healthy True db source =
               [(if source = CLIPMAN_SOURCE_PRIMARY then GDK_SELECTION_PRIMARY
                 else GDK_SELECTION_CLIPBOARD, Set_Image pb)])
      \<and> ((item_type item \<noteq> CLIPMAN_ITEM_TYPE_IMAGE \<and> (\<exists>t. item_text item = Some t))
         \<or> (item_type item = CLIPMAN_ITEM_TYPE_IMAGE \<and> (\<exists>pb. item_pixbuf item = Some pb))))
 \<and> (\<forall>r rest.
      order_by_timestamp_desc (db_rows db) = r # rest \<and> item_from_row ext r = None \<longrightarrow>
        on_clipboard_empty ext sqlite_healthy True db source = [])
 \<and> (db_rows db = [] \<longrightarrow> on_clipboard_empty ext sqlite_healthy True db source = [])
 \<and> on_clipboard_empty ext io False db source = []
 \<and> (db_rows db \<noteq> [] \<longrightarrow>
      (\<exists>pre r post. db_rows db = pre @ r # post
          \<and> (\<forall>x\<in>set pre. row_timestamp x < row_timestamp r)
          \<and> (\<forall>x\<in>set post. row_timestamp x \<le> row_timestamp r)))
 \<and> (\<forall>pre r post.
      db_rows db = pre @ r # post
      \<and> (\<forall>x\<in>set pre. row_timestamp x < row_timestamp r)
      \<and> (\<forall>x\<in>set post. row_timestamp x \<le> row_timestamp r) \<longrightarrow>
        (\<exists>rest. order_by_timestamp_desc (db_rows db) = r # rest)
      \<and> (item_from_row ext r = None \<longrightarrow>
           on_clipboard_empty ext sqlite_healthy True db source = [])
      \<and> (\<forall>item. item_from_row ext r = Some item \<longrightarrow>
           on_clipboard_empty ext sqlite_healthy True db source =
             clipman_item_to_clipboard item
               (if source = CLIPMAN_SOURCE_PRIMARY then GDK_SELECTION_PRIMARY
                else GDK_SELECTION_CLIPBOARD)
         \<and> length (on_clipboard_empty ext sqlite_healthy True db source) = 1))"
proof -
  have off: "on_clipboard_empty ext io False db source = []"
    by (simp add: on_clipboard_empty_def)
  have unreadable: "\<forall>r rest.
      order_by_timestamp_desc (db_rows db) = r # rest \<and> item_from_row ext r = None \<longrightarrow>
        on_clipboard_empty ext sqlite_healthy True db source = []"
    by (simp add: on_clipboard_empty_def clipman_storage_get_items_def select_items_def
          sqlite_healthy_def)
  have none: "db_rows db = [] \<longrightarrow> on_clipboard_empty ext sqlite_healthy True db source = []"
    by (simp add: on_clipboard_empty_def clipman_storage_get_items_def select_items_def
          sqlite_healthy_def order_by_timestamp_desc_def)
  have on: "(\<forall>r'\<in>set (db_rows db). row_timestamp r' \<le> row_timestamp r)
      \<and> (\<exists>pre post. db_rows db = pre @ r # post
            \<and> (\<forall>x\<in>set pre. row_timestamp x < row_timestamp r)
            \<and> (\<forall>x\<in>set post. row_timestamp x \<le> row_timestamp r))
      \<and> (\<forall>t. item_type item \<noteq> CLIPMAN_ITEM_TYPE_IMAGE \<and> item_text item = Some t \<longrightarrow>
             on_clipboard_empty ext sqlite_healthy True db source =
               [(if source = CLIPMAN_SOURCE_PRIMARY then GDK_SELECTION_PRIMARY
                 else GDK_SELECTION_CLIPBOARD, Set_Text t)])
      \<and> (\<forall>pb. item_type item = CLIPMAN_ITEM_TYPE_IMAGE \<and> item_pixbuf item = Some pb \<longrightarrow>
             on_clipboard_empty ext sqlite_healthy True db source =
               [(if source = CLIPMAN_SOURCE_PRIMARY then GDK_SELECTION_PRIMARY
                 else GDK_SELECTION_CLIPBOARD, Set_Image pb)])
      \<and> ((item_type item \<noteq> CLIPMAN_ITEM_TYPE_IMAGE \<and> (\<exists>t. item_text item = Some t))
         \<or> (item_type item = CLIPMAN_ITEM_TYPE_IMAGE \<and> (\<exists>pb. item_pixbuf item = Some pb)))"
    if h: "order_by_timestamp_desc (db_rows db) = r # rest \<and> item_from_row ext r = Some item"
    for r rest item
  proof -
    from h have o: "order_by_timestamp_desc (db_rows db) = r # rest"
      and i: "item_from_row ext r = Some item" by simp_all
    have newest: "\<forall>r'\<in>set (db_rows db). row_timestamp r' \<le> row_timestamp r"
      using order_head_newest [OF o] by blast
    have run: "on_clipboard_empty ext sqlite_healthy True db source =
                 clipman_item_to_clipboard item
                   (if source = CLIPMAN_SOURCE_PRIMARY then GDK_SELECTION_PRIMARY
                    else GDK_SELECTION_CLIPBOARD)"
      by (rule on_clipboard_empty_head [OF o i])
    have rest: "(\<forall>r'\<in>set (db_rows db). row_timestamp r' \<le> row_timestamp r)
      \<and> (\<forall>t. item_type item \<noteq> CLIPMAN_ITEM_TYPE_IMAGE \<and> item_text item = Some t \<longrightarrow>
             on_clipboard_empty ext sqlite_healthy True db source =
               [(if source = CLIPMAN_SOURCE_PRIMARY then GDK_SELECTION_PRIMARY
                 else GDK_SELECTION_CLIPBOARD, Set_Text t)])
      \<and> (\<forall>pb. item_type item = CLIPMAN_ITEM_TYPE_IMAGE \<and> item_pixbuf item = Some pb \<longrightarrow>
             on_clipboard_empty ext sqlite_healthy True db source =
               [(if source = CLIPMAN_SOURCE_PRIMARY then GDK_SELECTION_PRIMARY
                 else GDK_SELECTION_CLIPBOARD, Set_Image pb)])
      \<and> ((item_type item \<noteq> CLIPMAN_ITEM_TYPE_IMAGE \<and> (\<exists>t. item_text item = Some t))
         \<or> (item_type item = CLIPMAN_ITEM_TYPE_IMAGE \<and> (\<exists>pb. item_pixbuf item = Some pb)))"
      using newest item_from_row_payload [OF i]
      unfolding run clipman_item_to_clipboard_payload by auto
    with order_head_position [OF o] show ?thesis by (intro conjI) (elim conjE, assumption)+
  qed
  have ex: "db_rows db \<noteq> [] \<longrightarrow>
      (\<exists>pre r post. db_rows db = pre @ r # post
          \<and> (\<forall>x\<in>set pre. row_timestamp x < row_timestamp r)
          \<and> (\<forall>x\<in>set post. row_timestamp x \<le> row_timestamp r))"
  proof
    assume "db_rows db \<noteq> []"
    then obtain r rest where "order_by_timestamp_desc (db_rows db) = r # rest"
      using order_nonempty by blast
    from order_head_position [OF this] show "\<exists>pre r post. db_rows db = pre @ r # post
          \<and> (\<forall>x\<in>set pre. row_timestamp x < row_timestamp r)
          \<and> (\<forall>x\<in>set post. row_timestamp x \<le> row_timestamp r)"
      by (elim exE) (rule exI, rule exI, rule exI, assumption)
  qed
  have pos: "(\<exists>rest. order_by_timestamp_desc (db_rows db) = r # rest)
      \<and> (item_from_row ext r = None \<longrightarrow>
           on_clipboard_empty ext sqlite_healthy True db source = [])
      \<and> (\<forall>item. item_from_row ext r = Some item \<longrightarrow>
           on_clipboard_empty ext sqlite_healthy True db source =
             clipman_item_to_clipboard item
               (if source = CLIPMAN_SOURCE_PRIMARY then GDK_SELECTION_PRIMARY
                else GDK_SELECTION_CLIPBOARD)
         \<and> length (on_clipboard_empty ext sqlite_healthy True db source) = 1)"
    if h: "db_rows db = pre @ r # post
      \<and> (\<forall>x\<in>set pre. row_timestamp x < row_timestamp r)
      \<and> (\<forall>x\<in>set post. row_timestamp x \<le> row_timestamp r)"
    for pre r post
  proof -
    from h have "\<exists>rest. order_by_timestamp_desc (db_rows db) = r # rest"
      by (intro order_head_of_position [of _ pre r post]) simp_all
    then obtain rest where o: "order_by_timestamp_desc (db_rows db) = r # rest" ..
    have w: "on_clipboard_empty ext sqlite_healthy True db source =
             clipman_item_to_clipboard item
               (if source = CLIPMAN_SOURCE_PRIMARY then GDK_SELECTION_PRIMARY
                else GDK_SELECTION_CLIPBOARD)
         \<and> length (on_clipboard_empty ext sqlite_healthy True db source) = 1"
      if i: "item_from_row ext r = Some item" for item
      using item_from_row_payload [OF i]
      unfolding on_clipboard_empty_head [OF o i] clipman_item_to_clipboard_payload
      by auto
    from o on_clipboard_empty_head_unreadable [OF o, of ext source] w
    show ?thesis by blast
  qed
  from on have 1: "\<forall>r rest item.
      order_by_timestamp_desc (db_rows db) = r # rest \<and> item_from_row ext r = Some item \<longrightarrow>
        (\<forall>r'\<in>set (db_rows db). row_timestamp r' \<le> row_timestamp r)
      \<and> (\<exists>pre post. db_rows db = pre @ r # post
            \<and> (\<forall>x\<in>set pre. row_timestamp x < row_timestamp r)
            \<and> (\<forall>x\<in>set post. row_timestamp x \<le> row_timestamp r))
      \<and> (\<forall>t. item_type item \<noteq> CLIPMAN_ITEM_TYPE_IMAGE \<and> item_text item = Some t \<longrightarrow>
             on_clipboard_empty ext sqlite_healthy True db source =
               [(if source = CLIPMAN_SOURCE_PRIMARY then GDK_SELECTION_PRIMARY
                 else GDK_SELECTION_CLIPBOARD, Set_Text t)])
      \<and> (\<forall>pb. item_type item = CLIPMAN_ITEM_TYPE_IMAGE \<and> item_pixbuf item = Some pb \<longrightarrow>
             on_clipboard_empty ext sqlite_healthy True db source =
               [(if source = CLIPMAN_SOURCE_PRIMARY then GDK_SELECTION_PRIMARY
                 else GDK_SELECTION_CLIPBOARD, Set_Image pb)])
      \<and> ((item_type item \<noteq> CLIPMAN_ITEM_TYPE_IMAGE \<and> (\<exists>t. item_text item = Some t))
         \<or> (item_type item = CLIPMAN_ITEM_TYPE_IMAGE \<and> (\<exists>pb. item_pixbuf item = Some pb)))"
    by (intro allI impI)
  from pos have 2: "\<forall>pre r post.
      db_rows db = pre @ r # post
      \<and> (\<forall>x\<in>set pre. row_timestamp x < row_timestamp r)
      \<and> (\<forall>x\<in>set post. row_timestamp x \<le> row_timestamp r) \<longrightarrow>
        (\<exists>rest. order_by_timestamp_desc (db_rows db) = r # rest)
      \<and> (item_from_row ext r = None \<longrightarrow>
           on_clipboard_empty ext sqlite_healthy True db source = [])
      \<and> (\<forall>item. item_from_row ext r = Some item \<longrightarrow>
           on_clipboard_empty ext sqlite_healthy True db source =
             clipman_item_to_clipboard item
               (if source = CLIPMAN_SOURCE_PRIMARY then GDK_SELECTION_PRIMARY
                else GDK_SELECTION_CLIPBOARD)
         \<and> length (on_clipboard_empty ext sqlite_healthy True db source) = 1)"
    by (intro allI impI)
  from 1 unreadable none off ex 2 show ?thesis by (intro conjI)
qed

theorem restore_newest_on_empty_witness:
  "order_by_timestamp_desc
       (db_rows \<lparr> db_rows = [example_text_row ''A'' 1 1, example_text_row ''B'' 2 2],
                  db_sequence = 2 \<rparr>)
     = [example_text_row ''B'' 2 2, example_text_row ''A'' 1 1]
   \<and> item_from_row example_externals (example_text_row ''B'' 2 2)
       = Some (example_text_item ''B'' 2)
   \<and> item_type (example_text_item ''B'' 2) \<noteq> CLIPMAN_ITEM_TYPE_IMAGE
   \<and> item_text (example_text_item ''B'' 2) = Some ''B''
   \<and> on_clipboard_empty example_externals sqlite_healthy True
       \<lparr> db_rows = [example_text_row ''A'' 1 1, example_text_row ''B'' 2 2], db_sequence = 2 \<rparr>
       CLIPMAN_SOURCE_PRIMARY
     = [(GDK_SELECTION_PRIMARY, Set_Text ''B'')]
   \<and> db_rows \<lparr> db_rows = [example_text_row ''A'' 1 1, example_text_row ''B'' 2 1],
                db_sequence = 2 \<rparr>
     = [] @ example_text_row ''A'' 1 1 # [example_text_row ''B'' 2 1]
   \<and> row_timestamp (example_text_row ''B'' 2 1) \<le> row_timestamp (example_text_row ''A'' 1 1)
   \<and> item_from_row example_externals (example_text_row ''A'' 1 1)
       = Some (example_text_item ''A'' 1)
   \<and> on_clipboard_empty example_externals sqlite_healthy True
       \<lparr> db_rows = [example_text_row ''A'' 1 1, example_text_row ''B'' 2 1], db_sequence = 2 \<rparr>
       CLIPMAN_SOURCE_CLIPBOARD
     = [(GDK_SELECTION_CLIPBOARD, Set_Text ''A'')]"
proof -
  let ?db = "\<lparr> db_rows = [example_text_row ''A'' 1 1, example_text_row ''B'' 2 2],
               db_sequence = 2 \<rparr>"
  let ?tie = "\<lparr> db_rows = [example_text_row ''A'' 1 1, example_text_row ''B'' 2 1],
                db_sequence = 2 \<rparr>"
  have o: "order_by_timestamp_desc (db_rows ?db)
             = [example_text_row ''B'' 2 2, example_text_row ''A'' 1 1]"
    by (simp add: order_by_timestamp_desc_def example_text_row_def)
  have i: "item_from_row example_externals (example_text_row ''B'' 2 2)
             = Some (example_text_item ''B'' 2)"
    using example_text_item_built(2)
    by (simp add: item_from_row_def example_text_row_def clipman_item_set_id_def
          example_text_item_def)
  have f: "item_type (example_text_item ''B'' 2) \<noteq> CLIPMAN_ITEM_TYPE_IMAGE"
    "item_text (example_text_item ''B'' 2) = Some ''B''"
    by (simp_all add: example_text_item_def)
  note t = restore_newest_on_empty [of ?db example_externals CLIPMAN_SOURCE_PRIMARY sqlite_healthy]
  from t have "\<forall>t. item_type (example_text_item ''B'' 2) \<noteq> CLIPMAN_ITEM_TYPE_IMAGE
                 \<and> item_text (example_text_item ''B'' 2) = Some t \<longrightarrow>
             on_clipboard_empty example_externals sqlite_healthy True ?db CLIPMAN_SOURCE_PRIMARY =
               [(if CLIPMAN_SOURCE_PRIMARY = CLIPMAN_SOURCE_PRIMARY then GDK_SELECTION_PRIMARY
                 else GDK_SELECTION_CLIPBOARD, Set_Text t)]"
    using o i by (elim conjE allE [of _ "example_text_row ''B'' 2 2"]
                    allE [of _ "[example_text_row ''A'' 1 1]"]
                    allE [of _ "example_text_item ''B'' 2"]) simp
  with f
  have "on_clipboard_empty example_externals sqlite_healthy True ?db CLIPMAN_SOURCE_PRIMARY
          = [(if CLIPMAN_SOURCE_PRIMARY = CLIPMAN_SOURCE_PRIMARY then GDK_SELECTION_PRIMARY
              else GDK_SELECTION_CLIPBOARD, Set_Text ''B'')]"
    by simp
  then have w1: "on_clipboard_empty example_externals sqlite_healthy True ?db CLIPMAN_SOURCE_PRIMARY
          = [(GDK_SELECTION_PRIMARY, Set_Text ''B'')]"
    by simp
  \<comment> \<open>two rows of the same second\<close>
  have p: "db_rows ?tie = [] @ example_text_row ''A'' 1 1 # [example_text_row ''B'' 2 1]"
    by simp
  have le: "row_timestamp (example_text_row ''B'' 2 1) \<le> row_timestamp (example_text_row ''A'' 1 1)"
    by (simp add: example_text_row_def)
  have ia: "item_from_row example_externals (example_text_row ''A'' 1 1)
             = Some (example_text_item ''A'' 1)"
    using example_text_item_built(1)
    by (simp add: item_from_row_def example_text_row_def clipman_item_set_id_def
          example_text_item_def)
  have cond: "db_rows ?tie = [] @ example_text_row ''A'' 1 1 # [example_text_row ''B'' 2 1]
      \<and> (\<forall>x\<in>set []. row_timestamp x < row_timestamp (example_text_row ''A'' 1 1))
      \<and> (\<forall>x\<in>set [example_text_row ''B'' 2 1].
            row_timestamp x \<le> row_timestamp (example_text_row ''A'' 1 1))"
    using le by simp
  note u = restore_newest_on_empty [of ?tie example_externals CLIPMAN_SOURCE_CLIPBOARD sqlite_healthy]
  from u have "\<forall>pre r post.
      db_rows ?tie = pre @ r # post
      \<and> (\<forall>x\<in>set pre. row_timestamp x < row_timestamp r)
      \<and> (\<forall>x\<in>set post. row_timestamp x \<le> row_timestamp r) \<longrightarrow>
        (\<exists>rest. order_by_timestamp_desc (db_rows ?tie) = r # rest)
      \<and> (item_from_row example_externals r = None \<longrightarrow>
           on_clipboard_empty example_externals sqlite_healthy True ?tie CLIPMAN_SOURCE_CLIPBOARD = [])
      \<and> (\<forall>item. item_from_row example_externals r = Some item \<longrightarrow>
           on_clipboard_empty example_externals sqlite_healthy True ?tie CLIPMAN_SOURCE_CLIPBOARD =
             clipman_item_to_clipboard item
               (if CLIPMAN_SOURCE_CLIPBOARD = CLIPMAN_SOURCE_PRIMARY then GDK_SELECTION_PRIMARY
                else GDK_SELECTION_CLIPBOARD)
         \<and> length (on_clipboard_empty example_externals sqlite_healthy True ?tie
                     CLIPMAN_SOURCE_CLIPBOARD) = 1)"
    by (elim conjE)
  then have "\<forall>item. item_from_row example_externals (example_text_row ''A'' 1 1) = Some item \<longrightarrow>
           on_clipboard_empty example_externals sqlite_healthy True ?tie CLIPMAN_SOURCE_CLIPBOARD =
             clipman_item_to_clipboard item
               (if CLIPMAN_SOURCE_CLIPBOARD = CLIPMAN_SOURCE_PRIMARY then GDK_SELECTION_PRIMARY
                else GDK_SELECTION_CLIPBOARD)
         \<and> length (on_clipboard_empty example_externals sqlite_healthy True ?tie
                     CLIPMAN_SOURCE_CLIPBOARD) = 1"
    using cond by (elim allE [of _ "[]"] allE [of _ "example_text_row ''A'' 1 1"]
                     allE [of _ "[example_text_row ''B'' 2 1]"]) (elim impE, assumption, elim conjE)
  with ia
  have "on_clipboard_empty example_externals sqlite_healthy True ?tie CLIPMAN_SOURCE_CLIPBOARD =
             clipman_item_to_clipboard (example_text_item ''A'' 1)
               (if CLIPMAN_SOURCE_CLIPBOARD = CLIPMAN_SOURCE_PRIMARY then GDK_SELECTION_PRIMARY
                else GDK_SELECTION_CLIPBOARD)"
    by (elim allE [of _ "example_text_item ''A'' 1"]) simp
  then have w2: "on_clipboard_empty example_externals sqlite_healthy True ?tie
                   CLIPMAN_SOURCE_CLIPBOARD
                 = [(GDK_SELECTION_CLIPBOARD, Set_Text ''A'')]"
    by (simp add: clipman_item_to_clipboard_def example_text_item_def)
  from o i f w1 p le ia w2 show ?thesis by (intro conjI)
qed

text \<open>
  The row written is not always the row stored last. Two texts stored within the same
  second have the same timestamp, \<^verbatim>\<open>g_get_real_time () / 1000000\<close>; the handler then
  writes the one stored first.
\<close>

lemma restore_same_second_example:
  "clipman_storage_add_item example_externals sqlite_healthy 1000000 empty_db
       (example_text_item ''A'' 0)
     = (True, example_text_item ''A'' 1,
        \<lparr> db_rows = [example_text_row ''A'' 1 1], db_sequence = 1 \<rparr>,
        [SIGNAL_ITEM_ADDED (example_text_item ''A'' 1)])
   \<and> clipman_storage_add_item example_externals sqlite_healthy 1999999
       \<lparr> db_rows = [example_text_row ''A'' 1 1], db_sequence = 1 \<rparr>
       (example_text_item ''B'' 0)
     = (True, example_text_item ''B'' 2,
        \<lparr> db_rows = [example_text_row ''A'' 1 1, example_text_row ''B'' 2 1], db_sequence = 2 \<rparr>,
        [SIGNAL_ITEM_ADDED (example_text_item ''B'' 2)])
   \<and> on_clipboard_empty example_externals sqlite_healthy True
       \<lparr> db_rows = [example_text_row ''A'' 1 1, example_text_row ''B'' 2 1], db_sequence = 2 \<rparr>
       CLIPMAN_SOURCE_CLIPBOARD
     = [(GDK_SELECTION_CLIPBOARD, Set_Text ''A'')]"
proof -
  have add1: "clipman_storage_add_item example_externals sqlite_healthy 1000000 empty_db
       (example_text_item ''A'' 0)
     = (True, example_text_item ''A'' 1,
        \<lparr> db_rows = [example_text_row ''A'' 1 1], db_sequence = 1 \<rparr>,
        [SIGNAL_ITEM_ADDED (example_text_item ''A'' 1)])"
    by (simp add: clipman_storage_add_item_def sqlite_healthy_def select_id_by_checksum_def
          insert_row_def next_rowid_def row_of_item_def clipman_item_set_id_def empty_db_def
          example_text_item_def example_text_row_def)
  have s: "(1999999 :: int) sdiv 1000000 = 1"
    by (simp add: signed_divide_int_def)
  have add2: "clipman_storage_add_item example_externals sqlite_healthy 1999999
       \<lparr> db_rows = [example_text_row ''A'' 1 1], db_sequence = 1 \<rparr>
       (example_text_item ''B'' 0)
     = (True, example_text_item ''B'' 2,
        \<lparr> db_rows = [example_text_row ''A'' 1 1, example_text_row ''B'' 2 1], db_sequence = 2 \<rparr>,
        [SIGNAL_ITEM_ADDED (example_text_item ''B'' 2)])"
    by (simp add: clipman_storage_add_item_def sqlite_healthy_def select_id_by_checksum_def
          insert_row_def next_rowid_def row_of_item_def clipman_item_set_id_def s
          example_text_item_def example_text_row_def)
  have ia: "item_from_row example_externals (example_text_row ''A'' 1 1)
             = Some (example_text_item ''A'' 1)"
    using example_text_item_built(1)
    by (simp add: item_from_row_def example_text_row_def clipman_item_set_id_def
          example_text_item_def)
  have o: "order_by_timestamp_desc
             (db_rows \<lparr> db_rows = [example_text_row ''A'' 1 1, example_text_row ''B'' 2 1],
                        db_sequence = 2 \<rparr>)
             = [example_text_row ''A'' 1 1, example_text_row ''B'' 2 1]"
    by (simp add: order_by_timestamp_desc_def example_text_row_def)
  have w: "on_clipboard_empty example_externals sqlite_healthy True
       \<lparr> db_rows = [example_text_row ''A'' 1 1, example_text_row ''B'' 2 1], db_sequence = 2 \<rparr>
       CLIPMAN_SOURCE_CLIPBOARD
     = [(GDK_SELECTION_CLIPBOARD, Set_Text ''A'')]"
    unfolding on_clipboard_empty_head [OF o ia]
    by (simp add: clipman_item_to_clipboard_def example_text_item_def)
  from add1 add2 w show ?thesis by (intro conjI)
qed

text \<open>
  Claim C9 as stated fails: an image whose PNG encoding fails is stored with a \<^verbatim>\<open>NULL\<close>
  blob. The table then holds one item and \<^verbatim>\<open>keep-content\<close> is enabled, but the row gives
  no item back, \<^verbatim>\<open>get_items (1)\<close> is empty and the handler writes nothing.
\<close>

theorem restore_unreadable_newest_counterexample:
  "clipman_item_new_image example_externals
       (Some \<lparr> pixbuf_width = 1, pixbuf_height = 1, pixbuf_pixels = ''rgb'' \<rparr>)
       CLIPMAN_SOURCE_CLIPBOARD
     = Some \<lparr> item_id = 0, item_type = CLIPMAN_ITEM_TYPE_IMAGE,
              item_source = CLIPMAN_SOURCE_CLIPBOARD, item_text = None,
              item_pixbuf = Some \<lparr> pixbuf_width = 1, pixbuf_height = 1, pixbuf_pixels = ''rgb'' \<rparr>,
              item_uris = None, item_checksum = ''1x1'', item_label = ''[Image 1x1]'' \<rparr>
   \<and> clipman_storage_add_item example_externals sqlite_healthy 1000000 empty_db
       \<lparr> item_id = 0, item_type = CLIPMAN_ITEM_TYPE_IMAGE,
         item_source = CLIPMAN_SOURCE_CLIPBOARD, item_text = None,
         item_pixbuf = Some \<lparr> pixbuf_width = 1, pixbuf_height = 1, pixbuf_pixels = ''rgb'' \<rparr>,
         item_uris = None, item_checksum = ''1x1'', item_label = ''[Image 1x1]'' \<rparr>
     = (True,
        \<lparr> item_id = 1, item_type = CLIPMAN_ITEM_TYPE_IMAGE,
          item_source = CLIPMAN_SOURCE_CLIPBOARD, item_text = None,
          item_pixbuf = Some \<lparr> pixbuf_width = 1, pixbuf_height = 1, pixbuf_pixels = ''rgb'' \<rparr>,
          item_uris = None, item_checksum = ''1x1'', item_label = ''[Image 1x1]'' \<rparr>,
        \<lparr> db_rows = [\<lparr> row_id = 1, row_type = CLIPMAN_ITEM_TYPE_IMAGE,
                        row_source = CLIPMAN_SOURCE_CLIPBOARD, row_checksum = ''1x1'',
                        row_label = ''[Image 1x1]'', row_text_content = None,
                        row_image_data = None, row_timestamp = 1 \<rparr>],
          db_sequence = 1 \<rparr>,
        [SIGNAL_ITEM_ADDED
           \<lparr> item_id = 1, item_type = CLIPMAN_ITEM_TYPE_IMAGE,
             item_source = CLIPMAN_SOURCE_CLIPBOARD, item_text = None,
             item_pixbuf = Some \<lparr> pixbuf_width = 1, pixbuf_height = 1, pixbuf_pixels = ''rgb'' \<rparr>,
             item_uris = None, item_checksum = ''1x1'', item_label = ''[Image 1x1]'' \<rparr>])
   \<and> on_clipboard_empty example_externals sqlite_healthy True
        \<lparr> db_rows = [\<lparr> row_id = 1, row_type = CLIPMAN_ITEM_TYPE_IMAGE,
                        row_source = CLIPMAN_SOURCE_CLIPBOARD, row_checksum = ''1x1'',
                        row_label = ''[Image 1x1]'', row_text_content = None,
                        row_image_data = None, row_timestamp = 1 \<rparr>],
          db_sequence = 1 \<rparr>
        CLIPMAN_SOURCE_CLIPBOARD
     = []"
proof -
  have d1: "decimal (Suc 0) = ''1''" by (simp add: decimal.simps)
  have img: "clipman_item_new_image example_externals
       (Some \<lparr> pixbuf_width = 1, pixbuf_height = 1, pixbuf_pixels = ''rgb'' \<rparr>)
       CLIPMAN_SOURCE_CLIPBOARD
     = Some \<lparr> item_id = 0, item_type = CLIPMAN_ITEM_TYPE_IMAGE,
              item_source = CLIPMAN_SOURCE_CLIPBOARD, item_text = None,
              item_pixbuf = Some \<lparr> pixbuf_width = 1, pixbuf_height = 1, pixbuf_pixels = ''rgb'' \<rparr>,
              item_uris = None, item_checksum = ''1x1'', item_label = ''[Image 1x1]'' \<rparr>"
    by (simp add: clipman_item_new_image_def compute_checksum_def example_externals_def
          printf_d_def d1)
  have add: "clipman_storage_add_item example_externals sqlite_healthy 1000000 empty_db
       \<lparr> item_id = 0, item_type = CLIPMAN_ITEM_TYPE_IMAGE,
         item_source = CLIPMAN_SOURCE_CLIPBOARD, item_text = None,
         item_pixbuf = Some \<lparr> pixbuf_width = 1, pixbuf_height = 1, pixbuf_pixels = ''rgb'' \<rparr>,
         item_uris = None, item_checksum = ''1x1'', item_label = ''[Image 1x1]'' \<rparr>
     = (True,
        \<lparr> item_id = 1, item_type = CLIPMAN_ITEM_TYPE_IMAGE,
          item_source = CLIPMAN_SOURCE_CLIPBOARD, item_text = None,
          item_pixbuf = Some \<lparr> pixbuf_width = 1, pixbuf_height = 1, pixbuf_pixels = ''rgb'' \<rparr>,
          item_uris = None, item_checksum = ''1x1'', item_label = ''[Image 1x1]'' \<rparr>,
        \<lparr> db_rows = [\<lparr> row_id = 1, row_type = CLIPMAN_ITEM_TYPE_IMAGE,
                        row_source = CLIPMAN_SOURCE_CLIPBOARD, row_checksum = ''1x1'',
                        row_label = ''[Image 1x1]'', row_text_content = None,
                        row_image_data = None, row_timestamp = 1 \<rparr>],
          db_sequence = 1 \<rparr>,
        [SIGNAL_ITEM_ADDED
           \<lparr> item_id = 1, item_type = CLIPMAN_ITEM_TYPE_IMAGE,
             item_source = CLIPMAN_SOURCE_CLIPBOARD, item_text = None,
             item_pixbuf = Some \<lparr> pixbuf_width = 1, pixbuf_height = 1, pixbuf_pixels = ''rgb'' \<rparr>,
             item_uris = None, item_checksum = ''1x1'', item_label = ''[Image 1x1]'' \<rparr>])"
    by (simp add: clipman_storage_add_item_def sqlite_healthy_def select_id_by_checksum_def
          insert_row_def next_rowid_def row_of_item_def clipman_item_set_id_def empty_db_def
          example_externals_def)
  have empty: "on_clipboard_empty example_externals sqlite_healthy True
        \<lparr> db_rows = [\<lparr> row_id = 1, row_type = CLIPMAN_ITEM_TYPE_IMAGE,
                        row_source = CLIPMAN_SOURCE_CLIPBOARD, row_checksum = ''1x1'',
                        row_label = ''[Image 1x1]'', row_text_content = None,
                        row_image_data = None, row_timestamp = 1 \<rparr>],
          db_sequence = 1 \<rparr>
        CLIPMAN_SOURCE_CLIPBOARD
     = []"
    by (simp add: on_clipboard_empty_def clipman_storage_get_items_def select_items_def
          sqlite_healthy_def order_by_timestamp_desc_def item_from_row_def)
  from img add empty show ?thesis by blast
qed

subsection \<open>File lists and text with the same joined string\<close>

text \<open>
  The loop of \<^verbatim>\<open>clipman_item_new_files\<close> writes the separator only when \<^verbatim>\<open>joined\<close> is
  non-empty, so empty URIs at the head of the list leave no trace in the joined string.
\<close>

lemma join_uris_empty_head_example: "join_uris [] ['''', ''a''] = ''a''"
  by simp

text \<open>
  Claim C10. For every URI list, the file-list item and the text item built from the joined
  string of the list (the string \<^verbatim>\<open>new_files\<close> computes: the URIs separated by newlines
  when the first URI is non-empty) have the same checksum, so \<^verbatim>\<open>clipman_item_equals\<close>
  holds. With the database executing its statements, adding the text item and then the
  file-list item succeeds both times, the second call touches the row of the first (same
  id, no signal) and adds no row; starting from the empty table, one row is stored.
\<close>

theorem files_and_text_share_checksum:
  "\<exists>fi ti.
      clipman_item_new_files ext (Some uris) s1 = Some fi
    \<and> clipman_item_new_text ext (Some (join_uris [] uris)) s2 = Some ti
    \<and> item_checksum fi = item_checksum ti \<and> clipman_item_equals fi ti
    \<and> (\<forall>u us. uris = u # us \<and> u \<noteq> [] \<longrightarrow>
          join_uris [] uris = u @ concat (map (\<lambda>v. CHR 0x0A # v) us))
    \<and> (\<forall>ok ti' db1 sigs1.
          clipman_storage_add_item ext sqlite_healthy rt1 db ti = (ok, ti', db1, sigs1) \<longrightarrow>
          ok \<and> (\<exists>db2. clipman_storage_add_item ext sqlite_healthy rt2 db1 fi
                        = (True, fi\<lparr>item_id := item_id ti'\<rparr>, db2, [])
                   \<and> length (db_rows db2) = length (db_rows db1)
                   \<and> (db = empty_db \<longrightarrow> length (db_rows db2) = 1)))"
proof -
  obtain fi where fi: "clipman_item_new_files ext (Some uris) s1 = Some fi"
    by (simp add: clipman_item_new_files_def Let_def)
  obtain ti where ti: "clipman_item_new_text ext (Some (join_uris [] uris)) s2 = Some ti"
    by (simp add: clipman_item_new_text_def)
  from fi ti have eq: "item_checksum fi = item_checksum ti"
    by (auto simp: clipman_item_new_files_def clipman_item_new_text_def Let_def)
  have j: "\<forall>u us. uris = u # us \<and> u \<noteq> [] \<longrightarrow>
             join_uris [] uris = u @ concat (map (\<lambda>v. CHR 0x0A # v) us)"
    using join_uris_nonempty_head by blast
  have st: "ok \<and> (\<exists>db2. clipman_storage_add_item ext sqlite_healthy rt2 db1 fi
                        = (True, fi\<lparr>item_id := item_id ti'\<rparr>, db2, [])
                   \<and> length (db_rows db2) = length (db_rows db1)
                   \<and> (db = empty_db \<longrightarrow> length (db_rows db2) = 1))"
    if run: "clipman_storage_add_item ext sqlite_healthy rt1 db ti = (ok, ti', db1, sigs1)"
    for ok ti' db1 sigs1
  proof -
    from add_item_then_select [OF run]
    have ok: ok and sel: "select_id_by_checksum db1 (item_checksum fi) = Some (item_id ti')"
      by (simp_all add: eq)
    note t = add_item_same_checksum_touches [OF sel, of ext rt2]
    have one: "length (db_rows db1) = 1" if "db = empty_db"
    proof -
      have "item_checksum ti \<notin> row_checksum ` set (db_rows db)"
        using that by (simp add: empty_db_def)
      from add_item_insert [OF this, of ext rt1] run that show ?thesis
        by (auto simp: empty_db_def)
    qed
    from ok t one show ?thesis by auto
  qed
  from fi ti eq j st show ?thesis
    unfolding clipman_item_equals_def by blast
qed

theorem files_and_text_share_checksum_witness:
  "join_uris [] [''file:///a'', ''file:///b''] = ''file:///a'' @ [CHR 0x0A] @ ''file:///b''
   \<and> (\<exists>fi ti ti' db1 sigs1 db2.
        clipman_item_new_files example_externals (Some [''file:///a'', ''file:///b''])
            CLIPMAN_SOURCE_CLIPBOARD = Some fi
      \<and> clipman_item_new_text example_externals
            (Some (join_uris [] [''file:///a'', ''file:///b''])) CLIPMAN_SOURCE_CLIPBOARD = Some ti
      \<and> item_checksum fi = item_checksum ti \<and> clipman_item_equals fi ti
      \<and> clipman_storage_add_item example_externals sqlite_healthy 1000000 empty_db ti
          = (True, ti', db1, sigs1)
      \<and> clipman_storage_add_item example_externals sqlite_healthy 2000000 db1 fi
          = (True, fi\<lparr>item_id := item_id ti'\<rparr>, db2, [])
      \<and> length (db_rows db2) = 1)"
proof -
  define uris where "uris = [''file:///a'', ''file:///b'']"
  have j: "join_uris [] uris = ''file:///a'' @ [CHR 0x0A] @ ''file:///b''"
    by (simp add: uris_def)
  from files_and_text_share_checksum
         [of example_externals uris CLIPMAN_SOURCE_CLIPBOARD
             CLIPMAN_SOURCE_CLIPBOARD 1000000 empty_db 2000000]
  obtain fi ti where
    fi: "clipman_item_new_files example_externals (Some uris) CLIPMAN_SOURCE_CLIPBOARD = Some fi"
    and ti: "clipman_item_new_text example_externals (Some (join_uris [] uris))
               CLIPMAN_SOURCE_CLIPBOARD = Some ti"
    and eq: "item_checksum fi = item_checksum ti"
    and eqs: "clipman_item_equals fi ti"
    and st: "\<forall>ok ti' db1 sigs1.
          clipman_storage_add_item example_externals sqlite_healthy 1000000 empty_db ti
            = (ok, ti', db1, sigs1) \<longrightarrow>
          ok \<and> (\<exists>db2. clipman_storage_add_item example_externals sqlite_healthy 2000000 db1 fi
                        = (True, fi\<lparr>item_id := item_id ti'\<rparr>, db2, [])
                   \<and> length (db_rows db2) = length (db_rows db1)
                   \<and> (empty_db = empty_db \<longrightarrow> length (db_rows db2) = 1))"
    by (elim exE conjE)
  obtain ok ti' db1 sigs1 where
    run: "clipman_storage_add_item example_externals sqlite_healthy 1000000 empty_db ti
            = (ok, ti', db1, sigs1)"
    by (rule prod_cases4)
  from st have "clipman_storage_add_item example_externals sqlite_healthy 1000000 empty_db ti
            = (ok, ti', db1, sigs1) \<longrightarrow>
          ok \<and> (\<exists>db2. clipman_storage_add_item example_externals sqlite_healthy 2000000 db1 fi
                        = (True, fi\<lparr>item_id := item_id ti'\<rparr>, db2, [])
                   \<and> length (db_rows db2) = length (db_rows db1)
                   \<and> (empty_db = empty_db \<longrightarrow> length (db_rows db2) = 1))"
    by (elim allE)
  with run obtain db2 where ok: "ok"
    and touch: "clipman_storage_add_item example_externals sqlite_healthy 2000000 db1 fi
            = (True, fi\<lparr>item_id := item_id ti'\<rparr>, db2, [])"
    and one: "length (db_rows db2) = 1"
    by (elim impE exE conjE) simp_all
  from run ok have run': "clipman_storage_add_item example_externals sqlite_healthy 1000000
                            empty_db ti = (True, ti', db1, sigs1)"
    by simp
  have "\<exists>fi ti ti' db1 sigs1 db2.
        clipman_item_new_files example_externals (Some uris) CLIPMAN_SOURCE_CLIPBOARD = Some fi
      \<and> clipman_item_new_text example_externals (Some (join_uris [] uris))
            CLIPMAN_SOURCE_CLIPBOARD = Some ti
      \<and> item_checksum fi = item_checksum ti \<and> clipman_item_equals fi ti
      \<and> clipman_storage_add_item example_externals sqlite_healthy 1000000 empty_db ti
          = (True, ti', db1, sigs1)
      \<and> clipman_storage_add_item example_externals sqlite_healthy 2000000 db1 fi
          = (True, fi\<lparr>item_id := item_id ti'\<rparr>, db2, [])
      \<and> length (db_rows db2) = 1"
    using fi ti eq eqs run' touch one by (intro exI conjI)
  with j show ?thesis unfolding uris_def by (rule conjI)
qed

end
